theory Spec2Isabelle
  imports Main "HOL-Library.Word" "HOL-Library.Multiset"
begin

unbundle bit_operations_syntax

section \<open>The cipher-suite catalog of \<^verbatim>\<open>ssl/s3_lib.c\<close>\<close>

text \<open>
  The development embeds the functions of \<^verbatim>\<open>ssl/s3_lib.c\<close> as they are compiled
  when no \<^verbatim>\<open>OPENSSL_NO_*\<close> macro is defined; only the two macros that guard entries
  of the cipher tables are a parameter. Bytes are \<open>8 word\<close>, \<^verbatim>\<open>uint32_t\<close> is
  \<open>32 word\<close>; \<^verbatim>\<open>int\<close> and \<^verbatim>\<open>long\<close> values that are only compared, stored or
  returned are \<open>int\<close>; \<^verbatim>\<open>size_t\<close> lengths of buffers are \<open>nat\<close>.
\<close>

type_synonym byte = "8 word"
type_synonym uint32 = "32 word"

text \<open>
  \<^verbatim>\<open>struct ssl_cipher_st\<close>, field by field in the order of the initialisers of the
  three tables. The field \<^verbatim>\<open>id\<close> is called \<open>cipher_id\<close> (\<open>id\<close> is the identity
  function of HOL); \<^verbatim>\<open>stdname\<close> may be a null pointer.
\<close>

record SSL_CIPHER =
  valid :: uint32
  name :: string
  stdname :: "string option"
  cipher_id :: uint32
  algorithm_mkey :: uint32
  algorithm_auth :: uint32
  algorithm_enc :: uint32
  algorithm_mac :: uint32
  min_tls :: int
  max_tls :: int
  min_dtls :: int
  max_dtls :: int
  algo_strength :: uint32
  algorithm2 :: uint32
  strength_bits :: int
  alg_bits :: uint32

text \<open>
  The three static tables. Most fields of their initialisers are macros of headers
  (\<^verbatim>\<open>ssl_local.h\<close>, \<^verbatim>\<open>tls1.h\<close>, \<^verbatim>\<open>ssl3.h\<close>, \<^verbatim>\<open>btls.h\<close>), so the tables are a
  parameter of every function that reads them; the identifiers follow below.
\<close>

record catalog =
  tls13_ciphers :: "SSL_CIPHER list"
  ssl3_ciphers :: "SSL_CIPHER list"
  ssl3_scsvs :: "SSL_CIPHER list"

text \<open>
  Modelled from the spec: the identifier macros of \<^verbatim>\<open>tls1.h\<close> and \<^verbatim>\<open>ssl3.h\<close>, headers
  that are not among the sources. An identifier is the flag \<^verbatim>\<open>0x03000000\<close> on the
  two-byte code that the suite has on the wire, its code point in the IANA registry of
  TLS cipher suites. The macros are abbreviations, so that a table below is written as
  its initialiser in the source and is the list of the values.
\<close>

abbreviation TLS1_3_CK_AES_128_GCM_SHA256 :: uint32 where
  "TLS1_3_CK_AES_128_GCM_SHA256 \<equiv> 0x03001301"
abbreviation TLS1_3_CK_AES_256_GCM_SHA384 :: uint32 where
  "TLS1_3_CK_AES_256_GCM_SHA384 \<equiv> 0x03001302"
abbreviation TLS1_3_CK_CHACHA20_POLY1305_SHA256 :: uint32 where
  "TLS1_3_CK_CHACHA20_POLY1305_SHA256 \<equiv> 0x03001303"
abbreviation TLS1_3_CK_AES_128_CCM_SHA256 :: uint32 where
  "TLS1_3_CK_AES_128_CCM_SHA256 \<equiv> 0x03001304"
abbreviation TLS1_3_CK_AES_128_CCM_8_SHA256 :: uint32 where
  "TLS1_3_CK_AES_128_CCM_8_SHA256 \<equiv> 0x03001305"
abbreviation SSL3_CK_RSA_NULL_MD5 :: uint32 where
  "SSL3_CK_RSA_NULL_MD5 \<equiv> 0x03000001"
abbreviation SSL3_CK_RSA_NULL_SHA :: uint32 where
  "SSL3_CK_RSA_NULL_SHA \<equiv> 0x03000002"
abbreviation SSL3_CK_RSA_DES_192_CBC3_SHA :: uint32 where
  "SSL3_CK_RSA_DES_192_CBC3_SHA \<equiv> 0x0300000A"
abbreviation SSL3_CK_DHE_DSS_DES_192_CBC3_SHA :: uint32 where
  "SSL3_CK_DHE_DSS_DES_192_CBC3_SHA \<equiv> 0x03000013"
abbreviation SSL3_CK_DHE_RSA_DES_192_CBC3_SHA :: uint32 where
  "SSL3_CK_DHE_RSA_DES_192_CBC3_SHA \<equiv> 0x03000016"
abbreviation SSL3_CK_ADH_DES_192_CBC_SHA :: uint32 where
  "SSL3_CK_ADH_DES_192_CBC_SHA \<equiv> 0x0300001B"
abbreviation TLS1_CK_RSA_WITH_AES_128_SHA :: uint32 where
  "TLS1_CK_RSA_WITH_AES_128_SHA \<equiv> 0x0300002F"
abbreviation TLS1_CK_DHE_DSS_WITH_AES_128_SHA :: uint32 where
  "TLS1_CK_DHE_DSS_WITH_AES_128_SHA \<equiv> 0x03000032"
abbreviation TLS1_CK_DHE_RSA_WITH_AES_128_SHA :: uint32 where
  "TLS1_CK_DHE_RSA_WITH_AES_128_SHA \<equiv> 0x03000033"
abbreviation TLS1_CK_ADH_WITH_AES_128_SHA :: uint32 where
  "TLS1_CK_ADH_WITH_AES_128_SHA \<equiv> 0x03000034"
abbreviation TLS1_CK_RSA_WITH_AES_256_SHA :: uint32 where
  "TLS1_CK_RSA_WITH_AES_256_SHA \<equiv> 0x03000035"
abbreviation TLS1_CK_DHE_DSS_WITH_AES_256_SHA :: uint32 where
  "TLS1_CK_DHE_DSS_WITH_AES_256_SHA \<equiv> 0x03000038"
abbreviation TLS1_CK_DHE_RSA_WITH_AES_256_SHA :: uint32 where
  "TLS1_CK_DHE_RSA_WITH_AES_256_SHA \<equiv> 0x03000039"
abbreviation TLS1_CK_ADH_WITH_AES_256_SHA :: uint32 where
  "TLS1_CK_ADH_WITH_AES_256_SHA \<equiv> 0x0300003A"
abbreviation TLS1_CK_RSA_WITH_NULL_SHA256 :: uint32 where
  "TLS1_CK_RSA_WITH_NULL_SHA256 \<equiv> 0x0300003B"
abbreviation TLS1_CK_RSA_WITH_AES_128_SHA256 :: uint32 where
  "TLS1_CK_RSA_WITH_AES_128_SHA256 \<equiv> 0x0300003C"
abbreviation TLS1_CK_RSA_WITH_AES_256_SHA256 :: uint32 where
  "TLS1_CK_RSA_WITH_AES_256_SHA256 \<equiv> 0x0300003D"
abbreviation TLS1_CK_DHE_DSS_WITH_AES_128_SHA256 :: uint32 where
  "TLS1_CK_DHE_DSS_WITH_AES_128_SHA256 \<equiv> 0x03000040"
abbreviation TLS1_CK_DHE_RSA_WITH_AES_128_SHA256 :: uint32 where
  "TLS1_CK_DHE_RSA_WITH_AES_128_SHA256 \<equiv> 0x03000067"
abbreviation TLS1_CK_DHE_DSS_WITH_AES_256_SHA256 :: uint32 where
  "TLS1_CK_DHE_DSS_WITH_AES_256_SHA256 \<equiv> 0x0300006A"
abbreviation TLS1_CK_DHE_RSA_WITH_AES_256_SHA256 :: uint32 where
  "TLS1_CK_DHE_RSA_WITH_AES_256_SHA256 \<equiv> 0x0300006B"
abbreviation TLS1_CK_ADH_WITH_AES_128_SHA256 :: uint32 where
  "TLS1_CK_ADH_WITH_AES_128_SHA256 \<equiv> 0x0300006C"
abbreviation TLS1_CK_ADH_WITH_AES_256_SHA256 :: uint32 where
  "TLS1_CK_ADH_WITH_AES_256_SHA256 \<equiv> 0x0300006D"
abbreviation TLS1_CK_RSA_WITH_AES_128_GCM_SHA256 :: uint32 where
  "TLS1_CK_RSA_WITH_AES_128_GCM_SHA256 \<equiv> 0x0300009C"
abbreviation TLS1_CK_RSA_WITH_AES_256_GCM_SHA384 :: uint32 where
  "TLS1_CK_RSA_WITH_AES_256_GCM_SHA384 \<equiv> 0x0300009D"
abbreviation TLS1_CK_DHE_RSA_WITH_AES_128_GCM_SHA256 :: uint32 where
  "TLS1_CK_DHE_RSA_WITH_AES_128_GCM_SHA256 \<equiv> 0x0300009E"
abbreviation TLS1_CK_DHE_RSA_WITH_AES_256_GCM_SHA384 :: uint32 where
  "TLS1_CK_DHE_RSA_WITH_AES_256_GCM_SHA384 \<equiv> 0x0300009F"
abbreviation TLS1_CK_DHE_DSS_WITH_AES_128_GCM_SHA256 :: uint32 where
  "TLS1_CK_DHE_DSS_WITH_AES_128_GCM_SHA256 \<equiv> 0x030000A2"
abbreviation TLS1_CK_DHE_DSS_WITH_AES_256_GCM_SHA384 :: uint32 where
  "TLS1_CK_DHE_DSS_WITH_AES_256_GCM_SHA384 \<equiv> 0x030000A3"
abbreviation TLS1_CK_ADH_WITH_AES_128_GCM_SHA256 :: uint32 where
  "TLS1_CK_ADH_WITH_AES_128_GCM_SHA256 \<equiv> 0x030000A6"
abbreviation TLS1_CK_ADH_WITH_AES_256_GCM_SHA384 :: uint32 where
  "TLS1_CK_ADH_WITH_AES_256_GCM_SHA384 \<equiv> 0x030000A7"
abbreviation TLS1_CK_RSA_WITH_AES_128_CCM :: uint32 where
  "TLS1_CK_RSA_WITH_AES_128_CCM \<equiv> 0x0300C09C"
abbreviation TLS1_CK_RSA_WITH_AES_256_CCM :: uint32 where
  "TLS1_CK_RSA_WITH_AES_256_CCM \<equiv> 0x0300C09D"
abbreviation TLS1_CK_DHE_RSA_WITH_AES_128_CCM :: uint32 where
  "TLS1_CK_DHE_RSA_WITH_AES_128_CCM \<equiv> 0x0300C09E"
abbreviation TLS1_CK_DHE_RSA_WITH_AES_256_CCM :: uint32 where
  "TLS1_CK_DHE_RSA_WITH_AES_256_CCM \<equiv> 0x0300C09F"
abbreviation TLS1_CK_RSA_WITH_AES_128_CCM_8 :: uint32 where
  "TLS1_CK_RSA_WITH_AES_128_CCM_8 \<equiv> 0x0300C0A0"
abbreviation TLS1_CK_RSA_WITH_AES_256_CCM_8 :: uint32 where
  "TLS1_CK_RSA_WITH_AES_256_CCM_8 \<equiv> 0x0300C0A1"
abbreviation TLS1_CK_DHE_RSA_WITH_AES_128_CCM_8 :: uint32 where
  "TLS1_CK_DHE_RSA_WITH_AES_128_CCM_8 \<equiv> 0x0300C0A2"
abbreviation TLS1_CK_DHE_RSA_WITH_AES_256_CCM_8 :: uint32 where
  "TLS1_CK_DHE_RSA_WITH_AES_256_CCM_8 \<equiv> 0x0300C0A3"
abbreviation TLS1_CK_PSK_WITH_AES_128_CCM :: uint32 where
  "TLS1_CK_PSK_WITH_AES_128_CCM \<equiv> 0x0300C0A4"
abbreviation TLS1_CK_PSK_WITH_AES_256_CCM :: uint32 where
  "TLS1_CK_PSK_WITH_AES_256_CCM \<equiv> 0x0300C0A5"
abbreviation TLS1_CK_DHE_PSK_WITH_AES_128_CCM :: uint32 where
  "TLS1_CK_DHE_PSK_WITH_AES_128_CCM \<equiv> 0x0300C0A6"
abbreviation TLS1_CK_DHE_PSK_WITH_AES_256_CCM :: uint32 where
  "TLS1_CK_DHE_PSK_WITH_AES_256_CCM \<equiv> 0x0300C0A7"
abbreviation TLS1_CK_PSK_WITH_AES_128_CCM_8 :: uint32 where
  "TLS1_CK_PSK_WITH_AES_128_CCM_8 \<equiv> 0x0300C0A8"
abbreviation TLS1_CK_PSK_WITH_AES_256_CCM_8 :: uint32 where
  "TLS1_CK_PSK_WITH_AES_256_CCM_8 \<equiv> 0x0300C0A9"
abbreviation TLS1_CK_DHE_PSK_WITH_AES_128_CCM_8 :: uint32 where
  "TLS1_CK_DHE_PSK_WITH_AES_128_CCM_8 \<equiv> 0x0300C0AA"
abbreviation TLS1_CK_DHE_PSK_WITH_AES_256_CCM_8 :: uint32 where
  "TLS1_CK_DHE_PSK_WITH_AES_256_CCM_8 \<equiv> 0x0300C0AB"
abbreviation TLS1_CK_ECDHE_ECDSA_WITH_AES_128_CCM :: uint32 where
  "TLS1_CK_ECDHE_ECDSA_WITH_AES_128_CCM \<equiv> 0x0300C0AC"
abbreviation TLS1_CK_ECDHE_ECDSA_WITH_AES_256_CCM :: uint32 where
  "TLS1_CK_ECDHE_ECDSA_WITH_AES_256_CCM \<equiv> 0x0300C0AD"
abbreviation TLS1_CK_ECDHE_ECDSA_WITH_AES_128_CCM_8 :: uint32 where
  "TLS1_CK_ECDHE_ECDSA_WITH_AES_128_CCM_8 \<equiv> 0x0300C0AE"
abbreviation TLS1_CK_ECDHE_ECDSA_WITH_AES_256_CCM_8 :: uint32 where
  "TLS1_CK_ECDHE_ECDSA_WITH_AES_256_CCM_8 \<equiv> 0x0300C0AF"
abbreviation TLS1_CK_ECDHE_ECDSA_WITH_NULL_SHA :: uint32 where
  "TLS1_CK_ECDHE_ECDSA_WITH_NULL_SHA \<equiv> 0x0300C006"
abbreviation TLS1_CK_ECDHE_ECDSA_WITH_DES_192_CBC3_SHA :: uint32 where
  "TLS1_CK_ECDHE_ECDSA_WITH_DES_192_CBC3_SHA \<equiv> 0x0300C008"
abbreviation TLS1_CK_ECDHE_ECDSA_WITH_AES_128_CBC_SHA :: uint32 where
  "TLS1_CK_ECDHE_ECDSA_WITH_AES_128_CBC_SHA \<equiv> 0x0300C009"
abbreviation TLS1_CK_ECDHE_ECDSA_WITH_AES_256_CBC_SHA :: uint32 where
  "TLS1_CK_ECDHE_ECDSA_WITH_AES_256_CBC_SHA \<equiv> 0x0300C00A"
abbreviation TLS1_CK_ECDHE_RSA_WITH_NULL_SHA :: uint32 where
  "TLS1_CK_ECDHE_RSA_WITH_NULL_SHA \<equiv> 0x0300C010"
abbreviation TLS1_CK_ECDHE_RSA_WITH_DES_192_CBC3_SHA :: uint32 where
  "TLS1_CK_ECDHE_RSA_WITH_DES_192_CBC3_SHA \<equiv> 0x0300C012"
abbreviation TLS1_CK_ECDHE_RSA_WITH_AES_128_CBC_SHA :: uint32 where
  "TLS1_CK_ECDHE_RSA_WITH_AES_128_CBC_SHA \<equiv> 0x0300C013"
abbreviation TLS1_CK_ECDHE_RSA_WITH_AES_256_CBC_SHA :: uint32 where
  "TLS1_CK_ECDHE_RSA_WITH_AES_256_CBC_SHA \<equiv> 0x0300C014"
abbreviation TLS1_CK_ECDH_anon_WITH_NULL_SHA :: uint32 where
  "TLS1_CK_ECDH_anon_WITH_NULL_SHA \<equiv> 0x0300C015"
abbreviation TLS1_CK_ECDH_anon_WITH_DES_192_CBC3_SHA :: uint32 where
  "TLS1_CK_ECDH_anon_WITH_DES_192_CBC3_SHA \<equiv> 0x0300C017"
abbreviation TLS1_CK_ECDH_anon_WITH_AES_128_CBC_SHA :: uint32 where
  "TLS1_CK_ECDH_anon_WITH_AES_128_CBC_SHA \<equiv> 0x0300C018"
abbreviation TLS1_CK_ECDH_anon_WITH_AES_256_CBC_SHA :: uint32 where
  "TLS1_CK_ECDH_anon_WITH_AES_256_CBC_SHA \<equiv> 0x0300C019"
abbreviation TLS1_CK_ECDHE_ECDSA_WITH_AES_128_SHA256 :: uint32 where
  "TLS1_CK_ECDHE_ECDSA_WITH_AES_128_SHA256 \<equiv> 0x0300C023"
abbreviation TLS1_CK_ECDHE_ECDSA_WITH_AES_256_SHA384 :: uint32 where
  "TLS1_CK_ECDHE_ECDSA_WITH_AES_256_SHA384 \<equiv> 0x0300C024"
abbreviation TLS1_CK_ECDHE_RSA_WITH_AES_128_SHA256 :: uint32 where
  "TLS1_CK_ECDHE_RSA_WITH_AES_128_SHA256 \<equiv> 0x0300C027"
abbreviation TLS1_CK_ECDHE_RSA_WITH_AES_256_SHA384 :: uint32 where
  "TLS1_CK_ECDHE_RSA_WITH_AES_256_SHA384 \<equiv> 0x0300C028"
abbreviation TLS1_CK_ECDHE_ECDSA_WITH_AES_128_GCM_SHA256 :: uint32 where
  "TLS1_CK_ECDHE_ECDSA_WITH_AES_128_GCM_SHA256 \<equiv> 0x0300C02B"
abbreviation TLS1_CK_ECDHE_ECDSA_WITH_AES_256_GCM_SHA384 :: uint32 where
  "TLS1_CK_ECDHE_ECDSA_WITH_AES_256_GCM_SHA384 \<equiv> 0x0300C02C"
abbreviation TLS1_CK_ECDHE_RSA_WITH_AES_128_GCM_SHA256 :: uint32 where
  "TLS1_CK_ECDHE_RSA_WITH_AES_128_GCM_SHA256 \<equiv> 0x0300C02F"
abbreviation TLS1_CK_ECDHE_RSA_WITH_AES_256_GCM_SHA384 :: uint32 where
  "TLS1_CK_ECDHE_RSA_WITH_AES_256_GCM_SHA384 \<equiv> 0x0300C030"
abbreviation TLS1_CK_PSK_WITH_NULL_SHA :: uint32 where
  "TLS1_CK_PSK_WITH_NULL_SHA \<equiv> 0x0300002C"
abbreviation TLS1_CK_DHE_PSK_WITH_NULL_SHA :: uint32 where
  "TLS1_CK_DHE_PSK_WITH_NULL_SHA \<equiv> 0x0300002D"
abbreviation TLS1_CK_RSA_PSK_WITH_NULL_SHA :: uint32 where
  "TLS1_CK_RSA_PSK_WITH_NULL_SHA \<equiv> 0x0300002E"
abbreviation TLS1_CK_PSK_WITH_3DES_EDE_CBC_SHA :: uint32 where
  "TLS1_CK_PSK_WITH_3DES_EDE_CBC_SHA \<equiv> 0x0300008B"
abbreviation TLS1_CK_PSK_WITH_AES_128_CBC_SHA :: uint32 where
  "TLS1_CK_PSK_WITH_AES_128_CBC_SHA \<equiv> 0x0300008C"
abbreviation TLS1_CK_PSK_WITH_AES_256_CBC_SHA :: uint32 where
  "TLS1_CK_PSK_WITH_AES_256_CBC_SHA \<equiv> 0x0300008D"
abbreviation TLS1_CK_DHE_PSK_WITH_3DES_EDE_CBC_SHA :: uint32 where
  "TLS1_CK_DHE_PSK_WITH_3DES_EDE_CBC_SHA \<equiv> 0x0300008F"
abbreviation TLS1_CK_DHE_PSK_WITH_AES_128_CBC_SHA :: uint32 where
  "TLS1_CK_DHE_PSK_WITH_AES_128_CBC_SHA \<equiv> 0x03000090"
abbreviation TLS1_CK_DHE_PSK_WITH_AES_256_CBC_SHA :: uint32 where
  "TLS1_CK_DHE_PSK_WITH_AES_256_CBC_SHA \<equiv> 0x03000091"
abbreviation TLS1_CK_RSA_PSK_WITH_3DES_EDE_CBC_SHA :: uint32 where
  "TLS1_CK_RSA_PSK_WITH_3DES_EDE_CBC_SHA \<equiv> 0x03000093"
abbreviation TLS1_CK_RSA_PSK_WITH_AES_128_CBC_SHA :: uint32 where
  "TLS1_CK_RSA_PSK_WITH_AES_128_CBC_SHA \<equiv> 0x03000094"
abbreviation TLS1_CK_RSA_PSK_WITH_AES_256_CBC_SHA :: uint32 where
  "TLS1_CK_RSA_PSK_WITH_AES_256_CBC_SHA \<equiv> 0x03000095"
abbreviation TLS1_CK_PSK_WITH_AES_128_GCM_SHA256 :: uint32 where
  "TLS1_CK_PSK_WITH_AES_128_GCM_SHA256 \<equiv> 0x030000A8"
abbreviation TLS1_CK_PSK_WITH_AES_256_GCM_SHA384 :: uint32 where
  "TLS1_CK_PSK_WITH_AES_256_GCM_SHA384 \<equiv> 0x030000A9"
abbreviation TLS1_CK_DHE_PSK_WITH_AES_128_GCM_SHA256 :: uint32 where
  "TLS1_CK_DHE_PSK_WITH_AES_128_GCM_SHA256 \<equiv> 0x030000AA"
abbreviation TLS1_CK_DHE_PSK_WITH_AES_256_GCM_SHA384 :: uint32 where
  "TLS1_CK_DHE_PSK_WITH_AES_256_GCM_SHA384 \<equiv> 0x030000AB"
abbreviation TLS1_CK_RSA_PSK_WITH_AES_128_GCM_SHA256 :: uint32 where
  "TLS1_CK_RSA_PSK_WITH_AES_128_GCM_SHA256 \<equiv> 0x030000AC"
abbreviation TLS1_CK_RSA_PSK_WITH_AES_256_GCM_SHA384 :: uint32 where
  "TLS1_CK_RSA_PSK_WITH_AES_256_GCM_SHA384 \<equiv> 0x030000AD"
abbreviation TLS1_CK_PSK_WITH_AES_128_CBC_SHA256 :: uint32 where
  "TLS1_CK_PSK_WITH_AES_128_CBC_SHA256 \<equiv> 0x030000AE"
abbreviation TLS1_CK_PSK_WITH_AES_256_CBC_SHA384 :: uint32 where
  "TLS1_CK_PSK_WITH_AES_256_CBC_SHA384 \<equiv> 0x030000AF"
abbreviation TLS1_CK_PSK_WITH_NULL_SHA256 :: uint32 where
  "TLS1_CK_PSK_WITH_NULL_SHA256 \<equiv> 0x030000B0"
abbreviation TLS1_CK_PSK_WITH_NULL_SHA384 :: uint32 where
  "TLS1_CK_PSK_WITH_NULL_SHA384 \<equiv> 0x030000B1"
abbreviation TLS1_CK_DHE_PSK_WITH_AES_128_CBC_SHA256 :: uint32 where
  "TLS1_CK_DHE_PSK_WITH_AES_128_CBC_SHA256 \<equiv> 0x030000B2"
abbreviation TLS1_CK_DHE_PSK_WITH_AES_256_CBC_SHA384 :: uint32 where
  "TLS1_CK_DHE_PSK_WITH_AES_256_CBC_SHA384 \<equiv> 0x030000B3"
abbreviation TLS1_CK_DHE_PSK_WITH_NULL_SHA256 :: uint32 where
  "TLS1_CK_DHE_PSK_WITH_NULL_SHA256 \<equiv> 0x030000B4"
abbreviation TLS1_CK_DHE_PSK_WITH_NULL_SHA384 :: uint32 where
  "TLS1_CK_DHE_PSK_WITH_NULL_SHA384 \<equiv> 0x030000B5"
abbreviation TLS1_CK_RSA_PSK_WITH_AES_128_CBC_SHA256 :: uint32 where
  "TLS1_CK_RSA_PSK_WITH_AES_128_CBC_SHA256 \<equiv> 0x030000B6"
abbreviation TLS1_CK_RSA_PSK_WITH_AES_256_CBC_SHA384 :: uint32 where
  "TLS1_CK_RSA_PSK_WITH_AES_256_CBC_SHA384 \<equiv> 0x030000B7"
abbreviation TLS1_CK_RSA_PSK_WITH_NULL_SHA256 :: uint32 where
  "TLS1_CK_RSA_PSK_WITH_NULL_SHA256 \<equiv> 0x030000B8"
abbreviation TLS1_CK_RSA_PSK_WITH_NULL_SHA384 :: uint32 where
  "TLS1_CK_RSA_PSK_WITH_NULL_SHA384 \<equiv> 0x030000B9"
abbreviation TLS1_CK_ECDHE_PSK_WITH_3DES_EDE_CBC_SHA :: uint32 where
  "TLS1_CK_ECDHE_PSK_WITH_3DES_EDE_CBC_SHA \<equiv> 0x0300C034"
abbreviation TLS1_CK_ECDHE_PSK_WITH_AES_128_CBC_SHA :: uint32 where
  "TLS1_CK_ECDHE_PSK_WITH_AES_128_CBC_SHA \<equiv> 0x0300C035"
abbreviation TLS1_CK_ECDHE_PSK_WITH_AES_256_CBC_SHA :: uint32 where
  "TLS1_CK_ECDHE_PSK_WITH_AES_256_CBC_SHA \<equiv> 0x0300C036"
abbreviation TLS1_CK_ECDHE_PSK_WITH_AES_128_CBC_SHA256 :: uint32 where
  "TLS1_CK_ECDHE_PSK_WITH_AES_128_CBC_SHA256 \<equiv> 0x0300C037"
abbreviation TLS1_CK_ECDHE_PSK_WITH_AES_256_CBC_SHA384 :: uint32 where
  "TLS1_CK_ECDHE_PSK_WITH_AES_256_CBC_SHA384 \<equiv> 0x0300C038"
abbreviation TLS1_CK_ECDHE_PSK_WITH_NULL_SHA :: uint32 where
  "TLS1_CK_ECDHE_PSK_WITH_NULL_SHA \<equiv> 0x0300C039"
abbreviation TLS1_CK_ECDHE_PSK_WITH_NULL_SHA256 :: uint32 where
  "TLS1_CK_ECDHE_PSK_WITH_NULL_SHA256 \<equiv> 0x0300C03A"
abbreviation TLS1_CK_ECDHE_PSK_WITH_NULL_SHA384 :: uint32 where
  "TLS1_CK_ECDHE_PSK_WITH_NULL_SHA384 \<equiv> 0x0300C03B"
abbreviation TLS1_CK_SRP_SHA_WITH_3DES_EDE_CBC_SHA :: uint32 where
  "TLS1_CK_SRP_SHA_WITH_3DES_EDE_CBC_SHA \<equiv> 0x0300C01A"
abbreviation TLS1_CK_SRP_SHA_RSA_WITH_3DES_EDE_CBC_SHA :: uint32 where
  "TLS1_CK_SRP_SHA_RSA_WITH_3DES_EDE_CBC_SHA \<equiv> 0x0300C01B"
abbreviation TLS1_CK_SRP_SHA_DSS_WITH_3DES_EDE_CBC_SHA :: uint32 where
  "TLS1_CK_SRP_SHA_DSS_WITH_3DES_EDE_CBC_SHA \<equiv> 0x0300C01C"
abbreviation TLS1_CK_SRP_SHA_WITH_AES_128_CBC_SHA :: uint32 where
  "TLS1_CK_SRP_SHA_WITH_AES_128_CBC_SHA \<equiv> 0x0300C01D"
abbreviation TLS1_CK_SRP_SHA_RSA_WITH_AES_128_CBC_SHA :: uint32 where
  "TLS1_CK_SRP_SHA_RSA_WITH_AES_128_CBC_SHA \<equiv> 0x0300C01E"
abbreviation TLS1_CK_SRP_SHA_DSS_WITH_AES_128_CBC_SHA :: uint32 where
  "TLS1_CK_SRP_SHA_DSS_WITH_AES_128_CBC_SHA \<equiv> 0x0300C01F"
abbreviation TLS1_CK_SRP_SHA_WITH_AES_256_CBC_SHA :: uint32 where
  "TLS1_CK_SRP_SHA_WITH_AES_256_CBC_SHA \<equiv> 0x0300C020"
abbreviation TLS1_CK_SRP_SHA_RSA_WITH_AES_256_CBC_SHA :: uint32 where
  "TLS1_CK_SRP_SHA_RSA_WITH_AES_256_CBC_SHA \<equiv> 0x0300C021"
abbreviation TLS1_CK_SRP_SHA_DSS_WITH_AES_256_CBC_SHA :: uint32 where
  "TLS1_CK_SRP_SHA_DSS_WITH_AES_256_CBC_SHA \<equiv> 0x0300C022"
abbreviation TLS1_CK_DHE_RSA_WITH_CHACHA20_POLY1305 :: uint32 where
  "TLS1_CK_DHE_RSA_WITH_CHACHA20_POLY1305 \<equiv> 0x0300CCAA"
abbreviation TLS1_CK_ECDHE_RSA_WITH_CHACHA20_POLY1305 :: uint32 where
  "TLS1_CK_ECDHE_RSA_WITH_CHACHA20_POLY1305 \<equiv> 0x0300CCA8"
abbreviation TLS1_CK_ECDHE_ECDSA_WITH_CHACHA20_POLY1305 :: uint32 where
  "TLS1_CK_ECDHE_ECDSA_WITH_CHACHA20_POLY1305 \<equiv> 0x0300CCA9"
abbreviation TLS1_CK_PSK_WITH_CHACHA20_POLY1305 :: uint32 where
  "TLS1_CK_PSK_WITH_CHACHA20_POLY1305 \<equiv> 0x0300CCAB"
abbreviation TLS1_CK_ECDHE_PSK_WITH_CHACHA20_POLY1305 :: uint32 where
  "TLS1_CK_ECDHE_PSK_WITH_CHACHA20_POLY1305 \<equiv> 0x0300CCAC"
abbreviation TLS1_CK_DHE_PSK_WITH_CHACHA20_POLY1305 :: uint32 where
  "TLS1_CK_DHE_PSK_WITH_CHACHA20_POLY1305 \<equiv> 0x0300CCAD"
abbreviation TLS1_CK_RSA_PSK_WITH_CHACHA20_POLY1305 :: uint32 where
  "TLS1_CK_RSA_PSK_WITH_CHACHA20_POLY1305 \<equiv> 0x0300CCAE"
abbreviation TLS1_CK_RSA_WITH_CAMELLIA_128_CBC_SHA256 :: uint32 where
  "TLS1_CK_RSA_WITH_CAMELLIA_128_CBC_SHA256 \<equiv> 0x030000BA"
abbreviation TLS1_CK_DHE_DSS_WITH_CAMELLIA_128_CBC_SHA256 :: uint32 where
  "TLS1_CK_DHE_DSS_WITH_CAMELLIA_128_CBC_SHA256 \<equiv> 0x030000BD"
abbreviation TLS1_CK_DHE_RSA_WITH_CAMELLIA_128_CBC_SHA256 :: uint32 where
  "TLS1_CK_DHE_RSA_WITH_CAMELLIA_128_CBC_SHA256 \<equiv> 0x030000BE"
abbreviation TLS1_CK_ADH_WITH_CAMELLIA_128_CBC_SHA256 :: uint32 where
  "TLS1_CK_ADH_WITH_CAMELLIA_128_CBC_SHA256 \<equiv> 0x030000BF"
abbreviation TLS1_CK_RSA_WITH_CAMELLIA_256_CBC_SHA256 :: uint32 where
  "TLS1_CK_RSA_WITH_CAMELLIA_256_CBC_SHA256 \<equiv> 0x030000C0"
abbreviation TLS1_CK_DHE_DSS_WITH_CAMELLIA_256_CBC_SHA256 :: uint32 where
  "TLS1_CK_DHE_DSS_WITH_CAMELLIA_256_CBC_SHA256 \<equiv> 0x030000C3"
abbreviation TLS1_CK_DHE_RSA_WITH_CAMELLIA_256_CBC_SHA256 :: uint32 where
  "TLS1_CK_DHE_RSA_WITH_CAMELLIA_256_CBC_SHA256 \<equiv> 0x030000C4"
abbreviation TLS1_CK_ADH_WITH_CAMELLIA_256_CBC_SHA256 :: uint32 where
  "TLS1_CK_ADH_WITH_CAMELLIA_256_CBC_SHA256 \<equiv> 0x030000C5"
abbreviation TLS1_CK_RSA_WITH_CAMELLIA_256_CBC_SHA :: uint32 where
  "TLS1_CK_RSA_WITH_CAMELLIA_256_CBC_SHA \<equiv> 0x03000084"
abbreviation TLS1_CK_DHE_DSS_WITH_CAMELLIA_256_CBC_SHA :: uint32 where
  "TLS1_CK_DHE_DSS_WITH_CAMELLIA_256_CBC_SHA \<equiv> 0x03000087"
abbreviation TLS1_CK_DHE_RSA_WITH_CAMELLIA_256_CBC_SHA :: uint32 where
  "TLS1_CK_DHE_RSA_WITH_CAMELLIA_256_CBC_SHA \<equiv> 0x03000088"
abbreviation TLS1_CK_ADH_WITH_CAMELLIA_256_CBC_SHA :: uint32 where
  "TLS1_CK_ADH_WITH_CAMELLIA_256_CBC_SHA \<equiv> 0x03000089"
abbreviation TLS1_CK_RSA_WITH_CAMELLIA_128_CBC_SHA :: uint32 where
  "TLS1_CK_RSA_WITH_CAMELLIA_128_CBC_SHA \<equiv> 0x03000041"
abbreviation TLS1_CK_DHE_DSS_WITH_CAMELLIA_128_CBC_SHA :: uint32 where
  "TLS1_CK_DHE_DSS_WITH_CAMELLIA_128_CBC_SHA \<equiv> 0x03000044"
abbreviation TLS1_CK_DHE_RSA_WITH_CAMELLIA_128_CBC_SHA :: uint32 where
  "TLS1_CK_DHE_RSA_WITH_CAMELLIA_128_CBC_SHA \<equiv> 0x03000045"
abbreviation TLS1_CK_ADH_WITH_CAMELLIA_128_CBC_SHA :: uint32 where
  "TLS1_CK_ADH_WITH_CAMELLIA_128_CBC_SHA \<equiv> 0x03000046"
abbreviation TLS1_CK_ECDHE_ECDSA_WITH_CAMELLIA_128_CBC_SHA256 :: uint32 where
  "TLS1_CK_ECDHE_ECDSA_WITH_CAMELLIA_128_CBC_SHA256 \<equiv> 0x0300C072"
abbreviation TLS1_CK_ECDHE_ECDSA_WITH_CAMELLIA_256_CBC_SHA384 :: uint32 where
  "TLS1_CK_ECDHE_ECDSA_WITH_CAMELLIA_256_CBC_SHA384 \<equiv> 0x0300C073"
abbreviation TLS1_CK_ECDHE_RSA_WITH_CAMELLIA_128_CBC_SHA256 :: uint32 where
  "TLS1_CK_ECDHE_RSA_WITH_CAMELLIA_128_CBC_SHA256 \<equiv> 0x0300C076"
abbreviation TLS1_CK_ECDHE_RSA_WITH_CAMELLIA_256_CBC_SHA384 :: uint32 where
  "TLS1_CK_ECDHE_RSA_WITH_CAMELLIA_256_CBC_SHA384 \<equiv> 0x0300C077"
abbreviation TLS1_CK_PSK_WITH_CAMELLIA_128_CBC_SHA256 :: uint32 where
  "TLS1_CK_PSK_WITH_CAMELLIA_128_CBC_SHA256 \<equiv> 0x0300C094"
abbreviation TLS1_CK_PSK_WITH_CAMELLIA_256_CBC_SHA384 :: uint32 where
  "TLS1_CK_PSK_WITH_CAMELLIA_256_CBC_SHA384 \<equiv> 0x0300C095"
abbreviation TLS1_CK_DHE_PSK_WITH_CAMELLIA_128_CBC_SHA256 :: uint32 where
  "TLS1_CK_DHE_PSK_WITH_CAMELLIA_128_CBC_SHA256 \<equiv> 0x0300C096"
abbreviation TLS1_CK_DHE_PSK_WITH_CAMELLIA_256_CBC_SHA384 :: uint32 where
  "TLS1_CK_DHE_PSK_WITH_CAMELLIA_256_CBC_SHA384 \<equiv> 0x0300C097"
abbreviation TLS1_CK_RSA_PSK_WITH_CAMELLIA_128_CBC_SHA256 :: uint32 where
  "TLS1_CK_RSA_PSK_WITH_CAMELLIA_128_CBC_SHA256 \<equiv> 0x0300C098"
abbreviation TLS1_CK_RSA_PSK_WITH_CAMELLIA_256_CBC_SHA384 :: uint32 where
  "TLS1_CK_RSA_PSK_WITH_CAMELLIA_256_CBC_SHA384 \<equiv> 0x0300C099"
abbreviation TLS1_CK_ECDHE_PSK_WITH_CAMELLIA_128_CBC_SHA256 :: uint32 where
  "TLS1_CK_ECDHE_PSK_WITH_CAMELLIA_128_CBC_SHA256 \<equiv> 0x0300C09A"
abbreviation TLS1_CK_ECDHE_PSK_WITH_CAMELLIA_256_CBC_SHA384 :: uint32 where
  "TLS1_CK_ECDHE_PSK_WITH_CAMELLIA_256_CBC_SHA384 \<equiv> 0x0300C09B"
abbreviation SSL3_CK_RSA_IDEA_128_SHA :: uint32 where
  "SSL3_CK_RSA_IDEA_128_SHA \<equiv> 0x03000007"
abbreviation TLS1_CK_RSA_WITH_SEED_SHA :: uint32 where
  "TLS1_CK_RSA_WITH_SEED_SHA \<equiv> 0x03000096"
abbreviation TLS1_CK_DHE_DSS_WITH_SEED_SHA :: uint32 where
  "TLS1_CK_DHE_DSS_WITH_SEED_SHA \<equiv> 0x03000099"
abbreviation TLS1_CK_DHE_RSA_WITH_SEED_SHA :: uint32 where
  "TLS1_CK_DHE_RSA_WITH_SEED_SHA \<equiv> 0x0300009A"
abbreviation TLS1_CK_ADH_WITH_SEED_SHA :: uint32 where
  "TLS1_CK_ADH_WITH_SEED_SHA \<equiv> 0x0300009B"
abbreviation SSL3_CK_RSA_RC4_128_MD5 :: uint32 where
  "SSL3_CK_RSA_RC4_128_MD5 \<equiv> 0x03000004"
abbreviation SSL3_CK_RSA_RC4_128_SHA :: uint32 where
  "SSL3_CK_RSA_RC4_128_SHA \<equiv> 0x03000005"
abbreviation SSL3_CK_ADH_RC4_128_MD5 :: uint32 where
  "SSL3_CK_ADH_RC4_128_MD5 \<equiv> 0x03000018"
abbreviation TLS1_CK_ECDHE_PSK_WITH_RC4_128_SHA :: uint32 where
  "TLS1_CK_ECDHE_PSK_WITH_RC4_128_SHA \<equiv> 0x0300C033"
abbreviation TLS1_CK_ECDH_anon_WITH_RC4_128_SHA :: uint32 where
  "TLS1_CK_ECDH_anon_WITH_RC4_128_SHA \<equiv> 0x0300C016"
abbreviation TLS1_CK_ECDHE_ECDSA_WITH_RC4_128_SHA :: uint32 where
  "TLS1_CK_ECDHE_ECDSA_WITH_RC4_128_SHA \<equiv> 0x0300C007"
abbreviation TLS1_CK_ECDHE_RSA_WITH_RC4_128_SHA :: uint32 where
  "TLS1_CK_ECDHE_RSA_WITH_RC4_128_SHA \<equiv> 0x0300C011"
abbreviation TLS1_CK_PSK_WITH_RC4_128_SHA :: uint32 where
  "TLS1_CK_PSK_WITH_RC4_128_SHA \<equiv> 0x0300008A"
abbreviation TLS1_CK_RSA_PSK_WITH_RC4_128_SHA :: uint32 where
  "TLS1_CK_RSA_PSK_WITH_RC4_128_SHA \<equiv> 0x03000092"
abbreviation TLS1_CK_DHE_PSK_WITH_RC4_128_SHA :: uint32 where
  "TLS1_CK_DHE_PSK_WITH_RC4_128_SHA \<equiv> 0x0300008E"
abbreviation TLS1_CK_RSA_WITH_ARIA_128_GCM_SHA256 :: uint32 where
  "TLS1_CK_RSA_WITH_ARIA_128_GCM_SHA256 \<equiv> 0x0300C050"
abbreviation TLS1_CK_RSA_WITH_ARIA_256_GCM_SHA384 :: uint32 where
  "TLS1_CK_RSA_WITH_ARIA_256_GCM_SHA384 \<equiv> 0x0300C051"
abbreviation TLS1_CK_DHE_RSA_WITH_ARIA_128_GCM_SHA256 :: uint32 where
  "TLS1_CK_DHE_RSA_WITH_ARIA_128_GCM_SHA256 \<equiv> 0x0300C052"
abbreviation TLS1_CK_DHE_RSA_WITH_ARIA_256_GCM_SHA384 :: uint32 where
  "TLS1_CK_DHE_RSA_WITH_ARIA_256_GCM_SHA384 \<equiv> 0x0300C053"
abbreviation TLS1_CK_DHE_DSS_WITH_ARIA_128_GCM_SHA256 :: uint32 where
  "TLS1_CK_DHE_DSS_WITH_ARIA_128_GCM_SHA256 \<equiv> 0x0300C056"
abbreviation TLS1_CK_DHE_DSS_WITH_ARIA_256_GCM_SHA384 :: uint32 where
  "TLS1_CK_DHE_DSS_WITH_ARIA_256_GCM_SHA384 \<equiv> 0x0300C057"
abbreviation TLS1_CK_ECDHE_ECDSA_WITH_ARIA_128_GCM_SHA256 :: uint32 where
  "TLS1_CK_ECDHE_ECDSA_WITH_ARIA_128_GCM_SHA256 \<equiv> 0x0300C05C"
abbreviation TLS1_CK_ECDHE_ECDSA_WITH_ARIA_256_GCM_SHA384 :: uint32 where
  "TLS1_CK_ECDHE_ECDSA_WITH_ARIA_256_GCM_SHA384 \<equiv> 0x0300C05D"
abbreviation TLS1_CK_ECDHE_RSA_WITH_ARIA_128_GCM_SHA256 :: uint32 where
  "TLS1_CK_ECDHE_RSA_WITH_ARIA_128_GCM_SHA256 \<equiv> 0x0300C060"
abbreviation TLS1_CK_ECDHE_RSA_WITH_ARIA_256_GCM_SHA384 :: uint32 where
  "TLS1_CK_ECDHE_RSA_WITH_ARIA_256_GCM_SHA384 \<equiv> 0x0300C061"
abbreviation TLS1_CK_PSK_WITH_ARIA_128_GCM_SHA256 :: uint32 where
  "TLS1_CK_PSK_WITH_ARIA_128_GCM_SHA256 \<equiv> 0x0300C06A"
abbreviation TLS1_CK_PSK_WITH_ARIA_256_GCM_SHA384 :: uint32 where
  "TLS1_CK_PSK_WITH_ARIA_256_GCM_SHA384 \<equiv> 0x0300C06B"
abbreviation TLS1_CK_DHE_PSK_WITH_ARIA_128_GCM_SHA256 :: uint32 where
  "TLS1_CK_DHE_PSK_WITH_ARIA_128_GCM_SHA256 \<equiv> 0x0300C06C"
abbreviation TLS1_CK_DHE_PSK_WITH_ARIA_256_GCM_SHA384 :: uint32 where
  "TLS1_CK_DHE_PSK_WITH_ARIA_256_GCM_SHA384 \<equiv> 0x0300C06D"
abbreviation TLS1_CK_RSA_PSK_WITH_ARIA_128_GCM_SHA256 :: uint32 where
  "TLS1_CK_RSA_PSK_WITH_ARIA_128_GCM_SHA256 \<equiv> 0x0300C06E"
abbreviation TLS1_CK_RSA_PSK_WITH_ARIA_256_GCM_SHA384 :: uint32 where
  "TLS1_CK_RSA_PSK_WITH_ARIA_256_GCM_SHA384 \<equiv> 0x0300C06F"
abbreviation SSL3_CK_SCSV :: uint32 where
  "SSL3_CK_SCSV \<equiv> 0x030000FF"
abbreviation SSL3_CK_FALLBACK_SCSV :: uint32 where
  "SSL3_CK_FALLBACK_SCSV \<equiv> 0x03005600"

text \<open>
  An entry between \<^verbatim>\<open>#ifndef OPENSSL_NO_WEAK_SSL_CIPHERS\<close> or \<^verbatim>\<open>#ifndef OPENSSL_NO_GOST\<close>
  and its \<^verbatim>\<open>#endif\<close> is compiled only when the configuration does not define the macro.
\<close>

datatype guard = Always | Ifndef_NO_WEAK_SSL_CIPHERS | Ifndef_NO_GOST

record configuration =
  OPENSSL_NO_WEAK_SSL_CIPHERS :: bool
  OPENSSL_NO_GOST :: bool

definition compiled :: "configuration \<Rightarrow> guard \<Rightarrow> bool" where
  "compiled B g =
     (case g of
        Always \<Rightarrow> True
      | Ifndef_NO_WEAK_SSL_CIPHERS \<Rightarrow> \<not> OPENSSL_NO_WEAK_SSL_CIPHERS B
      | Ifndef_NO_GOST \<Rightarrow> \<not> OPENSSL_NO_GOST B)"

text \<open>
  The field \<^verbatim>\<open>id\<close> of the initialisers of the three tables, entry by entry in the order
  of the source; the entries of \<^verbatim>\<open>ssl3_ciphers\<close> with their guard. Fifteen entries of
  \<^verbatim>\<open>ssl3_ciphers\<close> give the identifier as a number, the others by macro.
\<close>

definition tls13_ciphers_id :: "uint32 list" where
  "tls13_ciphers_id =
    [TLS1_3_CK_AES_128_GCM_SHA256, TLS1_3_CK_AES_256_GCM_SHA384,
     TLS1_3_CK_CHACHA20_POLY1305_SHA256, TLS1_3_CK_AES_128_CCM_SHA256,
     TLS1_3_CK_AES_128_CCM_8_SHA256]"

definition ssl3_ciphers_id :: "(guard \<times> uint32) list" where
  "ssl3_ciphers_id =
    [(Always, SSL3_CK_RSA_NULL_MD5), (Always, SSL3_CK_RSA_NULL_SHA),
     (Ifndef_NO_WEAK_SSL_CIPHERS, SSL3_CK_RSA_DES_192_CBC3_SHA),
     (Ifndef_NO_WEAK_SSL_CIPHERS, SSL3_CK_DHE_DSS_DES_192_CBC3_SHA),
     (Ifndef_NO_WEAK_SSL_CIPHERS, SSL3_CK_DHE_RSA_DES_192_CBC3_SHA),
     (Ifndef_NO_WEAK_SSL_CIPHERS, SSL3_CK_ADH_DES_192_CBC_SHA),
     (Always, TLS1_CK_RSA_WITH_AES_128_SHA), (Always, TLS1_CK_DHE_DSS_WITH_AES_128_SHA),
     (Always, TLS1_CK_DHE_RSA_WITH_AES_128_SHA), (Always, TLS1_CK_ADH_WITH_AES_128_SHA),
     (Always, TLS1_CK_RSA_WITH_AES_256_SHA), (Always, TLS1_CK_DHE_DSS_WITH_AES_256_SHA),
     (Always, TLS1_CK_DHE_RSA_WITH_AES_256_SHA), (Always, TLS1_CK_ADH_WITH_AES_256_SHA),
     (Always, TLS1_CK_RSA_WITH_NULL_SHA256), (Always, TLS1_CK_RSA_WITH_AES_128_SHA256),
     (Always, TLS1_CK_RSA_WITH_AES_256_SHA256), (Always, TLS1_CK_DHE_DSS_WITH_AES_128_SHA256),
     (Always, TLS1_CK_DHE_RSA_WITH_AES_128_SHA256), (Always, TLS1_CK_DHE_DSS_WITH_AES_256_SHA256),
     (Always, TLS1_CK_DHE_RSA_WITH_AES_256_SHA256), (Always, TLS1_CK_ADH_WITH_AES_128_SHA256),
     (Always, TLS1_CK_ADH_WITH_AES_256_SHA256), (Always, TLS1_CK_RSA_WITH_AES_128_GCM_SHA256),
     (Always, TLS1_CK_RSA_WITH_AES_256_GCM_SHA384),
     (Always, TLS1_CK_DHE_RSA_WITH_AES_128_GCM_SHA256),
     (Always, TLS1_CK_DHE_RSA_WITH_AES_256_GCM_SHA384),
     (Always, TLS1_CK_DHE_DSS_WITH_AES_128_GCM_SHA256),
     (Always, TLS1_CK_DHE_DSS_WITH_AES_256_GCM_SHA384),
     (Always, TLS1_CK_ADH_WITH_AES_128_GCM_SHA256), (Always, TLS1_CK_ADH_WITH_AES_256_GCM_SHA384),
     (Always, TLS1_CK_RSA_WITH_AES_128_CCM), (Always, TLS1_CK_RSA_WITH_AES_256_CCM),
     (Always, TLS1_CK_DHE_RSA_WITH_AES_128_CCM), (Always, TLS1_CK_DHE_RSA_WITH_AES_256_CCM),
     (Always, TLS1_CK_RSA_WITH_AES_128_CCM_8), (Always, TLS1_CK_RSA_WITH_AES_256_CCM_8),
     (Always, TLS1_CK_DHE_RSA_WITH_AES_128_CCM_8), (Always, TLS1_CK_DHE_RSA_WITH_AES_256_CCM_8),
     (Always, TLS1_CK_PSK_WITH_AES_128_CCM), (Always, TLS1_CK_PSK_WITH_AES_256_CCM),
     (Always, TLS1_CK_DHE_PSK_WITH_AES_128_CCM), (Always, TLS1_CK_DHE_PSK_WITH_AES_256_CCM),
     (Always, TLS1_CK_PSK_WITH_AES_128_CCM_8), (Always, TLS1_CK_PSK_WITH_AES_256_CCM_8),
     (Always, TLS1_CK_DHE_PSK_WITH_AES_128_CCM_8), (Always, TLS1_CK_DHE_PSK_WITH_AES_256_CCM_8),
     (Always, TLS1_CK_ECDHE_ECDSA_WITH_AES_128_CCM),
     (Always, TLS1_CK_ECDHE_ECDSA_WITH_AES_256_CCM),
     (Always, TLS1_CK_ECDHE_ECDSA_WITH_AES_128_CCM_8),
     (Always, TLS1_CK_ECDHE_ECDSA_WITH_AES_256_CCM_8),
     (Always, TLS1_CK_ECDHE_ECDSA_WITH_NULL_SHA),
     (Ifndef_NO_WEAK_SSL_CIPHERS, TLS1_CK_ECDHE_ECDSA_WITH_DES_192_CBC3_SHA),
     (Always, TLS1_CK_ECDHE_ECDSA_WITH_AES_128_CBC_SHA),
     (Always, TLS1_CK_ECDHE_ECDSA_WITH_AES_256_CBC_SHA),
     (Always, TLS1_CK_ECDHE_RSA_WITH_NULL_SHA),
     (Ifndef_NO_WEAK_SSL_CIPHERS, TLS1_CK_ECDHE_RSA_WITH_DES_192_CBC3_SHA),
     (Always, TLS1_CK_ECDHE_RSA_WITH_AES_128_CBC_SHA),
     (Always, TLS1_CK_ECDHE_RSA_WITH_AES_256_CBC_SHA), (Always, TLS1_CK_ECDH_anon_WITH_NULL_SHA),
     (Ifndef_NO_WEAK_SSL_CIPHERS, TLS1_CK_ECDH_anon_WITH_DES_192_CBC3_SHA),
     (Always, TLS1_CK_ECDH_anon_WITH_AES_128_CBC_SHA),
     (Always, TLS1_CK_ECDH_anon_WITH_AES_256_CBC_SHA),
     (Always, TLS1_CK_ECDHE_ECDSA_WITH_AES_128_SHA256),
     (Always, TLS1_CK_ECDHE_ECDSA_WITH_AES_256_SHA384),
     (Always, TLS1_CK_ECDHE_RSA_WITH_AES_128_SHA256),
     (Always, TLS1_CK_ECDHE_RSA_WITH_AES_256_SHA384),
     (Always, TLS1_CK_ECDHE_ECDSA_WITH_AES_128_GCM_SHA256),
     (Always, TLS1_CK_ECDHE_ECDSA_WITH_AES_256_GCM_SHA384),
     (Always, TLS1_CK_ECDHE_RSA_WITH_AES_128_GCM_SHA256),
     (Always, TLS1_CK_ECDHE_RSA_WITH_AES_256_GCM_SHA384), (Always, TLS1_CK_PSK_WITH_NULL_SHA),
     (Always, TLS1_CK_DHE_PSK_WITH_NULL_SHA), (Always, TLS1_CK_RSA_PSK_WITH_NULL_SHA),
     (Ifndef_NO_WEAK_SSL_CIPHERS, TLS1_CK_PSK_WITH_3DES_EDE_CBC_SHA),
     (Always, TLS1_CK_PSK_WITH_AES_128_CBC_SHA), (Always, TLS1_CK_PSK_WITH_AES_256_CBC_SHA),
     (Ifndef_NO_WEAK_SSL_CIPHERS, TLS1_CK_DHE_PSK_WITH_3DES_EDE_CBC_SHA),
     (Always, TLS1_CK_DHE_PSK_WITH_AES_128_CBC_SHA),
     (Always, TLS1_CK_DHE_PSK_WITH_AES_256_CBC_SHA),
     (Ifndef_NO_WEAK_SSL_CIPHERS, TLS1_CK_RSA_PSK_WITH_3DES_EDE_CBC_SHA),
     (Always, TLS1_CK_RSA_PSK_WITH_AES_128_CBC_SHA),
     (Always, TLS1_CK_RSA_PSK_WITH_AES_256_CBC_SHA),
     (Always, TLS1_CK_PSK_WITH_AES_128_GCM_SHA256), (Always, TLS1_CK_PSK_WITH_AES_256_GCM_SHA384),
     (Always, TLS1_CK_DHE_PSK_WITH_AES_128_GCM_SHA256),
     (Always, TLS1_CK_DHE_PSK_WITH_AES_256_GCM_SHA384),
     (Always, TLS1_CK_RSA_PSK_WITH_AES_128_GCM_SHA256),
     (Always, TLS1_CK_RSA_PSK_WITH_AES_256_GCM_SHA384),
     (Always, TLS1_CK_PSK_WITH_AES_128_CBC_SHA256), (Always, TLS1_CK_PSK_WITH_AES_256_CBC_SHA384),
     (Always, TLS1_CK_PSK_WITH_NULL_SHA256), (Always, TLS1_CK_PSK_WITH_NULL_SHA384),
     (Always, TLS1_CK_DHE_PSK_WITH_AES_128_CBC_SHA256),
     (Always, TLS1_CK_DHE_PSK_WITH_AES_256_CBC_SHA384),
     (Always, TLS1_CK_DHE_PSK_WITH_NULL_SHA256), (Always, TLS1_CK_DHE_PSK_WITH_NULL_SHA384),
     (Always, TLS1_CK_RSA_PSK_WITH_AES_128_CBC_SHA256),
     (Always, TLS1_CK_RSA_PSK_WITH_AES_256_CBC_SHA384),
     (Always, TLS1_CK_RSA_PSK_WITH_NULL_SHA256), (Always, TLS1_CK_RSA_PSK_WITH_NULL_SHA384),
     (Ifndef_NO_WEAK_SSL_CIPHERS, TLS1_CK_ECDHE_PSK_WITH_3DES_EDE_CBC_SHA),
     (Always, TLS1_CK_ECDHE_PSK_WITH_AES_128_CBC_SHA),
     (Always, TLS1_CK_ECDHE_PSK_WITH_AES_256_CBC_SHA),
     (Always, TLS1_CK_ECDHE_PSK_WITH_AES_128_CBC_SHA256),
     (Always, TLS1_CK_ECDHE_PSK_WITH_AES_256_CBC_SHA384),
     (Always, TLS1_CK_ECDHE_PSK_WITH_NULL_SHA), (Always, TLS1_CK_ECDHE_PSK_WITH_NULL_SHA256),
     (Always, TLS1_CK_ECDHE_PSK_WITH_NULL_SHA384),
     (Ifndef_NO_WEAK_SSL_CIPHERS, TLS1_CK_SRP_SHA_WITH_3DES_EDE_CBC_SHA),
     (Ifndef_NO_WEAK_SSL_CIPHERS, TLS1_CK_SRP_SHA_RSA_WITH_3DES_EDE_CBC_SHA),
     (Ifndef_NO_WEAK_SSL_CIPHERS, TLS1_CK_SRP_SHA_DSS_WITH_3DES_EDE_CBC_SHA),
     (Always, TLS1_CK_SRP_SHA_WITH_AES_128_CBC_SHA),
     (Always, TLS1_CK_SRP_SHA_RSA_WITH_AES_128_CBC_SHA),
     (Always, TLS1_CK_SRP_SHA_DSS_WITH_AES_128_CBC_SHA),
     (Always, TLS1_CK_SRP_SHA_WITH_AES_256_CBC_SHA),
     (Always, TLS1_CK_SRP_SHA_RSA_WITH_AES_256_CBC_SHA),
     (Always, TLS1_CK_SRP_SHA_DSS_WITH_AES_256_CBC_SHA),
     (Always, TLS1_CK_DHE_RSA_WITH_CHACHA20_POLY1305),
     (Always, TLS1_CK_ECDHE_RSA_WITH_CHACHA20_POLY1305),
     (Always, TLS1_CK_ECDHE_ECDSA_WITH_CHACHA20_POLY1305),
     (Always, TLS1_CK_PSK_WITH_CHACHA20_POLY1305),
     (Always, TLS1_CK_ECDHE_PSK_WITH_CHACHA20_POLY1305),
     (Always, TLS1_CK_DHE_PSK_WITH_CHACHA20_POLY1305),
     (Always, TLS1_CK_RSA_PSK_WITH_CHACHA20_POLY1305),
     (Always, TLS1_CK_RSA_WITH_CAMELLIA_128_CBC_SHA256),
     (Always, TLS1_CK_DHE_DSS_WITH_CAMELLIA_128_CBC_SHA256),
     (Always, TLS1_CK_DHE_RSA_WITH_CAMELLIA_128_CBC_SHA256),
     (Always, TLS1_CK_ADH_WITH_CAMELLIA_128_CBC_SHA256),
     (Always, TLS1_CK_RSA_WITH_CAMELLIA_256_CBC_SHA256),
     (Always, TLS1_CK_DHE_DSS_WITH_CAMELLIA_256_CBC_SHA256),
     (Always, TLS1_CK_DHE_RSA_WITH_CAMELLIA_256_CBC_SHA256),
     (Always, TLS1_CK_ADH_WITH_CAMELLIA_256_CBC_SHA256),
     (Always, TLS1_CK_RSA_WITH_CAMELLIA_256_CBC_SHA),
     (Always, TLS1_CK_DHE_DSS_WITH_CAMELLIA_256_CBC_SHA),
     (Always, TLS1_CK_DHE_RSA_WITH_CAMELLIA_256_CBC_SHA),
     (Always, TLS1_CK_ADH_WITH_CAMELLIA_256_CBC_SHA),
     (Always, TLS1_CK_RSA_WITH_CAMELLIA_128_CBC_SHA),
     (Always, TLS1_CK_DHE_DSS_WITH_CAMELLIA_128_CBC_SHA),
     (Always, TLS1_CK_DHE_RSA_WITH_CAMELLIA_128_CBC_SHA),
     (Always, TLS1_CK_ADH_WITH_CAMELLIA_128_CBC_SHA),
     (Always, TLS1_CK_ECDHE_ECDSA_WITH_CAMELLIA_128_CBC_SHA256),
     (Always, TLS1_CK_ECDHE_ECDSA_WITH_CAMELLIA_256_CBC_SHA384),
     (Always, TLS1_CK_ECDHE_RSA_WITH_CAMELLIA_128_CBC_SHA256),
     (Always, TLS1_CK_ECDHE_RSA_WITH_CAMELLIA_256_CBC_SHA384),
     (Always, TLS1_CK_PSK_WITH_CAMELLIA_128_CBC_SHA256),
     (Always, TLS1_CK_PSK_WITH_CAMELLIA_256_CBC_SHA384),
     (Always, TLS1_CK_DHE_PSK_WITH_CAMELLIA_128_CBC_SHA256),
     (Always, TLS1_CK_DHE_PSK_WITH_CAMELLIA_256_CBC_SHA384),
     (Always, TLS1_CK_RSA_PSK_WITH_CAMELLIA_128_CBC_SHA256),
     (Always, TLS1_CK_RSA_PSK_WITH_CAMELLIA_256_CBC_SHA384),
     (Always, TLS1_CK_ECDHE_PSK_WITH_CAMELLIA_128_CBC_SHA256),
     (Always, TLS1_CK_ECDHE_PSK_WITH_CAMELLIA_256_CBC_SHA384), (Ifndef_NO_GOST, 0x3000081),
     (Ifndef_NO_GOST, 0x3000083), (Ifndef_NO_GOST, 0x0300c102), (Ifndef_NO_GOST, 0x0300ff85),
     (Ifndef_NO_GOST, 0x0300ff87), (Ifndef_NO_GOST, 0x0300C100), (Ifndef_NO_GOST, 0x0300C101),
     (Always, SSL3_CK_RSA_IDEA_128_SHA), (Always, TLS1_CK_RSA_WITH_SEED_SHA),
     (Always, TLS1_CK_DHE_DSS_WITH_SEED_SHA), (Always, TLS1_CK_DHE_RSA_WITH_SEED_SHA),
     (Always, TLS1_CK_ADH_WITH_SEED_SHA), (Ifndef_NO_WEAK_SSL_CIPHERS, SSL3_CK_RSA_RC4_128_MD5),
     (Ifndef_NO_WEAK_SSL_CIPHERS, SSL3_CK_RSA_RC4_128_SHA),
     (Ifndef_NO_WEAK_SSL_CIPHERS, SSL3_CK_ADH_RC4_128_MD5),
     (Ifndef_NO_WEAK_SSL_CIPHERS, TLS1_CK_ECDHE_PSK_WITH_RC4_128_SHA),
     (Ifndef_NO_WEAK_SSL_CIPHERS, TLS1_CK_ECDH_anon_WITH_RC4_128_SHA),
     (Ifndef_NO_WEAK_SSL_CIPHERS, TLS1_CK_ECDHE_ECDSA_WITH_RC4_128_SHA),
     (Ifndef_NO_WEAK_SSL_CIPHERS, TLS1_CK_ECDHE_RSA_WITH_RC4_128_SHA),
     (Ifndef_NO_WEAK_SSL_CIPHERS, TLS1_CK_PSK_WITH_RC4_128_SHA),
     (Ifndef_NO_WEAK_SSL_CIPHERS, TLS1_CK_RSA_PSK_WITH_RC4_128_SHA),
     (Ifndef_NO_WEAK_SSL_CIPHERS, TLS1_CK_DHE_PSK_WITH_RC4_128_SHA),
     (Always, TLS1_CK_RSA_WITH_ARIA_128_GCM_SHA256),
     (Always, TLS1_CK_RSA_WITH_ARIA_256_GCM_SHA384),
     (Always, TLS1_CK_DHE_RSA_WITH_ARIA_128_GCM_SHA256),
     (Always, TLS1_CK_DHE_RSA_WITH_ARIA_256_GCM_SHA384),
     (Always, TLS1_CK_DHE_DSS_WITH_ARIA_128_GCM_SHA256),
     (Always, TLS1_CK_DHE_DSS_WITH_ARIA_256_GCM_SHA384),
     (Always, TLS1_CK_ECDHE_ECDSA_WITH_ARIA_128_GCM_SHA256),
     (Always, TLS1_CK_ECDHE_ECDSA_WITH_ARIA_256_GCM_SHA384),
     (Always, TLS1_CK_ECDHE_RSA_WITH_ARIA_128_GCM_SHA256),
     (Always, TLS1_CK_ECDHE_RSA_WITH_ARIA_256_GCM_SHA384),
     (Always, TLS1_CK_PSK_WITH_ARIA_128_GCM_SHA256),
     (Always, TLS1_CK_PSK_WITH_ARIA_256_GCM_SHA384),
     (Always, TLS1_CK_DHE_PSK_WITH_ARIA_128_GCM_SHA256),
     (Always, TLS1_CK_DHE_PSK_WITH_ARIA_256_GCM_SHA384),
     (Always, TLS1_CK_RSA_PSK_WITH_ARIA_128_GCM_SHA256),
     (Always, TLS1_CK_RSA_PSK_WITH_ARIA_256_GCM_SHA384), (Always, 0x0300ff15),
     (Always, 0x0300ff16), (Always, 0x0300ff17), (Always, 0x0300ff18), (Always, 0x0300ff19),
     (Always, 0x0300ff1a), (Always, 0x0300ff1b), (Always, 0x0300ff1c)]"

definition ssl3_scsvs_id :: "uint32 list" where
  "ssl3_scsvs_id =
    [SSL3_CK_SCSV, SSL3_CK_FALLBACK_SCSV]"

text \<open>
  \<open>static_tables B cat\<close>: the tables of \<open>cat\<close> hold the identifiers of the initialisers
  as the configuration \<open>B\<close> compiles them.
\<close>

definition static_tables :: "configuration \<Rightarrow> catalog \<Rightarrow> bool" where
  "static_tables B cat \<longleftrightarrow>
     map cipher_id (tls13_ciphers cat) = tls13_ciphers_id \<and>
     map cipher_id (ssl3_ciphers cat) = map snd (filter (\<lambda>e. compiled B (fst e)) ssl3_ciphers_id) \<and>
     map cipher_id (ssl3_scsvs cat) = ssl3_scsvs_id"

definition cipher_compare :: "SSL_CIPHER \<Rightarrow> SSL_CIPHER \<Rightarrow> int" where
  "cipher_compare ap bp =
     (if cipher_id ap = cipher_id bp then 0
      else if cipher_id ap < cipher_id bp then - 1 else 1)"

text \<open>
  \<^verbatim>\<open>qsort(base, n, size, compar)\<close> of the C library: the array is rearranged into an
  order in which \<open>compar\<close> never reports a later element as smaller than an earlier one.
  The embedding inserts the elements one by one; \<open>qsort_any_order\<close> below shows that the
  sequence of identifiers does not depend on this choice.
\<close>

fun qsort_insert :: "('a \<Rightarrow> 'a \<Rightarrow> int) \<Rightarrow> 'a \<Rightarrow> 'a list \<Rightarrow> 'a list" where
  "qsort_insert compar x [] = [x]"
| "qsort_insert compar x (y # ys) =
     (if compar x y \<le> 0 then x # y # ys else y # qsort_insert compar x ys)"

definition qsort :: "('a \<Rightarrow> 'a \<Rightarrow> int) \<Rightarrow> 'a list \<Rightarrow> 'a list" where
  "qsort compar base = foldr (qsort_insert compar) base []"

definition ssl_sort_cipher_list :: "catalog \<Rightarrow> catalog" where
  "ssl_sort_cipher_list cat =
     cat\<lparr>tls13_ciphers := qsort cipher_compare (tls13_ciphers cat),
         ssl3_ciphers := qsort cipher_compare (ssl3_ciphers cat),
         ssl3_scsvs := qsort cipher_compare (ssl3_scsvs cat)\<rparr>"

text \<open>The macro \<^verbatim>\<open>SSL3_NUM_CIPHERS\<close>, which is \<^verbatim>\<open>OSSL_NELEM(ssl3_ciphers)\<close>.\<close>

definition SSL3_NUM_CIPHERS :: "catalog \<Rightarrow> nat" where
  "SSL3_NUM_CIPHERS cat = length (ssl3_ciphers cat)"

definition ssl3_num_ciphers :: "catalog \<Rightarrow> nat" where
  "ssl3_num_ciphers cat = SSL3_NUM_CIPHERS cat"

text \<open>
  \<^verbatim>\<open>ssl3_get_cipher(unsigned int u)\<close>: the comparison and the index are computed in
  \<^verbatim>\<open>size_t\<close>, where \<open>u\<close> keeps its value; a null result is \<open>None\<close>.
\<close>

definition ssl3_get_cipher :: "catalog \<Rightarrow> uint32 \<Rightarrow> SSL_CIPHER option" where
  "ssl3_get_cipher cat u =
     (if unat u < SSL3_NUM_CIPHERS cat
      then Some (ssl3_ciphers cat ! (SSL3_NUM_CIPHERS cat - 1 - unat u))
      else None)"

text \<open>
  Sample entries for evaluating the definitions: the identifier is the parameter; the
  remaining fields are those of the entries of \<open>ssl3_ciphers\<close> whose identifier the source
  writes as a literal, with the header macros replaced by \<open>0\<close>.
\<close>

definition sample_cipher :: "string \<Rightarrow> uint32 \<Rightarrow> SSL_CIPHER" where
  "sample_cipher nm i =
     \<lparr>valid = 1, name = nm, stdname = Some nm, cipher_id = i,
      algorithm_mkey = 0, algorithm_auth = 0, algorithm_enc = 0, algorithm_mac = 0,
      min_tls = 0, max_tls = 0, min_dtls = 0, max_dtls = 0,
      algo_strength = 0, algorithm2 = 0, strength_bits = 256, alg_bits = 256\<rparr>"

definition sample_catalog :: catalog where
  "sample_catalog =
     \<lparr>tls13_ciphers = [],
      ssl3_ciphers = [sample_cipher ''c102'' 0x0300c102, sample_cipher ''ff85'' 0x0300ff85,
                      sample_cipher ''C100'' 0x0300C100, sample_cipher ''ff15'' 0x0300ff15],
      ssl3_scsvs = []\<rparr>"

text \<open>
  The configuration that defines \<^verbatim>\<open>OPENSSL_NO_WEAK_SSL_CIPHERS\<close> only, and a catalog
  with the identifiers of the initialisers under it.
\<close>

definition sample_configuration :: configuration where
  "sample_configuration = \<lparr>OPENSSL_NO_WEAK_SSL_CIPHERS = True, OPENSSL_NO_GOST = False\<rparr>"

definition sample_static_catalog :: catalog where
  "sample_static_catalog =
     \<lparr>tls13_ciphers = map (sample_cipher ''tls13'') tls13_ciphers_id,
      ssl3_ciphers = map (sample_cipher ''ssl3'')
        (map snd (filter (\<lambda>e. compiled sample_configuration (fst e)) ssl3_ciphers_id)),
      ssl3_scsvs = map (sample_cipher ''scsv'') ssl3_scsvs_id\<rparr>"

section \<open>The connection and its collaborators\<close>

type_synonym cint = "32 word"
type_synonym uint16 = "16 word"
type_synonym uint64 = "64 word"

text \<open>
  A function pointer is the address it holds (\<open>0\<close> is the null pointer). The state of
  the handshake state machine (\<^verbatim>\<open>s->statem\<close>) belongs to a collaborator and is an
  opaque value here.
\<close>

type_synonym fnptr = nat
type_synonym OSSL_STATEM = nat

record SSL_SESSION =
  master_key :: "byte list"
  master_key_length :: nat
  kex_group :: int

text \<open>
  \<^verbatim>\<open>struct ssl_st\<close>, restricted to the fields the embedded functions touch. A field
  of a nested structure carries the path in its name: \<open>s3_tmp_psklen\<close> is
  \<^verbatim>\<open>s->s3.tmp.psklen\<close>, \<open>cert_dh_tmp_cb\<close> is \<^verbatim>\<open>s->cert->dh_tmp_cb\<close>. A pointer
  that may be null is an \<open>option\<close>. Counters and bit sets of type \<^verbatim>\<open>int\<close> are
  32-bit words, read as signed values by \<open>sint\<close>; an \<^verbatim>\<open>int\<close> that is only tested or
  stored is an \<open>int\<close>.
\<close>

record SSL =
  version :: int
  server :: int
  shutdown :: cint
  quiet_shutdown :: int
  options :: uint64
  mode :: uint32
  statem :: OSSL_STATEM
  session :: "SSL_SESSION option"
  cert_dh_tmp_cb :: fnptr
  ext_debug_cb :: fnptr
  ext_peer_supportedgroups :: "uint16 list"
  not_resumable_session_cb :: fnptr
  psk_server_callback :: fnptr
  srp_ctx_srp_Mask :: uint32
  s3_renegotiate :: int
  s3_num_renegotiations :: cint
  s3_total_renegotiations :: cint
  s3_alert_dispatch :: int
  s3_is_probably_safari :: int
  s3_did_kex :: int
  s3_group_id :: uint16
  s3_tmp_new_cipher :: "SSL_CIPHER option"
  s3_tmp_mask_k :: uint32
  s3_tmp_mask_a :: uint32
  s3_tmp_psk :: "byte list option"
  s3_tmp_psklen :: nat
  s3_tmp_pms :: "byte list option"
  s3_tmp_pmslen :: nat

text \<open>
  The macros of the headers that the embedded functions name (\<^verbatim>\<open>ssl.h\<close>,
  \<^verbatim>\<open>ssl3.h\<close>, \<^verbatim>\<open>tls1.h\<close>, \<^verbatim>\<open>ssl_local.h\<close>, \<^verbatim>\<open>btls.h\<close>). Their values are
  fixed by the headers, not by \<^verbatim>\<open>s3_lib.c\<close>, so they are parameters.
\<close>

record macros =
  SSL_SENT_SHUTDOWN :: cint
  SSL_RECEIVED_SHUTDOWN :: cint
  SSL3_AL_WARNING :: int
  SSL_AD_CLOSE_NOTIFY :: int
  SSL_MODE_SEND_SERVERHELLO_TIME :: uint32
  SSL_MODE_SEND_CLIENTHELLO_TIME :: uint32
  SSL_PSK :: uint32
  SSL_kPSK :: uint32
  SSL_kECDHE :: uint32
  SSL_aECDSA :: uint32
  SSL_kSRP :: uint32
  SSL_aSRP :: uint32
  SSL_CHACHA20POLY1305 :: uint32
  SSL_OP_CIPHER_SERVER_PREFERENCE :: uint64
  SSL_OP_PRIORITIZE_CHACHA :: uint64
  SSL_PKEY_NUM :: nat
  TLSEXT_nid_unknown :: cint
  SSL_SECOP_CIPHER_SHARED :: int
  OSSL_DIGEST_NAME_SHA2_256 :: string

text \<open>
  The collaborators: functions and macros defined in other files of the library
  (state machine, record layer, alert and extension code, the cryptographic provider)
  and the C library. Each is a parameter; a function that changes the connection
  returns the new one.
\<close>

record externals =
  SSL_in_init :: "SSL \<Rightarrow> bool"
  SSL_in_before :: "SSL \<Rightarrow> bool"
  ossl_statem_set_renegotiate :: "OSSL_STATEM \<Rightarrow> OSSL_STATEM"
  RECORD_LAYER_read_pending :: "SSL \<Rightarrow> bool"
  RECORD_LAYER_write_pending :: "SSL \<Rightarrow> bool"
  ssl3_send_alert :: "SSL \<Rightarrow> int \<Rightarrow> int \<Rightarrow> SSL"
  ssl_dispatch_alert :: "SSL \<Rightarrow> int \<times> SSL"
  ssl_read_bytes :: "SSL \<Rightarrow> int \<Rightarrow> nat \<Rightarrow> int \<Rightarrow> int \<times> SSL"
  time :: nat
  RAND_bytes_ex :: "nat \<Rightarrow> int \<times> byte list"
  OPENSSL_malloc :: "nat \<Rightarrow> bool"
  generate_master_secret :: "SSL \<Rightarrow> byte list \<Rightarrow> byte list option"
  SSL_IS_TLS13 :: "SSL \<Rightarrow> bool"
  tls1_group_id_lookup :: "uint16 \<Rightarrow> uint16 option"
  tls1_group_id2nid :: "uint16 \<Rightarrow> int \<Rightarrow> int"
  SSL_IS_DTLS :: "SSL \<Rightarrow> bool"
  DTLS_VERSION_LT :: "int \<Rightarrow> int \<Rightarrow> bool"
  DTLS_VERSION_GT :: "int \<Rightarrow> int \<Rightarrow> bool"
  tls1_suiteb :: "SSL \<Rightarrow> bool"
  ssl_has_cert :: "SSL \<Rightarrow> nat \<Rightarrow> bool"
  tls1_set_cert_validity :: "SSL \<Rightarrow> SSL"
  ssl_set_masks :: "SSL \<Rightarrow> SSL"
  tls1_check_ec_tmp_key :: "SSL \<Rightarrow> uint32 \<Rightarrow> bool"
  ssl_security :: "SSL \<Rightarrow> int \<Rightarrow> int \<Rightarrow> int \<Rightarrow> SSL_CIPHER \<Rightarrow> bool"
  ssl_md :: "uint32 \<Rightarrow> nat option"
  EVP_MD_is_a :: "nat \<Rightarrow> string \<Rightarrow> bool"
  sk_SSL_CIPHER_new_reserve :: "nat \<Rightarrow> bool"

section \<open>Renegotiation control\<close>

definition ssl3_renegotiate_check :: "externals \<Rightarrow> SSL \<Rightarrow> int \<Rightarrow> int \<times> SSL" where
  "ssl3_renegotiate_check E s initok =
     (if s3_renegotiate s \<noteq> 0 then
        (if \<not> RECORD_LAYER_read_pending E s \<and> \<not> RECORD_LAYER_write_pending E s \<and>
            (initok \<noteq> 0 \<or> \<not> SSL_in_init E s)
         then (1, s\<lparr>statem := ossl_statem_set_renegotiate E (statem s),
                     s3_renegotiate := 0,
                     s3_num_renegotiations := s3_num_renegotiations s + 1,
                     s3_total_renegotiations := s3_total_renegotiations s + 1\<rparr>)
         else (0, s))
      else (0, s))"

section \<open>Shutdown\<close>

text \<open>The last statement of \<^verbatim>\<open>ssl3_shutdown\<close>, reached by every path that does not return early.\<close>

definition ssl3_shutdown_finish :: "macros \<Rightarrow> SSL \<Rightarrow> int \<times> SSL" where
  "ssl3_shutdown_finish H s =
     (if shutdown s = (SSL_SENT_SHUTDOWN H OR SSL_RECEIVED_SHUTDOWN H) \<and> s3_alert_dispatch s = 0
      then (1, s) else (0, s))"

definition ssl3_shutdown :: "externals \<Rightarrow> macros \<Rightarrow> SSL \<Rightarrow> int \<times> SSL" where
  "ssl3_shutdown E H s =
     (if quiet_shutdown s \<noteq> 0 \<or> SSL_in_before E s then
        (1, s\<lparr>shutdown := SSL_SENT_SHUTDOWN H OR SSL_RECEIVED_SHUTDOWN H\<rparr>)
      else if shutdown s AND SSL_SENT_SHUTDOWN H = 0 then
        (let s1 = s\<lparr>shutdown := shutdown s OR SSL_SENT_SHUTDOWN H\<rparr>;
             s2 = ssl3_send_alert E s1 (SSL3_AL_WARNING H) (SSL_AD_CLOSE_NOTIFY H)
         in if s3_alert_dispatch s2 \<noteq> 0 then (- 1, s2)
            else ssl3_shutdown_finish H s2)
      else if s3_alert_dispatch s \<noteq> 0 then
        (let (ret, s1) = ssl_dispatch_alert E s
         in if ret = - 1 then (ret, s1)
            else ssl3_shutdown_finish H s1)
      else if shutdown s AND SSL_RECEIVED_SHUTDOWN H = 0 then
        (let s1 = snd (ssl_read_bytes E s 0 0 0)
         in if shutdown s1 AND SSL_RECEIVED_SHUTDOWN H = 0 then (- 1, s1)
            else ssl3_shutdown_finish H s1)
      else ssl3_shutdown_finish H s)"

section \<open>Hello random\<close>

text \<open>The enumeration \<^verbatim>\<open>DOWNGRADE\<close> of \<^verbatim>\<open>ssl_local.h\<close>.\<close>

datatype DOWNGRADE = DOWNGRADE_NONE | DOWNGRADE_TO_1_2 | DOWNGRADE_TO_1_1

definition tls11downgrade :: "byte list" where
  "tls11downgrade = [0x44, 0x4f, 0x57, 0x4e, 0x47, 0x52, 0x44, 0x00]"

definition tls12downgrade :: "byte list" where
  "tls12downgrade = [0x44, 0x4f, 0x57, 0x4e, 0x47, 0x52, 0x44, 0x01]"

text \<open>
  The macros \<^verbatim>\<open>l2n\<close> and \<^verbatim>\<open>s2n\<close>: the low 32 (16) bits of a number, most
  significant byte first.
\<close>

definition l2n :: "nat \<Rightarrow> byte list" where
  "l2n l = [of_nat (l div 2 ^ 24), of_nat (l div 2 ^ 16), of_nat (l div 2 ^ 8), of_nat l]"

definition s2n :: "nat \<Rightarrow> byte list" where
  "s2n n = [of_nat (n div 2 ^ 8), of_nat n]"

text \<open>
  \<open>memcpy dst off src\<close> is \<^verbatim>\<open>memcpy(dst + off, src, sizeof src)\<close>. A collaborator that
  fills a region of \<open>n\<close> bytes hands back the bytes it produced; \<open>overwrite\<close> lays them
  over the region, which keeps its length.
\<close>

definition memcpy :: "byte list \<Rightarrow> nat \<Rightarrow> byte list \<Rightarrow> byte list" where
  "memcpy dst off src = take off dst @ src @ drop (off + length src) dst"

definition overwrite :: "byte list \<Rightarrow> byte list \<Rightarrow> byte list" where
  "overwrite old new = take (length old) new @ drop (length new) old"

text \<open>
  \<^verbatim>\<open>ssl_fill_hello_random(s, server, result, len, dgrd)\<close>, with \<open>srv\<close> for the
  argument \<^verbatim>\<open>server\<close> (\<open>server\<close> is the field of the connection). The buffer \<open>result\<close> is the
  \<open>len\<close> bytes the caller passes, so \<open>len\<close> is its length; the function returns its
  result and the buffer. \<open>hello_random_fill\<close> is the part up to the test of \<open>ret\<close>: the
  time stamp, if the mode asks for one, and the random bytes. \<^verbatim>\<open>ossl_assert\<close> is the
  release build's (the value of the condition).
\<close>

definition hello_random_fill :: "externals \<Rightarrow> macros \<Rightarrow> SSL \<Rightarrow> int \<Rightarrow> byte list \<Rightarrow> int \<times> byte list" where
  "hello_random_fill E H s srv result =
     (let len = length result;
          send_time = (if srv \<noteq> 0 then mode s AND SSL_MODE_SEND_SERVERHELLO_TIME H \<noteq> 0
                       else mode s AND SSL_MODE_SEND_CLIENTHELLO_TIME H \<noteq> 0)
      in if send_time then
           (let (ret, bytes) = RAND_bytes_ex E (len - 4)
            in (ret, l2n (time E) @ overwrite (drop 4 result) bytes))
         else
           (let (ret, bytes) = RAND_bytes_ex E len
            in (ret, overwrite result bytes)))"

definition ssl_fill_hello_random ::
    "externals \<Rightarrow> macros \<Rightarrow> SSL \<Rightarrow> int \<Rightarrow> byte list \<Rightarrow> DOWNGRADE \<Rightarrow> int \<times> byte list" where
  "ssl_fill_hello_random E H s srv result dgrd =
     (let len = length result
      in if len < 4 then (0, result)
         else
           (let (ret, filled) = hello_random_fill E H s srv result
            in if ret > 0 then
                 (if \<not> length tls11downgrade < len \<or> \<not> length tls12downgrade < len
                  then (0, filled)
                  else if dgrd = DOWNGRADE_TO_1_2
                  then (ret, memcpy filled (len - length tls12downgrade) tls12downgrade)
                  else if dgrd = DOWNGRADE_TO_1_1
                  then (ret, memcpy filled (len - length tls11downgrade) tls11downgrade)
                  else (ret, filled))
               else (ret, filled)))"

section \<open>The classic master secret\<close>

text \<open>
  What C leaves undefined is a value of the embedding: a read through a null pointer,
  and a read or write beyond the end of a buffer. The third value is a limit of the
  embedding: a buffer of bytes used where the command expects \<^verbatim>\<open>int\<close>s, or the reverse.
\<close>

datatype fault = NULL_dereference | Out_of_bounds | Wrong_pointer_type

text \<open>Reading \<open>n\<close> bytes through a pointer (nothing is read when \<open>n\<close> is 0).\<close>

definition read_bytes :: "byte list option \<Rightarrow> nat \<Rightarrow> fault + byte list" where
  "read_bytes p n =
     (if n = 0 then Inr []
      else case p of
             None \<Rightarrow> Inl NULL_dereference
           | Some b \<Rightarrow> if n \<le> length b then Inr (take n b) else Inl Out_of_bounds)"

text \<open>
  The outcome of \<^verbatim>\<open>ssl_generate_master_secret\<close>: the result, the connection, the
  caller's premaster buffer (\<open>None\<close> when it was null or has been freed), and the buffer
  handed to the master-secret function of the method (\<open>None\<close> when it was not called).
\<close>

record gms_result =
  gms_ret :: int
  gms_ssl :: SSL
  gms_pms :: "byte list option"
  gms_kdf_input :: "byte list option"

text \<open>
  The call \<^verbatim>\<open>s->method->ssl3_enc->generate_master_secret(s, s->session->master_key, p,
  len, &s->session->master_key_length)\<close>. The arguments are addresses inside the session,
  which the call computes without reading the session. The collaborator yields the
  master key, or nothing when it fails (it then returns 0); the key and its length are
  written through those addresses, which is a fault when the session pointer is null.
\<close>

definition call_generate_master_secret :: "externals \<Rightarrow> SSL \<Rightarrow> byte list \<Rightarrow> fault + bool \<times> SSL" where
  "call_generate_master_secret E s p =
     (case generate_master_secret E s p of
        None \<Rightarrow> Inr (False, s)
      | Some mk \<Rightarrow>
          (case session s of
             None \<Rightarrow> Inl NULL_dereference
           | Some sess \<Rightarrow>
               Inr (True, s\<lparr>session := Some (sess\<lparr>master_key := mk,
                                                   master_key_length := length mk\<rparr>)\<rparr>)))"

text \<open>The statements after the label \<^verbatim>\<open>err:\<close>, with the value of \<open>ret\<close> on arrival.\<close>

definition gms_err :: "SSL \<Rightarrow> byte list option \<Rightarrow> nat \<Rightarrow> int \<Rightarrow> int \<Rightarrow> byte list option \<Rightarrow> fault + gms_result" where
  "gms_err s pms pmslen free_pms ret kdf_in =
     (case (case pms of
              None \<Rightarrow> Inr None
            | Some b \<Rightarrow>
                if length b < pmslen then Inl Out_of_bounds
                else if free_pms \<noteq> 0 then Inr None
                else Inr (Some (replicate pmslen 0 @ drop pmslen b))) of
        Inl f \<Rightarrow> Inl f
      | Inr pms' \<Rightarrow>
          Inr \<lparr>gms_ret = ret,
               gms_ssl = (if server s = 0 then s\<lparr>s3_tmp_pms := None, s3_tmp_pmslen := 0\<rparr> else s),
               gms_pms = pms',
               gms_kdf_input = kdf_in\<rparr>)"

definition ssl_generate_master_secret ::
    "externals \<Rightarrow> macros \<Rightarrow> SSL \<Rightarrow> byte list option \<Rightarrow> nat \<Rightarrow> int \<Rightarrow> fault + gms_result" where
  "ssl_generate_master_secret E H s pms pmslen free_pms =
     (case s3_tmp_new_cipher s of
        None \<Rightarrow> Inl NULL_dereference
      | Some new_cipher \<Rightarrow>
          (let alg_k = algorithm_mkey new_cipher
           in if alg_k AND SSL_PSK H \<noteq> 0 then
                (let psklen = s3_tmp_psklen s;
                     pmslen = (if alg_k AND SSL_kPSK H \<noteq> 0 then psklen else pmslen);
                     pskpmslen = 4 + pmslen + psklen
                 in if \<not> OPENSSL_malloc E pskpmslen then gms_err s pms pmslen free_pms 0 None
                    else
                      (case (if alg_k AND SSL_kPSK H \<noteq> 0 then Inr (replicate pmslen 0)
                             else read_bytes pms pmslen) of
                         Inl f \<Rightarrow> Inl f
                       | Inr other_secret \<Rightarrow>
                           (case read_bytes (s3_tmp_psk s) psklen of
                              Inl f \<Rightarrow> Inl f
                            | Inr psk \<Rightarrow>
                                (let pskpms = s2n pmslen @ other_secret @ s2n psklen @ psk;
                                     s1 = s\<lparr>s3_tmp_psk := None, s3_tmp_psklen := 0\<rparr>
                                 in case call_generate_master_secret E s1 pskpms of
                                      Inl f \<Rightarrow> Inl f
                                    | Inr (ok, s2) \<Rightarrow>
                                        gms_err s2 pms pmslen free_pms (if ok then 1 else 0)
                                          (Some pskpms)))))
              else
                (case read_bytes pms pmslen of
                   Inl f \<Rightarrow> Inl f
                 | Inr p \<Rightarrow>
                     (case call_generate_master_secret E s p of
                        Inl f \<Rightarrow> Inl f
                      | Inr (ok, s2) \<Rightarrow>
                          gms_err s2 pms pmslen free_pms (if ok then 1 else 0) (Some p)))))"

section \<open>The control dispatchers\<close>

text \<open>
  The persistent context \<^verbatim>\<open>struct ssl_ctx_st\<close>, restricted to the fields the embedded
  cases touch; \<open>ctx_ext_secure_tick_hmac_key\<close> is \<^verbatim>\<open>ctx->ext.secure->tick_hmac_key\<close>.
  The three ticket keys are arrays: \<^verbatim>\<open>sizeof\<close> of one is the length of its list.
\<close>

record SSL_CTX =
  ctx_cert_dh_tmp_cb :: fnptr
  ctx_ext_tick_key_name :: "byte list"
  ctx_ext_secure_tick_hmac_key :: "byte list"
  ctx_ext_secure_tick_aes_key :: "byte list"
  ctx_ext_servername_cb :: fnptr
  ctx_ext_status_cb :: fnptr
  ctx_ext_ticket_key_cb :: fnptr
  ctx_srp_ctx_srp_Mask :: uint32
  ctx_srp_ctx_SRP_verify_param_callback :: fnptr
  ctx_srp_ctx_TLS_ext_srp_username_callback :: fnptr
  ctx_srp_ctx_SRP_give_srp_client_pwd_callback :: fnptr
  ctx_not_resumable_session_cb :: fnptr

text \<open>
  The command codes (\<^verbatim>\<open>int cmd\<close>) that the embedding covers. The four dispatchers are
  embedded for these commands: each case of a \<^verbatim>\<open>switch\<close> that names one of them, and
  the \<^verbatim>\<open>default\<close> case for those the \<^verbatim>\<open>switch\<close> does not name. The other cases of
  \<^verbatim>\<open>ssl3_ctrl\<close> and \<^verbatim>\<open>ssl3_ctx_ctrl\<close> (certificates, stores, OCSP, SRP values,
  signature algorithms, setting groups) are not part of this development.
\<close>

datatype ctrl_cmd =
    SSL_CTRL_GET_CLIENT_CERT_REQUEST
  | SSL_CTRL_GET_NUM_RENEGOTIATIONS
  | SSL_CTRL_CLEAR_NUM_RENEGOTIATIONS
  | SSL_CTRL_GET_TOTAL_RENEGOTIATIONS
  | SSL_CTRL_SET_TMP_DH_CB
  | SSL_CTRL_SET_TLSEXT_DEBUG_CB
  | SSL_CTRL_SET_NOT_RESUMABLE_SESS_CB
  | SSL_CTRL_SET_TLSEXT_SERVERNAME_CB
  | SSL_CTRL_SET_TLSEXT_STATUS_REQ_CB
  | SSL_CTRL_SET_TLSEXT_TICKET_KEY_CB
  | SSL_CTRL_SET_SRP_VERIFY_PARAM_CB
  | SSL_CTRL_SET_TLS_EXT_SRP_USERNAME_CB
  | SSL_CTRL_SET_SRP_GIVE_CLIENT_PWD_CB
  | SSL_CTRL_SET_TLSEXT_TICKET_KEYS
  | SSL_CTRL_GET_TLSEXT_TICKET_KEYS
  | SSL_CTRL_GET_GROUPS
  | SSL_CTRL_GET_NEGOTIATED_GROUP

text \<open>
  The argument \<^verbatim>\<open>void *parg\<close>: the null pointer, or a pointer to the bytes or the
  \<^verbatim>\<open>int\<close>s of the caller's buffer. The reasons of \<^verbatim>\<open>ERR_raise\<close> that the embedded
  cases use.
\<close>

datatype parg = PNULL | PBytes "byte list" | PInts "int list"

datatype err_reason = ERR_R_SHOULD_NOT_HAVE_BEEN_CALLED | SSL_R_INVALID_TICKET_KEYS_LENGTH

text \<open>
  What a value dispatcher leaves behind: its result, the object it works on, the
  caller's buffer, and the errors it raised.
\<close>

record 'st ctrl_result =
  ctrl_ret :: int
  ctrl_state :: 'st
  ctrl_parg :: parg
  ctrl_errors :: "err_reason list"

text \<open>The loop of the case \<^verbatim>\<open>SSL_CTRL_GET_GROUPS\<close>: the value stored in \<^verbatim>\<open>cptr[i]\<close>.\<close>

definition group_nid :: "externals \<Rightarrow> macros \<Rightarrow> uint16 \<Rightarrow> int" where
  "group_nid E H g =
     (case tls1_group_id_lookup E g of
        Some group_id \<Rightarrow> tls1_group_id2nid E group_id 1
      | None \<Rightarrow> sint (TLSEXT_nid_unknown H OR ucast g))"

definition ssl3_ctrl ::
    "externals \<Rightarrow> macros \<Rightarrow> SSL \<Rightarrow> ctrl_cmd \<Rightarrow> int \<Rightarrow> parg \<Rightarrow> fault + SSL ctrl_result" where
  "ssl3_ctrl E H s cmd larg parg =
     (let done = (\<lambda>ret s'. Inr \<lparr>ctrl_ret = ret, ctrl_state = s', ctrl_parg = parg, ctrl_errors = []\<rparr>)
      in case cmd of
           SSL_CTRL_GET_CLIENT_CERT_REQUEST \<Rightarrow> done 0 s
         | SSL_CTRL_GET_NUM_RENEGOTIATIONS \<Rightarrow> done (sint (s3_num_renegotiations s)) s
         | SSL_CTRL_CLEAR_NUM_RENEGOTIATIONS \<Rightarrow>
             done (sint (s3_num_renegotiations s)) (s\<lparr>s3_num_renegotiations := 0\<rparr>)
         | SSL_CTRL_GET_TOTAL_RENEGOTIATIONS \<Rightarrow> done (sint (s3_total_renegotiations s)) s
         | SSL_CTRL_SET_TMP_DH_CB \<Rightarrow>
             Inr \<lparr>ctrl_ret = 0, ctrl_state = s, ctrl_parg = parg,
                  ctrl_errors = [ERR_R_SHOULD_NOT_HAVE_BEEN_CALLED]\<rparr>
         | SSL_CTRL_GET_GROUPS \<Rightarrow>
             (if session s = None then done 0 s
              else
                (let clist = ext_peer_supportedgroups s;
                     clistlen = length clist
                 in case parg of
                      PNULL \<Rightarrow> done (int clistlen) s
                    | PBytes b \<Rightarrow> if clistlen = 0 then done 0 s else Inl Wrong_pointer_type
                    | PInts cptr \<Rightarrow>
                        if length cptr < clistlen then Inl Out_of_bounds
                        else Inr \<lparr>ctrl_ret = int clistlen, ctrl_state = s,
                                  ctrl_parg = PInts (map (group_nid E H) clist @ drop clistlen cptr),
                                  ctrl_errors = []\<rparr>))
         | SSL_CTRL_GET_NEGOTIATED_GROUP \<Rightarrow>
             (if SSL_IS_TLS13 E s \<and> s3_did_kex s \<noteq> 0
              then done (tls1_group_id2nid E (s3_group_id s) 1) s
              else case session s of
                     None \<Rightarrow> Inl NULL_dereference
                   | Some sess \<Rightarrow> done (tls1_group_id2nid E (word_of_int (kex_group sess)) 1) s)
         | _ \<Rightarrow> done 0 s)"

definition ssl3_callback_ctrl :: "SSL \<Rightarrow> ctrl_cmd \<Rightarrow> fnptr \<Rightarrow> int \<times> SSL" where
  "ssl3_callback_ctrl s cmd fp =
     (case cmd of
        SSL_CTRL_SET_TMP_DH_CB \<Rightarrow> (1, s\<lparr>cert_dh_tmp_cb := fp\<rparr>)
      | SSL_CTRL_SET_TLSEXT_DEBUG_CB \<Rightarrow> (1, s\<lparr>ext_debug_cb := fp\<rparr>)
      | SSL_CTRL_SET_NOT_RESUMABLE_SESS_CB \<Rightarrow> (1, s\<lparr>not_resumable_session_cb := fp\<rparr>)
      | _ \<Rightarrow> (0, s))"

text \<open>The local variable \<^verbatim>\<open>tick_keylen\<close> of the ticket-key cases of \<^verbatim>\<open>ssl3_ctx_ctrl\<close>.\<close>

definition tick_keylen :: "SSL_CTX \<Rightarrow> nat" where
  "tick_keylen ctx =
     length (ctx_ext_tick_key_name ctx) + length (ctx_ext_secure_tick_hmac_key ctx) +
     length (ctx_ext_secure_tick_aes_key ctx)"

text \<open>
  The cases \<^verbatim>\<open>SSL_CTRL_SET_TLSEXT_TICKET_KEYS\<close> and \<^verbatim>\<open>SSL_CTRL_GET_TLSEXT_TICKET_KEYS\<close>
  of \<^verbatim>\<open>ssl3_ctx_ctrl\<close>, which share their statements.
\<close>

definition ticket_keys_ctrl :: "SSL_CTX \<Rightarrow> ctrl_cmd \<Rightarrow> int \<Rightarrow> parg \<Rightarrow> fault + SSL_CTX ctrl_result" where
  "ticket_keys_ctrl ctx cmd larg parg =
     (let n_name = length (ctx_ext_tick_key_name ctx);
          n_hmac = length (ctx_ext_secure_tick_hmac_key ctx);
          n_aes = length (ctx_ext_secure_tick_aes_key ctx);
          tick_keylen = tick_keylen ctx
      in case parg of
           PNULL \<Rightarrow>
             Inr \<lparr>ctrl_ret = int tick_keylen, ctrl_state = ctx, ctrl_parg = parg, ctrl_errors = []\<rparr>
         | _ \<Rightarrow>
             if larg \<noteq> int tick_keylen then
               Inr \<lparr>ctrl_ret = 0, ctrl_state = ctx, ctrl_parg = parg,
                    ctrl_errors = [SSL_R_INVALID_TICKET_KEYS_LENGTH]\<rparr>
             else
               (case parg of
                  PBytes keys \<Rightarrow>
                    if length keys < tick_keylen then Inl Out_of_bounds
                    else if cmd = SSL_CTRL_SET_TLSEXT_TICKET_KEYS then
                      Inr \<lparr>ctrl_ret = 1,
                           ctrl_state = ctx\<lparr>ctx_ext_tick_key_name := take n_name keys,
                             ctx_ext_secure_tick_hmac_key := take n_hmac (drop n_name keys),
                             ctx_ext_secure_tick_aes_key :=
                               take n_aes (drop (n_name + n_hmac) keys)\<rparr>,
                           ctrl_parg = parg, ctrl_errors = []\<rparr>
                    else
                      Inr \<lparr>ctrl_ret = 1, ctrl_state = ctx,
                           ctrl_parg = PBytes
                             (memcpy (memcpy (memcpy keys 0 (ctx_ext_tick_key_name ctx))
                                        n_name (ctx_ext_secure_tick_hmac_key ctx))
                                (n_name + n_hmac) (ctx_ext_secure_tick_aes_key ctx)),
                           ctrl_errors = []\<rparr>
                | _ \<Rightarrow> Inl Wrong_pointer_type))"

definition ssl3_ctx_ctrl :: "SSL_CTX \<Rightarrow> ctrl_cmd \<Rightarrow> int \<Rightarrow> parg \<Rightarrow> fault + SSL_CTX ctrl_result" where
  "ssl3_ctx_ctrl ctx cmd larg parg =
     (case cmd of
        SSL_CTRL_SET_TMP_DH_CB \<Rightarrow>
          Inr \<lparr>ctrl_ret = 0, ctrl_state = ctx, ctrl_parg = parg,
               ctrl_errors = [ERR_R_SHOULD_NOT_HAVE_BEEN_CALLED]\<rparr>
      | SSL_CTRL_SET_TLSEXT_TICKET_KEYS \<Rightarrow> ticket_keys_ctrl ctx cmd larg parg
      | SSL_CTRL_GET_TLSEXT_TICKET_KEYS \<Rightarrow> ticket_keys_ctrl ctx cmd larg parg
      | _ \<Rightarrow> Inr \<lparr>ctrl_ret = 0, ctrl_state = ctx, ctrl_parg = parg, ctrl_errors = []\<rparr>)"

definition ssl3_ctx_callback_ctrl :: "macros \<Rightarrow> SSL_CTX \<Rightarrow> ctrl_cmd \<Rightarrow> fnptr \<Rightarrow> int \<times> SSL_CTX" where
  "ssl3_ctx_callback_ctrl H ctx cmd fp =
     (case cmd of
        SSL_CTRL_SET_TMP_DH_CB \<Rightarrow> (1, ctx\<lparr>ctx_cert_dh_tmp_cb := fp\<rparr>)
      | SSL_CTRL_SET_TLSEXT_SERVERNAME_CB \<Rightarrow> (1, ctx\<lparr>ctx_ext_servername_cb := fp\<rparr>)
      | SSL_CTRL_SET_TLSEXT_STATUS_REQ_CB \<Rightarrow> (1, ctx\<lparr>ctx_ext_status_cb := fp\<rparr>)
      | SSL_CTRL_SET_TLSEXT_TICKET_KEY_CB \<Rightarrow> (1, ctx\<lparr>ctx_ext_ticket_key_cb := fp\<rparr>)
      | SSL_CTRL_SET_SRP_VERIFY_PARAM_CB \<Rightarrow>
          (1, ctx\<lparr>ctx_srp_ctx_srp_Mask := ctx_srp_ctx_srp_Mask ctx OR SSL_kSRP H,
                  ctx_srp_ctx_SRP_verify_param_callback := fp\<rparr>)
      | SSL_CTRL_SET_TLS_EXT_SRP_USERNAME_CB \<Rightarrow>
          (1, ctx\<lparr>ctx_srp_ctx_srp_Mask := ctx_srp_ctx_srp_Mask ctx OR SSL_kSRP H,
                  ctx_srp_ctx_TLS_ext_srp_username_callback := fp\<rparr>)
      | SSL_CTRL_SET_SRP_GIVE_CLIENT_PWD_CB \<Rightarrow>
          (1, ctx\<lparr>ctx_srp_ctx_srp_Mask := ctx_srp_ctx_srp_Mask ctx OR SSL_kSRP H,
                  ctx_srp_ctx_SRP_give_srp_client_pwd_callback := fp\<rparr>)
      | SSL_CTRL_SET_NOT_RESUMABLE_SESS_CB \<Rightarrow> (1, ctx\<lparr>ctx_not_resumable_session_cb := fp\<rparr>)
      | _ \<Rightarrow> (0, ctx))"

section \<open>Cipher negotiation\<close>

text \<open>
  A \<^verbatim>\<open>STACK_OF(SSL_CIPHER)\<close> is the list of its elements, which point into the static
  tables: two pointers are equal when they point to the same entry, and the entries of
  the tables differ, so pointers are compared as entries. The stacks of
  \<^verbatim>\<open>ssl3_choose_cipher\<close> have no comparison function: \<^verbatim>\<open>sk_SSL_CIPHER_find\<close> is the
  index of the first equal element, or \<open>-1\<close>.
\<close>

fun sk_SSL_CIPHER_find :: "SSL_CIPHER list \<Rightarrow> SSL_CIPHER \<Rightarrow> int" where
  "sk_SSL_CIPHER_find [] c = - 1"
| "sk_SSL_CIPHER_find (x # xs) c =
     (if x = c then 0
      else (let r = sk_SSL_CIPHER_find xs c in if r < 0 then - 1 else r + 1))"

definition sk_SSL_CIPHER_value :: "SSL_CIPHER list \<Rightarrow> int \<Rightarrow> SSL_CIPHER" where
  "sk_SSL_CIPHER_value st i = st ! nat i"

text \<open>
  The server's list with its ChaCha20 suites first, as the block under
  \<^verbatim>\<open>SSL_OP_PRIORITIZE_CHACHA\<close> builds it: the first ChaCha20 suite of the list (at
  index \<open>i\<close>), the ChaCha20 suites after it, then all other suites.
\<close>

fun first_chacha :: "macros \<Rightarrow> SSL_CIPHER list \<Rightarrow> nat \<Rightarrow> nat option" where
  "first_chacha H [] i = None"
| "first_chacha H (c # cs) i =
     (if algorithm_enc c = SSL_CHACHA20POLY1305 H then Some i else first_chacha H cs (Suc i))"

definition prio_chacha :: "macros \<Rightarrow> SSL_CIPHER list \<Rightarrow> nat \<Rightarrow> SSL_CIPHER list" where
  "prio_chacha H srvr i =
     (srvr ! i) # filter (\<lambda>c. algorithm_enc c = SSL_CHACHA20POLY1305 H) (drop (Suc i) srvr) @
     filter (\<lambda>c. algorithm_enc c \<noteq> SSL_CHACHA20POLY1305 H) srvr"

text \<open>The lists \<open>prio\<close> and \<open>allow\<close>.\<close>

definition choose_order ::
    "externals \<Rightarrow> macros \<Rightarrow> SSL \<Rightarrow> SSL_CIPHER list \<Rightarrow> SSL_CIPHER list \<Rightarrow> SSL_CIPHER list \<times> SSL_CIPHER list" where
  "choose_order E H s clnt srvr =
     (if tls1_suiteb E s then (srvr, clnt)
      else if options s AND SSL_OP_CIPHER_SERVER_PREFERENCE H \<noteq> 0 then
        (if options s AND SSL_OP_PRIORITIZE_CHACHA H \<noteq> 0 \<and> 0 < length clnt then
           (if algorithm_enc (clnt ! 0) = SSL_CHACHA20POLY1305 H then
              (case first_chacha H srvr 0 of
                 None \<Rightarrow> (srvr, clnt)
               | Some i \<Rightarrow>
                   if sk_SSL_CIPHER_new_reserve E (length srvr)
                   then (prio_chacha H srvr i, clnt)
                   else (srvr, clnt))
            else (srvr, clnt))
         else (srvr, clnt))
      else (clnt, srvr))"

text \<open>
  One round of the loop over \<open>prio\<close>, for the candidate \<open>c\<close>, with the values the
  variables \<open>alg_k\<close>, \<open>alg_a\<close> and \<open>ret\<close> have when the round starts: either the loop
  goes on with new values (\<^verbatim>\<open>continue\<close>), or it ends with the result (\<^verbatim>\<open>break\<close>).
\<close>

datatype loop_step = Continue uint32 uint32 "SSL_CIPHER option" | Break "SSL_CIPHER option"

definition choose_match ::
    "externals \<Rightarrow> macros \<Rightarrow> SSL \<Rightarrow> bool \<Rightarrow> SSL_CIPHER list \<Rightarrow> SSL_CIPHER \<Rightarrow> uint32 \<Rightarrow> uint32 \<Rightarrow>
     SSL_CIPHER option \<Rightarrow> loop_step" where
  "choose_match E H s prefer_sha256 allow c alg_k alg_a ret =
     (let ii = sk_SSL_CIPHER_find allow c
      in if ii \<ge> 0 then
           (if \<not> ssl_security E s (SSL_SECOP_CIPHER_SHARED H) (strength_bits c) 0 c
            then Continue alg_k alg_a ret
            else if alg_k AND SSL_kECDHE H \<noteq> 0 \<and> alg_a AND SSL_aECDSA H \<noteq> 0 \<and>
                    s3_is_probably_safari s \<noteq> 0
            then Continue alg_k alg_a
                   (if ret = None then Some (sk_SSL_CIPHER_value allow ii) else ret)
            else if prefer_sha256 then
              (let tmp = sk_SSL_CIPHER_value allow ii;
                   md = ssl_md E (algorithm2 tmp)
               in if md \<noteq> None \<and> EVP_MD_is_a E (the md) (OSSL_DIGEST_NAME_SHA2_256 H)
                  then Break (Some tmp)
                  else Continue alg_k alg_a (if ret = None then Some tmp else ret))
            else Break (Some (sk_SSL_CIPHER_value allow ii)))
         else Continue alg_k alg_a ret)"

definition choose_step ::
    "externals \<Rightarrow> macros \<Rightarrow> SSL \<Rightarrow> bool \<Rightarrow> SSL_CIPHER list \<Rightarrow> SSL_CIPHER \<Rightarrow> uint32 \<Rightarrow> uint32 \<Rightarrow>
     SSL_CIPHER option \<Rightarrow> loop_step" where
  "choose_step E H s prefer_sha256 allow c alg_k alg_a ret =
     (if \<not> SSL_IS_DTLS E s \<and> (version s < min_tls c \<or> version s > max_tls c)
      then Continue alg_k alg_a ret
      else if SSL_IS_DTLS E s \<and>
              (DTLS_VERSION_LT E (version s) (min_dtls c) \<or>
               DTLS_VERSION_GT E (version s) (max_dtls c))
      then Continue alg_k alg_a ret
      else if \<not> SSL_IS_TLS13 E s then
        (let mask_k = s3_tmp_mask_k s;
             mask_a = s3_tmp_mask_a s;
             mask_k = (if srp_ctx_srp_Mask s AND SSL_kSRP H \<noteq> 0 then mask_k OR SSL_kSRP H else mask_k);
             mask_a = (if srp_ctx_srp_Mask s AND SSL_kSRP H \<noteq> 0 then mask_a OR SSL_aSRP H else mask_a);
             alg_k = algorithm_mkey c;
             alg_a = algorithm_auth c
         in if alg_k AND SSL_PSK H \<noteq> 0 \<and> psk_server_callback s = 0
            then Continue alg_k alg_a ret
            else
              (let ok = (alg_k AND mask_k \<noteq> 0 \<and> alg_a AND mask_a \<noteq> 0);
                   ok = (if alg_k AND SSL_kECDHE H \<noteq> 0
                         then ok \<and> tls1_check_ec_tmp_key E s (cipher_id c) else ok)
               in if \<not> ok then Continue alg_k alg_a ret
                  else choose_match E H s prefer_sha256 allow c alg_k alg_a ret))
      else choose_match E H s prefer_sha256 allow c alg_k alg_a ret)"

fun choose_loop ::
    "(SSL_CIPHER \<Rightarrow> uint32 \<Rightarrow> uint32 \<Rightarrow> SSL_CIPHER option \<Rightarrow> loop_step) \<Rightarrow> SSL_CIPHER list \<Rightarrow>
     uint32 \<Rightarrow> uint32 \<Rightarrow> SSL_CIPHER option \<Rightarrow> SSL_CIPHER option" where
  "choose_loop step [] alg_k alg_a ret = ret"
| "choose_loop step (c # prio) alg_k alg_a ret =
     (case step c alg_k alg_a ret of
        Continue alg_k' alg_a' ret' \<Rightarrow> choose_loop step prio alg_k' alg_a' ret'
      | Break ret' \<Rightarrow> ret')"

text \<open>
  The part between the choice of the order and the loop: for TLS 1.3 the flag
  \<open>prefer_sha256\<close>, otherwise the recomputation of the certificate validity and of the
  masks, which changes the connection.
\<close>

definition choose_prepare :: "externals \<Rightarrow> macros \<Rightarrow> SSL \<Rightarrow> bool \<times> SSL" where
  "choose_prepare E H s =
     (if SSL_IS_TLS13 E s then
        (psk_server_callback s \<noteq> 0 \<and> list_all (\<lambda>j. \<not> ssl_has_cert E s j) [0..<SSL_PKEY_NUM H], s)
      else (False, ssl_set_masks E (tls1_set_cert_validity E s)))"

definition ssl3_choose_cipher ::
    "externals \<Rightarrow> macros \<Rightarrow> SSL \<Rightarrow> SSL_CIPHER list \<Rightarrow> SSL_CIPHER list \<Rightarrow> SSL_CIPHER option \<times> SSL" where
  "ssl3_choose_cipher E H s clnt srvr =
     (let (prio, allow) = choose_order E H s clnt srvr;
          (prefer_sha256, s1) = choose_prepare E H s
      in (choose_loop (choose_step E H s1 prefer_sha256 allow) prio 0 0 None, s1))"

text \<open>
  The four filters of a round, as predicates on the candidate: the protocol version,
  the capability masks (not applied for TLS 1.3), and, together with membership in the
  allow list, the security policy.
\<close>

definition version_ok :: "externals \<Rightarrow> SSL \<Rightarrow> SSL_CIPHER \<Rightarrow> bool" where
  "version_ok E s c \<longleftrightarrow>
     (if SSL_IS_DTLS E s
      then \<not> (DTLS_VERSION_LT E (version s) (min_dtls c) \<or>
              DTLS_VERSION_GT E (version s) (max_dtls c))
      else \<not> (version s < min_tls c \<or> version s > max_tls c))"

definition capability_ok :: "externals \<Rightarrow> macros \<Rightarrow> SSL \<Rightarrow> SSL_CIPHER \<Rightarrow> bool" where
  "capability_ok E H s c \<longleftrightarrow>
     SSL_IS_TLS13 E s \<or>
     (let srp = (srp_ctx_srp_Mask s AND SSL_kSRP H \<noteq> 0);
          mask_k = (if srp then s3_tmp_mask_k s OR SSL_kSRP H else s3_tmp_mask_k s);
          mask_a = (if srp then s3_tmp_mask_a s OR SSL_aSRP H else s3_tmp_mask_a s)
      in \<not> (algorithm_mkey c AND SSL_PSK H \<noteq> 0 \<and> psk_server_callback s = 0) \<and>
         algorithm_mkey c AND mask_k \<noteq> 0 \<and> algorithm_auth c AND mask_a \<noteq> 0 \<and>
         (algorithm_mkey c AND SSL_kECDHE H = 0 \<or> tls1_check_ec_tmp_key E s (cipher_id c)))"

definition passes_filters :: "externals \<Rightarrow> macros \<Rightarrow> SSL \<Rightarrow> SSL_CIPHER list \<Rightarrow> SSL_CIPHER \<Rightarrow> bool" where
  "passes_filters E H s allow c \<longleftrightarrow>
     version_ok E s c \<and> capability_ok E H s c \<and> c \<in> set allow \<and>
     ssl_security E s (SSL_SECOP_CIPHER_SHARED H) (strength_bits c) 0 c"

section \<open>Values for evaluating the definitions\<close>

text \<open>
  A TLS 1.2 server connection as \<^verbatim>\<open>ssl3_clear\<close> leaves its \<^verbatim>\<open>s3\<close> block (all zero),
  the values OpenSSL 3.0 gives the macros, and simple collaborators: an alert that is
  sent stays queued, a read sees nothing, the random source yields bytes \<open>0xAB\<close>,
  allocations succeed, and the security policy admits every suite.
\<close>

definition sample_ssl :: SSL where
  "sample_ssl =
     \<lparr>version = 0x0303, server = 1, shutdown = 0, quiet_shutdown = 0, options = 0, mode = 0,
      statem = 0, session = None, cert_dh_tmp_cb = 0, ext_debug_cb = 0,
      ext_peer_supportedgroups = [], not_resumable_session_cb = 0, psk_server_callback = 0,
      srp_ctx_srp_Mask = 0, s3_renegotiate = 0, s3_num_renegotiations = 0,
      s3_total_renegotiations = 0, s3_alert_dispatch = 0, s3_is_probably_safari = 0,
      s3_did_kex = 0, s3_group_id = 0, s3_tmp_new_cipher = None, s3_tmp_mask_k = 0,
      s3_tmp_mask_a = 0, s3_tmp_psk = None, s3_tmp_psklen = 0, s3_tmp_pms = None,
      s3_tmp_pmslen = 0\<rparr>"

definition sample_session :: SSL_SESSION where
  "sample_session = \<lparr>master_key = [], master_key_length = 0, kex_group = 29\<rparr>"

text \<open>A connection that has negotiated a suite of the given key exchange and holds a PSK.\<close>

definition sample_psk_ssl :: "uint32 \<Rightarrow> byte list \<Rightarrow> SSL" where
  "sample_psk_ssl kx psk =
     sample_ssl\<lparr>session := Some sample_session,
       s3_tmp_new_cipher := Some ((sample_cipher ''PSK'' 0x0300008C)\<lparr>algorithm_mkey := kx\<rparr>),
       s3_tmp_psk := Some psk, s3_tmp_psklen := length psk\<rparr>"

definition sample_macros :: macros where
  "sample_macros =
     \<lparr>SSL_SENT_SHUTDOWN = 1, SSL_RECEIVED_SHUTDOWN = 2, SSL3_AL_WARNING = 1,
      SSL_AD_CLOSE_NOTIFY = 0, SSL_MODE_SEND_SERVERHELLO_TIME = 0x40,
      SSL_MODE_SEND_CLIENTHELLO_TIME = 0x20, SSL_PSK = 0x1C8, SSL_kPSK = 0x8,
      SSL_kECDHE = 0x4, SSL_aECDSA = 0x8, SSL_kSRP = 0x20, SSL_aSRP = 0x40,
      SSL_CHACHA20POLY1305 = 0x80000, SSL_OP_CIPHER_SERVER_PREFERENCE = 0x400000,
      SSL_OP_PRIORITIZE_CHACHA = 0x200000, SSL_PKEY_NUM = 9, TLSEXT_nid_unknown = 0x1000000,
      SSL_SECOP_CIPHER_SHARED = 0x10002, OSSL_DIGEST_NAME_SHA2_256 = ''SHA2-256''\<rparr>"

text \<open>A context with ticket keys of 16, 32 and 32 bytes.\<close>

definition sample_ctx :: SSL_CTX where
  "sample_ctx =
     \<lparr>ctx_cert_dh_tmp_cb = 0, ctx_ext_tick_key_name = replicate 16 0x11,
      ctx_ext_secure_tick_hmac_key = replicate 32 0x22,
      ctx_ext_secure_tick_aes_key = replicate 32 0x33, ctx_ext_servername_cb = 0,
      ctx_ext_status_cb = 0, ctx_ext_ticket_key_cb = 0, ctx_srp_ctx_srp_Mask = 0,
      ctx_srp_ctx_SRP_verify_param_callback = 0, ctx_srp_ctx_TLS_ext_srp_username_callback = 0,
      ctx_srp_ctx_SRP_give_srp_client_pwd_callback = 0, ctx_not_resumable_session_cb = 0\<rparr>"

definition sample_externals :: externals where
  "sample_externals =
     \<lparr>SSL_in_init = (\<lambda>s. statem s \<noteq> 0),
      SSL_in_before = (\<lambda>s. False),
      ossl_statem_set_renegotiate = (\<lambda>st. 1),
      RECORD_LAYER_read_pending = (\<lambda>s. False),
      RECORD_LAYER_write_pending = (\<lambda>s. False),
      ssl3_send_alert = (\<lambda>s level desc. s\<lparr>s3_alert_dispatch := 1\<rparr>),
      ssl_dispatch_alert = (\<lambda>s. (- 1, s)),
      ssl_read_bytes = (\<lambda>s type len peek. (- 1, s)),
      time = 0x6543210F,
      RAND_bytes_ex = (\<lambda>n. (1, replicate n 0xAB)),
      OPENSSL_malloc = (\<lambda>n. True),
      generate_master_secret = (\<lambda>s p. Some (take 48 (p @ replicate 48 0))),
      SSL_IS_TLS13 = (\<lambda>s. version s = 0x0304),
      tls1_group_id_lookup = (\<lambda>g. if g = 29 \<or> g = 23 then Some g else None),
      tls1_group_id2nid = (\<lambda>g include_unknown.
         if g = 29 then 1034 else if g = 23 then 415
         else if include_unknown \<noteq> 0 then sint (0x1000000 OR ucast g :: cint) else 0),
      SSL_IS_DTLS = (\<lambda>s. False),
      DTLS_VERSION_LT = (\<lambda>v1 v2. v1 > v2),
      DTLS_VERSION_GT = (\<lambda>v1 v2. v1 < v2),
      tls1_suiteb = (\<lambda>s. False),
      ssl_has_cert = (\<lambda>s j. False),
      tls1_set_cert_validity = (\<lambda>s. s),
      ssl_set_masks = (\<lambda>s. s),
      tls1_check_ec_tmp_key = (\<lambda>s i. True),
      ssl_security = (\<lambda>s op bits nid c. True),
      ssl_md = (\<lambda>idx. Some (unat (idx AND 0xFF))),
      EVP_MD_is_a = (\<lambda>md nm. md = 4 \<and> nm = ''SHA2-256''),
      sk_SSL_CIPHER_new_reserve = (\<lambda>n. True)\<rparr>"

text \<open>
  Suites and connections for evaluating the negotiation: two RSA and two ECDHE suites
  of TLS 1.2, the two TLS 1.3 suites with SHA-384 and SHA-256, a TLS 1.2 connection
  whose masks allow RSA and ECDHE key exchange with RSA and ECDSA authentication, and a
  TLS 1.3 connection with a PSK server callback.
\<close>

definition sample_tls12_suite :: "string \<Rightarrow> uint32 \<Rightarrow> uint32 \<Rightarrow> uint32 \<Rightarrow> SSL_CIPHER" where
  "sample_tls12_suite nm i kx au =
     (sample_cipher nm i)\<lparr>algorithm_mkey := kx, algorithm_auth := au,
        min_tls := 0x0300, max_tls := 0x0303\<rparr>"

definition sample_tls13_suite :: "string \<Rightarrow> uint32 \<Rightarrow> uint32 \<Rightarrow> SSL_CIPHER" where
  "sample_tls13_suite nm i md =
     (sample_cipher nm i)\<lparr>min_tls := 0x0304, max_tls := 0x0304, algorithm2 := md\<rparr>"

definition sample_tls12_ssl :: SSL where
  "sample_tls12_ssl = sample_ssl\<lparr>s3_tmp_mask_k := 5, s3_tmp_mask_a := 9\<rparr>"

definition sample_tls13_psk_ssl :: SSL where
  "sample_tls13_psk_ssl = sample_ssl\<lparr>version := 0x0304, psk_server_callback := 0x4000\<rparr>"

definition suite_AES128_SHA :: SSL_CIPHER where
  "suite_AES128_SHA = sample_tls12_suite ''AES128-SHA'' 0x0300002F 1 1"

definition suite_AES256_SHA :: SSL_CIPHER where
  "suite_AES256_SHA = sample_tls12_suite ''AES256-SHA'' 0x03000035 1 1"

definition suite_ECDHE_ECDSA_AES128_SHA :: SSL_CIPHER where
  "suite_ECDHE_ECDSA_AES128_SHA = sample_tls12_suite ''ECDHE-ECDSA-AES128-SHA'' 0x0300C009 4 8"

definition suite_ECDHE_RSA_AES128_SHA :: SSL_CIPHER where
  "suite_ECDHE_RSA_AES128_SHA = sample_tls12_suite ''ECDHE-RSA-AES128-SHA'' 0x0300C013 4 1"

definition suite_TLS_AES_256_GCM_SHA384 :: SSL_CIPHER where
  "suite_TLS_AES_256_GCM_SHA384 = sample_tls13_suite ''TLS_AES_256_GCM_SHA384'' 0x03001302 5"

definition suite_TLS_AES_128_GCM_SHA256 :: SSL_CIPHER where
  "suite_TLS_AES_128_GCM_SHA256 = sample_tls13_suite ''TLS_AES_128_GCM_SHA256'' 0x03001301 4"

section \<open>Sorting the catalog\<close>

lemma cipher_compare_le: "cipher_compare a b \<le> 0 \<longleftrightarrow> cipher_id a \<le> cipher_id b"
  by (auto simp: cipher_compare_def)

lemma set_qsort_insert: "set (qsort_insert compar x ys) = insert x (set ys)"
  by (induction ys) auto

lemma mset_qsort_insert: "mset (qsort_insert compar x ys) = add_mset x (mset ys)"
  by (induction ys) auto

lemma mset_qsort: "mset (qsort compar xs) = mset xs"
  unfolding qsort_def by (induction xs) (simp_all add: mset_qsort_insert)

lemma qsort_insert_ids:
  "map cipher_id (qsort_insert cipher_compare x ys) = insort (cipher_id x) (map cipher_id ys)"
  by (induction ys) (auto simp: cipher_compare_le)

lemma qsort_ids: "map cipher_id (qsort cipher_compare xs) = sort (map cipher_id xs)"
  unfolding qsort_def
  by (induction xs) (simp_all add: qsort_insert_ids sort_key_def)

lemma length_qsort: "length (qsort cipher_compare xs) = length xs"
  using arg_cong [OF qsort_ids, of length xs] by simp

lemma set_qsort: "set (qsort compar xs) = set xs"
  unfolding qsort_def by (induction xs) (simp_all add: set_qsort_insert)

lemma sorted_qsort_ids: "sorted (map cipher_id (qsort cipher_compare xs))"
  by (simp add: qsort_ids)

lemma distinct_qsort_ids:
  "distinct (map cipher_id (qsort cipher_compare xs)) \<longleftrightarrow> distinct (map cipher_id xs)"
  by (simp add: qsort_ids)

lemma strict_qsort_ids:
  "sorted_wrt (<) (map cipher_id (qsort cipher_compare xs)) \<longleftrightarrow> distinct (map cipher_id xs)"
  by (simp add: qsort_ids strict_sorted_iff)

text \<open>
  Whatever order \<^verbatim>\<open>qsort\<close> picks among the orders its contract allows, the identifiers
  come out in the same sequence.
\<close>

lemma qsort_any_order:
  assumes "mset ys = mset xs" and "sorted (map cipher_id ys)"
  shows "map cipher_id ys = map cipher_id (qsort cipher_compare xs)"
proof -
  have "mset (map cipher_id ys) = mset (map cipher_id xs)"
    using assms(1) by (metis mset_map)
  with assms(2) have "map cipher_id ys = sort (map cipher_id xs)"
    by (metis properties_for_sort)
  then show ?thesis by (simp add: qsort_ids)
qed

text \<open>
  A table whose identifiers are pairwise different is, once sorted, a rearrangement of
  itself in which every entry has a smaller identifier than the next.
\<close>

lemma qsort_strictly_ascending:
  assumes "distinct (map cipher_id src)"
  shows "mset (qsort cipher_compare src) = mset src"
    and "Suc i < length (qsort cipher_compare src) \<Longrightarrow>
         cipher_id (qsort cipher_compare src ! i) < cipher_id (qsort cipher_compare src ! Suc i)"
    and "sorted_wrt (<) (map cipher_id (qsort cipher_compare src))"
    and "distinct (map cipher_id (qsort cipher_compare src))"
proof -
  let ?tbl = "qsort cipher_compare src"
  show "mset ?tbl = mset src"
    by (rule mset_qsort)
  show strict: "sorted_wrt (<) (map cipher_id ?tbl)"
    using assms by (simp add: strict_qsort_ids)
  show "cipher_id (?tbl ! i) < cipher_id (?tbl ! Suc i)" if "Suc i < length ?tbl"
  proof -
    have "map cipher_id ?tbl ! i < map cipher_id ?tbl ! Suc i"
      using sorted_wrt_nth_less [OF strict, of i "Suc i"] that by simp
    then show ?thesis using that by simp
  qed
  show "distinct (map cipher_id ?tbl)"
    using assms by (simp add: distinct_qsort_ids)
qed

text \<open>
  The identifiers of the initialisers are pairwise different in each table, whatever
  the configuration compiles. For \<^verbatim>\<open>ssl3_ciphers\<close> the identifiers are compared as
  numbers: the first lemma is the column as numbers, entry by entry.
\<close>

lemma distinct_tls13_ciphers_id: "distinct tls13_ciphers_id"
  by (simp add: tls13_ciphers_id_def)

lemma distinct_ssl3_scsvs_id: "distinct ssl3_scsvs_id"
  by (simp add: ssl3_scsvs_id_def)

lemma unat_ssl3_ciphers_id:
  "map unat (map snd ssl3_ciphers_id) =
     [0x03000001, 0x03000002, 0x0300000A, 0x03000013, 0x03000016, 0x0300001B, 0x0300002F,
      0x03000032, 0x03000033, 0x03000034, 0x03000035, 0x03000038, 0x03000039, 0x0300003A,
      0x0300003B, 0x0300003C, 0x0300003D, 0x03000040, 0x03000067, 0x0300006A, 0x0300006B,
      0x0300006C, 0x0300006D, 0x0300009C, 0x0300009D, 0x0300009E, 0x0300009F, 0x030000A2,
      0x030000A3, 0x030000A6, 0x030000A7, 0x0300C09C, 0x0300C09D, 0x0300C09E, 0x0300C09F,
      0x0300C0A0, 0x0300C0A1, 0x0300C0A2, 0x0300C0A3, 0x0300C0A4, 0x0300C0A5, 0x0300C0A6,
      0x0300C0A7, 0x0300C0A8, 0x0300C0A9, 0x0300C0AA, 0x0300C0AB, 0x0300C0AC, 0x0300C0AD,
      0x0300C0AE, 0x0300C0AF, 0x0300C006, 0x0300C008, 0x0300C009, 0x0300C00A, 0x0300C010,
      0x0300C012, 0x0300C013, 0x0300C014, 0x0300C015, 0x0300C017, 0x0300C018, 0x0300C019,
      0x0300C023, 0x0300C024, 0x0300C027, 0x0300C028, 0x0300C02B, 0x0300C02C, 0x0300C02F,
      0x0300C030, 0x0300002C, 0x0300002D, 0x0300002E, 0x0300008B, 0x0300008C, 0x0300008D,
      0x0300008F, 0x03000090, 0x03000091, 0x03000093, 0x03000094, 0x03000095, 0x030000A8,
      0x030000A9, 0x030000AA, 0x030000AB, 0x030000AC, 0x030000AD, 0x030000AE, 0x030000AF,
      0x030000B0, 0x030000B1, 0x030000B2, 0x030000B3, 0x030000B4, 0x030000B5, 0x030000B6,
      0x030000B7, 0x030000B8, 0x030000B9, 0x0300C034, 0x0300C035, 0x0300C036, 0x0300C037,
      0x0300C038, 0x0300C039, 0x0300C03A, 0x0300C03B, 0x0300C01A, 0x0300C01B, 0x0300C01C,
      0x0300C01D, 0x0300C01E, 0x0300C01F, 0x0300C020, 0x0300C021, 0x0300C022, 0x0300CCAA,
      0x0300CCA8, 0x0300CCA9, 0x0300CCAB, 0x0300CCAC, 0x0300CCAD, 0x0300CCAE, 0x030000BA,
      0x030000BD, 0x030000BE, 0x030000BF, 0x030000C0, 0x030000C3, 0x030000C4, 0x030000C5,
      0x03000084, 0x03000087, 0x03000088, 0x03000089, 0x03000041, 0x03000044, 0x03000045,
      0x03000046, 0x0300C072, 0x0300C073, 0x0300C076, 0x0300C077, 0x0300C094, 0x0300C095,
      0x0300C096, 0x0300C097, 0x0300C098, 0x0300C099, 0x0300C09A, 0x0300C09B, 0x03000081,
      0x03000083, 0x0300C102, 0x0300FF85, 0x0300FF87, 0x0300C100, 0x0300C101, 0x03000007,
      0x03000096, 0x03000099, 0x0300009A, 0x0300009B, 0x03000004, 0x03000005, 0x03000018,
      0x0300C033, 0x0300C016, 0x0300C007, 0x0300C011, 0x0300008A, 0x03000092, 0x0300008E,
      0x0300C050, 0x0300C051, 0x0300C052, 0x0300C053, 0x0300C056, 0x0300C057, 0x0300C05C,
      0x0300C05D, 0x0300C060, 0x0300C061, 0x0300C06A, 0x0300C06B, 0x0300C06C, 0x0300C06D,
      0x0300C06E, 0x0300C06F, 0x0300FF15, 0x0300FF16, 0x0300FF17, 0x0300FF18, 0x0300FF19,
      0x0300FF1A, 0x0300FF1B, 0x0300FF1C]"
  unfolding ssl3_ciphers_id_def by simp

lemma distinct_ssl3_ciphers_numbers:
  "distinct
     [0x03000001, 0x03000002, 0x0300000A, 0x03000013, 0x03000016, 0x0300001B, 0x0300002F,
      0x03000032, 0x03000033, 0x03000034, 0x03000035, 0x03000038, 0x03000039, 0x0300003A,
      0x0300003B, 0x0300003C, 0x0300003D, 0x03000040, 0x03000067, 0x0300006A, 0x0300006B,
      0x0300006C, 0x0300006D, 0x0300009C, 0x0300009D, 0x0300009E, 0x0300009F, 0x030000A2,
      0x030000A3, 0x030000A6, 0x030000A7, 0x0300C09C, 0x0300C09D, 0x0300C09E, 0x0300C09F,
      0x0300C0A0, 0x0300C0A1, 0x0300C0A2, 0x0300C0A3, 0x0300C0A4, 0x0300C0A5, 0x0300C0A6,
      0x0300C0A7, 0x0300C0A8, 0x0300C0A9, 0x0300C0AA, 0x0300C0AB, 0x0300C0AC, 0x0300C0AD,
      0x0300C0AE, 0x0300C0AF, 0x0300C006, 0x0300C008, 0x0300C009, 0x0300C00A, 0x0300C010,
      0x0300C012, 0x0300C013, 0x0300C014, 0x0300C015, 0x0300C017, 0x0300C018, 0x0300C019,
      0x0300C023, 0x0300C024, 0x0300C027, 0x0300C028, 0x0300C02B, 0x0300C02C, 0x0300C02F,
      0x0300C030, 0x0300002C, 0x0300002D, 0x0300002E, 0x0300008B, 0x0300008C, 0x0300008D,
      0x0300008F, 0x03000090, 0x03000091, 0x03000093, 0x03000094, 0x03000095, 0x030000A8,
      0x030000A9, 0x030000AA, 0x030000AB, 0x030000AC, 0x030000AD, 0x030000AE, 0x030000AF,
      0x030000B0, 0x030000B1, 0x030000B2, 0x030000B3, 0x030000B4, 0x030000B5, 0x030000B6,
      0x030000B7, 0x030000B8, 0x030000B9, 0x0300C034, 0x0300C035, 0x0300C036, 0x0300C037,
      0x0300C038, 0x0300C039, 0x0300C03A, 0x0300C03B, 0x0300C01A, 0x0300C01B, 0x0300C01C,
      0x0300C01D, 0x0300C01E, 0x0300C01F, 0x0300C020, 0x0300C021, 0x0300C022, 0x0300CCAA,
      0x0300CCA8, 0x0300CCA9, 0x0300CCAB, 0x0300CCAC, 0x0300CCAD, 0x0300CCAE, 0x030000BA,
      0x030000BD, 0x030000BE, 0x030000BF, 0x030000C0, 0x030000C3, 0x030000C4, 0x030000C5,
      0x03000084, 0x03000087, 0x03000088, 0x03000089, 0x03000041, 0x03000044, 0x03000045,
      0x03000046, 0x0300C072, 0x0300C073, 0x0300C076, 0x0300C077, 0x0300C094, 0x0300C095,
      0x0300C096, 0x0300C097, 0x0300C098, 0x0300C099, 0x0300C09A, 0x0300C09B, 0x03000081,
      0x03000083, 0x0300C102, 0x0300FF85, 0x0300FF87, 0x0300C100, 0x0300C101, 0x03000007,
      0x03000096, 0x03000099, 0x0300009A, 0x0300009B, 0x03000004, 0x03000005, 0x03000018,
      0x0300C033, 0x0300C016, 0x0300C007, 0x0300C011, 0x0300008A, 0x03000092, 0x0300008E,
      0x0300C050, 0x0300C051, 0x0300C052, 0x0300C053, 0x0300C056, 0x0300C057, 0x0300C05C,
      0x0300C05D, 0x0300C060, 0x0300C061, 0x0300C06A, 0x0300C06B, 0x0300C06C, 0x0300C06D,
      0x0300C06E, 0x0300C06F, 0x0300FF15, 0x0300FF16, 0x0300FF17, 0x0300FF18, 0x0300FF19,
      0x0300FF1A, 0x0300FF1B, 0x0300FF1C :: nat]"
  by simp

lemma distinct_ssl3_ciphers_id: "distinct (map snd ssl3_ciphers_id)"
proof -
  have "distinct (map unat (map snd ssl3_ciphers_id))"
    unfolding unat_ssl3_ciphers_id by (rule distinct_ssl3_ciphers_numbers)
  then show ?thesis
    by (simp only: distinct_map)
qed

lemma distinct_compiled_ssl3_ciphers_id:
  "distinct (map snd (filter (\<lambda>e. compiled B (fst e)) ssl3_ciphers_id))"
  using distinct_ssl3_ciphers_id by (rule distinct_map_filter)

lemma static_tables_distinct:
  assumes "static_tables B cat"
  shows "distinct (map cipher_id (tls13_ciphers cat))"
    and "distinct (map cipher_id (ssl3_ciphers cat))"
    and "distinct (map cipher_id (ssl3_scsvs cat))"
  using assms distinct_tls13_ciphers_id distinct_compiled_ssl3_ciphers_id [of B]
    distinct_ssl3_scsvs_id
  by (simp_all add: static_tables_def)

lemma cipher_id_sample_ciphers: "map cipher_id (map (sample_cipher nm) xs) = xs"
  by (induction xs) (simp_all add: sample_cipher_def)

lemma static_tables_sample: "static_tables sample_configuration sample_static_catalog"
  unfolding static_tables_def sample_static_catalog_def
  by (simp only: catalog.select_convs cipher_id_sample_ciphers simp_thms)

text \<open>
  C8. The tables of the source hold pairwise different identifiers, so after
  \<open>ssl_sort_cipher_list\<close> each of the three tables holds the entries it held before, every
  entry has a strictly smaller identifier than the next one, and no two entries of a
  table share an identifier. \<open>src\<close> is a table as initialised and \<open>tbl\<close> the same table
  after the sort.
\<close>

theorem ssl_sort_cipher_list_strictly_ascending:
  assumes "static_tables B cat"
    and "(src, tbl) = (tls13_ciphers cat, tls13_ciphers (ssl_sort_cipher_list cat)) \<or>
         (src, tbl) = (ssl3_ciphers cat, ssl3_ciphers (ssl_sort_cipher_list cat)) \<or>
         (src, tbl) = (ssl3_scsvs cat, ssl3_scsvs (ssl_sort_cipher_list cat))"
  shows "mset tbl = mset src \<and>
         (\<forall>i. Suc i < length tbl \<longrightarrow> cipher_id (tbl ! i) < cipher_id (tbl ! Suc i)) \<and>
         sorted_wrt (<) (map cipher_id tbl) \<and>
         distinct (map cipher_id tbl) \<and>
         distinct (map cipher_id src)"
proof -
  have tbl: "tbl = qsort cipher_compare src"
    using assms(2) by (auto simp: ssl_sort_cipher_list_def)
  have src: "distinct (map cipher_id src)"
    using assms(2) static_tables_distinct [OF assms(1)] by auto
  show ?thesis
    unfolding tbl using qsort_strictly_ascending [OF src] src by blast
qed

theorem ssl_sort_cipher_list_strictly_ascending_witness:
  "static_tables sample_configuration sample_static_catalog \<and>
   length (ssl3_ciphers sample_static_catalog) = 175 \<and>
   mset (ssl3_ciphers (ssl_sort_cipher_list sample_static_catalog)) =
     mset (ssl3_ciphers sample_static_catalog) \<and>
   sorted_wrt (<) (map cipher_id (ssl3_ciphers (ssl_sort_cipher_list sample_static_catalog))) \<and>
   distinct (map cipher_id (ssl3_ciphers (ssl_sort_cipher_list sample_static_catalog))) \<and>
   map cipher_id (tls13_ciphers (ssl_sort_cipher_list sample_static_catalog)) =
     [0x03001301, 0x03001302, 0x03001303, 0x03001304, 0x03001305] \<and>
   map cipher_id (ssl3_scsvs (ssl_sort_cipher_list sample_static_catalog)) =
     [0x030000FF, 0x03005600]"
proof -
  have st: "static_tables sample_configuration sample_static_catalog"
    by (rule static_tables_sample)
  have len: "length (ssl3_ciphers sample_static_catalog) = 175"
    by (simp add: sample_static_catalog_def sample_configuration_def compiled_def
        ssl3_ciphers_id_def)
  have t13: "map cipher_id (tls13_ciphers (ssl_sort_cipher_list sample_static_catalog)) =
     [0x03001301, 0x03001302, 0x03001303, 0x03001304, 0x03001305]"
  proof -
    have "map cipher_id (tls13_ciphers (ssl_sort_cipher_list sample_static_catalog)) =
        sort tls13_ciphers_id"
      by (simp only: ssl_sort_cipher_list_def sample_static_catalog_def catalog.select_convs
          catalog.update_convs qsort_ids cipher_id_sample_ciphers)
    then show ?thesis
      by (simp add: tls13_ciphers_id_def)
  qed
  have scsv: "map cipher_id (ssl3_scsvs (ssl_sort_cipher_list sample_static_catalog)) =
     [0x030000FF, 0x03005600]"
  proof -
    have "map cipher_id (ssl3_scsvs (ssl_sort_cipher_list sample_static_catalog)) =
        sort ssl3_scsvs_id"
      by (simp only: ssl_sort_cipher_list_def sample_static_catalog_def catalog.select_convs
          catalog.update_convs qsort_ids cipher_id_sample_ciphers)
    then show ?thesis
      by (simp add: ssl3_scsvs_id_def)
  qed
  have "(ssl3_ciphers sample_static_catalog,
         ssl3_ciphers (ssl_sort_cipher_list sample_static_catalog)) =
        (tls13_ciphers sample_static_catalog,
         tls13_ciphers (ssl_sort_cipher_list sample_static_catalog)) \<or>
        (ssl3_ciphers sample_static_catalog,
         ssl3_ciphers (ssl_sort_cipher_list sample_static_catalog)) =
        (ssl3_ciphers sample_static_catalog,
         ssl3_ciphers (ssl_sort_cipher_list sample_static_catalog)) \<or>
        (ssl3_ciphers sample_static_catalog,
         ssl3_ciphers (ssl_sort_cipher_list sample_static_catalog)) =
        (ssl3_scsvs sample_static_catalog,
         ssl3_scsvs (ssl_sort_cipher_list sample_static_catalog))"
    by simp
  from ssl_sort_cipher_list_strictly_ascending [OF st this]
  have "mset (ssl3_ciphers (ssl_sort_cipher_list sample_static_catalog)) =
          mset (ssl3_ciphers sample_static_catalog) \<and>
        sorted_wrt (<) (map cipher_id (ssl3_ciphers (ssl_sort_cipher_list sample_static_catalog))) \<and>
        distinct (map cipher_id (ssl3_ciphers (ssl_sort_cipher_list sample_static_catalog)))"
    by blast
  with st len t13 scsv show ?thesis by blast
qed

section \<open>Enumerating the legacy table\<close>

lemma length_sorted_ssl3_ciphers:
  "length (ssl3_ciphers (ssl_sort_cipher_list cat)) = length (ssl3_ciphers cat)"
  by (simp add: ssl_sort_cipher_list_def length_qsort)

lemma ssl3_get_cipher_rev:
  assumes "unat u < length (ssl3_ciphers cat)"
  shows "ssl3_get_cipher cat u = Some (rev (ssl3_ciphers cat) ! unat u)"
  using assms by (simp add: ssl3_get_cipher_def SSL3_NUM_CIPHERS_def rev_nth)

lemma ssl3_get_cipher_enumeration:
  assumes "length (ssl3_ciphers cat) \<le> 2 ^ 32"
  shows "map (\<lambda>i. ssl3_get_cipher cat (of_nat i)) [0..<length (ssl3_ciphers cat)] =
         map Some (rev (ssl3_ciphers cat))"
proof (rule nth_equalityI)
  show "length (map (\<lambda>i. ssl3_get_cipher cat (of_nat i)) [0..<length (ssl3_ciphers cat)]) =
        length (map Some (rev (ssl3_ciphers cat)))"
    by simp
next
  fix i
  assume "i < length (map (\<lambda>i. ssl3_get_cipher cat (of_nat i)) [0..<length (ssl3_ciphers cat)])"
  then have i: "i < length (ssl3_ciphers cat)"
    by simp
  with assms have "i < 2 ^ 32"
    by simp
  then have u: "unat (of_nat i :: uint32) = i"
    by (simp add: unat_of_nat)
  show "map (\<lambda>i. ssl3_get_cipher cat (of_nat i)) [0..<length (ssl3_ciphers cat)] ! i =
        map Some (rev (ssl3_ciphers cat)) ! i"
    using i ssl3_get_cipher_rev [of "of_nat i" cat] by (simp add: u)
qed

text \<open>
  C10. \<open>ssl3_get_cipher\<close> returns no entry for an index at or beyond the number of
  entries of the legacy table, which is what \<open>ssl3_num_ciphers\<close> returns, and otherwise
  the entry at position \<open>length - 1 - u\<close>, the entry \<open>u\<close> of the reversed table; on the
  sorted table this is the entry at that position of the sorted entries. The indices
  below the length enumerate the whole table in reverse, so on the sorted table they
  enumerate the identifiers in descending order: a larger index yields an identifier
  that is not larger, and a smaller one when the identifiers of the table are pairwise
  different.
\<close>

theorem ssl3_get_cipher_reverse_order:
  "ssl3_num_ciphers cat = length (ssl3_ciphers cat) \<and>
   (length (ssl3_ciphers cat) \<le> unat u \<longrightarrow> ssl3_get_cipher cat u = None) \<and>
   (unat u < length (ssl3_ciphers cat) \<longrightarrow>
      ssl3_get_cipher cat u = Some (ssl3_ciphers cat ! (length (ssl3_ciphers cat) - 1 - unat u)) \<and>
      ssl3_get_cipher cat u = Some (rev (ssl3_ciphers cat) ! unat u) \<and>
      ssl3_get_cipher (ssl_sort_cipher_list cat) u =
        Some (qsort cipher_compare (ssl3_ciphers cat) ! (length (ssl3_ciphers cat) - 1 - unat u))) \<and>
   (length (ssl3_ciphers cat) \<le> 2 ^ 32 \<longrightarrow>
      map (\<lambda>i. ssl3_get_cipher cat (of_nat i)) [0..<length (ssl3_ciphers cat)] =
        map Some (rev (ssl3_ciphers cat)) \<and>
      map (\<lambda>i. map_option cipher_id (ssl3_get_cipher (ssl_sort_cipher_list cat) (of_nat i)))
          [0..<length (ssl3_ciphers cat)] =
        map Some (rev (sort (map cipher_id (ssl3_ciphers cat))))) \<and>
   (\<forall>v x y. unat u < unat v \<and> ssl3_get_cipher (ssl_sort_cipher_list cat) u = Some x \<and>
        ssl3_get_cipher (ssl_sort_cipher_list cat) v = Some y \<longrightarrow>
      cipher_id y \<le> cipher_id x \<and>
      (distinct (map cipher_id (ssl3_ciphers cat)) \<longrightarrow> cipher_id y < cipher_id x))"
proof -
  let ?T = "ssl3_ciphers (ssl_sort_cipher_list cat)"
  let ?n = "length (ssl3_ciphers cat)"
  have len: "length ?T = ?n"
    by (rule length_sorted_ssl3_ciphers)
  have T: "?T = qsort cipher_compare (ssl3_ciphers cat)"
    by (simp add: ssl_sort_cipher_list_def)
  have num: "ssl3_num_ciphers cat = ?n"
    by (simp add: ssl3_num_ciphers_def SSL3_NUM_CIPHERS_def)
  have none: "?n \<le> unat u \<longrightarrow> ssl3_get_cipher cat u = None"
    by (simp add: ssl3_get_cipher_def SSL3_NUM_CIPHERS_def)
  have some: "ssl3_get_cipher cat u = Some (ssl3_ciphers cat ! (?n - 1 - unat u)) \<and>
      ssl3_get_cipher cat u = Some (rev (ssl3_ciphers cat) ! unat u) \<and>
      ssl3_get_cipher (ssl_sort_cipher_list cat) u =
        Some (qsort cipher_compare (ssl3_ciphers cat) ! (?n - 1 - unat u))"
    if "unat u < ?n"
    using that ssl3_get_cipher_rev [of u cat] len
    by (simp add: ssl3_get_cipher_def SSL3_NUM_CIPHERS_def T [symmetric])
  have enum: "map (\<lambda>i. ssl3_get_cipher cat (of_nat i)) [0..<?n] = map Some (rev (ssl3_ciphers cat)) \<and>
      map (\<lambda>i. map_option cipher_id (ssl3_get_cipher (ssl_sort_cipher_list cat) (of_nat i))) [0..<?n] =
        map Some (rev (sort (map cipher_id (ssl3_ciphers cat))))"
    if bound: "?n \<le> 2 ^ 32"
  proof -
    have "map (\<lambda>i. ssl3_get_cipher (ssl_sort_cipher_list cat) (of_nat i)) [0..<length ?T] =
        map Some (rev ?T)"
      using bound len ssl3_get_cipher_enumeration [of "ssl_sort_cipher_list cat"] by simp
    then have "map (map_option cipher_id)
          (map (\<lambda>i. ssl3_get_cipher (ssl_sort_cipher_list cat) (of_nat i)) [0..<?n]) =
        map (map_option cipher_id) (map Some (rev ?T))"
      by (simp only: len)
    then have "map (\<lambda>i. map_option cipher_id (ssl3_get_cipher (ssl_sort_cipher_list cat) (of_nat i)))
          [0..<?n] = map Some (rev (map cipher_id ?T))"
      by (simp add: rev_map comp_def)
    then have "map (\<lambda>i. map_option cipher_id (ssl3_get_cipher (ssl_sort_cipher_list cat) (of_nat i)))
          [0..<?n] = map Some (rev (sort (map cipher_id (ssl3_ciphers cat))))"
      by (simp only: T qsort_ids)
    with ssl3_get_cipher_enumeration [OF bound] show ?thesis
      by blast
  qed
  have ord: "cipher_id y \<le> cipher_id x \<and>
      (distinct (map cipher_id (ssl3_ciphers cat)) \<longrightarrow> cipher_id y < cipher_id x)"
    if uv: "unat u < unat v"
      and gx: "ssl3_get_cipher (ssl_sort_cipher_list cat) u = Some x"
      and gy: "ssl3_get_cipher (ssl_sort_cipher_list cat) v = Some y" for v x y
  proof -
    from gy have v: "unat v < ?n" and y: "y = ?T ! (?n - 1 - unat v)"
      by (auto simp: ssl3_get_cipher_def SSL3_NUM_CIPHERS_def len split: if_splits)
    from gx have u: "unat u < ?n" and x: "x = ?T ! (?n - 1 - unat u)"
      by (auto simp: ssl3_get_cipher_def SSL3_NUM_CIPHERS_def len split: if_splits)
    have lt: "?n - 1 - unat v < ?n - 1 - unat u" and bd: "?n - 1 - unat u < length ?T"
      using uv u v len by simp_all
    have "map cipher_id ?T ! (?n - 1 - unat v) \<le> map cipher_id ?T ! (?n - 1 - unat u)"
      using sorted_qsort_ids [of "ssl3_ciphers cat"] lt bd
        sorted_nth_mono [of "map cipher_id ?T" "?n - 1 - unat v" "?n - 1 - unat u"]
      unfolding T by simp
    then have le: "cipher_id y \<le> cipher_id x"
      using lt bd x y by simp
    have "cipher_id y < cipher_id x" if "distinct (map cipher_id (ssl3_ciphers cat))"
    proof -
      have "sorted_wrt (<) (map cipher_id ?T)"
        using that unfolding T by (simp add: strict_qsort_ids)
      then have "map cipher_id ?T ! (?n - 1 - unat v) < map cipher_id ?T ! (?n - 1 - unat u)"
        using lt bd sorted_wrt_nth_less [of "(<)" "map cipher_id ?T" "?n - 1 - unat v" "?n - 1 - unat u"]
        by simp
      then show ?thesis using lt bd x y by simp
    qed
    with le show ?thesis by blast
  qed
  from num none some enum ord show ?thesis
    by blast
qed

theorem ssl3_get_cipher_reverse_order_witness:
  "ssl3_num_ciphers (ssl_sort_cipher_list sample_catalog) = 4 \<and>
   ssl3_get_cipher (ssl_sort_cipher_list sample_catalog) 4 = None \<and>
   ssl3_get_cipher (ssl_sort_cipher_list sample_catalog) 0 = Some (sample_cipher ''ff85'' 0x0300ff85) \<and>
   ssl3_get_cipher (ssl_sort_cipher_list sample_catalog) 3 = Some (sample_cipher ''C100'' 0x0300C100) \<and>
   cipher_id (sample_cipher ''C100'' 0x0300C100) < cipher_id (sample_cipher ''ff85'' 0x0300ff85) \<and>
   map (\<lambda>i. map_option cipher_id (ssl3_get_cipher (ssl_sort_cipher_list sample_catalog) (of_nat i)))
       [0..<4] = [Some 0x0300ff85, Some 0x0300ff15, Some 0x0300c102, Some 0x0300C100]"
proof -
  let ?cat = "ssl_sort_cipher_list sample_catalog"
  have T: "ssl3_ciphers ?cat =
      [sample_cipher ''C100'' 0x0300C100, sample_cipher ''c102'' 0x0300c102,
       sample_cipher ''ff15'' 0x0300ff15, sample_cipher ''ff85'' 0x0300ff85]"
    by (simp add: ssl_sort_cipher_list_def sample_catalog_def sample_cipher_def qsort_def
        cipher_compare_def)
  have n: "length (ssl3_ciphers ?cat) = 4"
    by (simp add: T)
  have n0: "length (ssl3_ciphers sample_catalog) = 4"
    by (simp add: sample_catalog_def)
  have d: "distinct (map cipher_id (ssl3_ciphers sample_catalog))"
    by (simp add: sample_catalog_def sample_cipher_def)
  have srt: "sort (map cipher_id (ssl3_ciphers sample_catalog)) =
      [0x0300C100, 0x0300c102, 0x0300ff15, 0x0300ff85]"
    by (simp add: sample_catalog_def sample_cipher_def)
  have num: "ssl3_num_ciphers ?cat = 4"
    using ssl3_get_cipher_reverse_order [of ?cat 0] n by simp
  have g4: "ssl3_get_cipher ?cat 4 = None"
    using ssl3_get_cipher_reverse_order [of ?cat 4] n by simp
  have g0: "ssl3_get_cipher ?cat 0 = Some (sample_cipher ''ff85'' 0x0300ff85)"
    using ssl3_get_cipher_reverse_order [of ?cat 0] n by (simp add: T)
  have g3: "ssl3_get_cipher ?cat 3 = Some (sample_cipher ''C100'' 0x0300C100)"
    using ssl3_get_cipher_reverse_order [of ?cat 3] n by (simp add: T)
  have lt: "cipher_id (sample_cipher ''C100'' 0x0300C100) < cipher_id (sample_cipher ''ff85'' 0x0300ff85)"
    using ssl3_get_cipher_reverse_order [of sample_catalog 0] g0 g3 d
    by (auto dest!: spec [where x = 3])
  have "length (ssl3_ciphers sample_catalog) \<le> 2 ^ 32"
    by (simp add: n0)
  with ssl3_get_cipher_reverse_order [of sample_catalog 0]
  have "map (\<lambda>i. map_option cipher_id (ssl3_get_cipher ?cat (of_nat i)))
          [0..<length (ssl3_ciphers sample_catalog)] =
        map Some (rev (sort (map cipher_id (ssl3_ciphers sample_catalog))))"
    by blast
  then have enum: "map (\<lambda>i. map_option cipher_id (ssl3_get_cipher ?cat (of_nat i))) [0..<4] =
      [Some 0x0300ff85, Some 0x0300ff15, Some 0x0300c102, Some 0x0300C100]"
    by (simp only: n0 srt rev.simps append.simps list.map)
  from num g4 g0 g3 lt enum show ?thesis
    by blast
qed

section \<open>Properties of renegotiation control\<close>

lemma sint_succ_cint:
  fixes x :: cint
  assumes "sint x < 2 ^ 31 - 1"
  shows "sint (x + 1) = sint x + 1"
proof -
  have lo: "- (2 ^ 31) \<le> sint x"
    using sint_ge [of x] by simp
  have "sint (x + 1) = signed_take_bit 31 (sint x + 1)"
    by (simp add: sint_word_ariths)
  also have "\<dots> = sint x + 1"
    using lo assms by (intro signed_take_bit_int_eq_self) simp_all
  finally show ?thesis .
qed

text \<open>
  C6. With the renegotiation flag set, nothing pending in the record layer in either
  direction, and the caller being the state machine or the connection not in its
  handshake, \<open>ssl3_renegotiate_check\<close> returns 1, puts the state machine into
  renegotiation, clears the flag and adds one to both counters (one more than before as
  signed numbers, below \<^verbatim>\<open>INT_MAX\<close>); nothing else changes. In every other case it
  returns 0 and the connection is the one it was given.
\<close>

theorem ssl3_renegotiate_check_gate:
  "(s3_renegotiate s \<noteq> 0 \<and> \<not> RECORD_LAYER_read_pending E s \<and>
    \<not> RECORD_LAYER_write_pending E s \<and> (initok \<noteq> 0 \<or> \<not> SSL_in_init E s) \<longrightarrow>
      fst (ssl3_renegotiate_check E s initok) = 1 \<and>
      statem (snd (ssl3_renegotiate_check E s initok)) = ossl_statem_set_renegotiate E (statem s) \<and>
      s3_renegotiate (snd (ssl3_renegotiate_check E s initok)) = 0 \<and>
      s3_num_renegotiations (snd (ssl3_renegotiate_check E s initok)) = s3_num_renegotiations s + 1 \<and>
      s3_total_renegotiations (snd (ssl3_renegotiate_check E s initok)) =
        s3_total_renegotiations s + 1 \<and>
      (sint (s3_num_renegotiations s) < 2 ^ 31 - 1 \<longrightarrow>
         sint (s3_num_renegotiations (snd (ssl3_renegotiate_check E s initok))) =
         sint (s3_num_renegotiations s) + 1) \<and>
      (sint (s3_total_renegotiations s) < 2 ^ 31 - 1 \<longrightarrow>
         sint (s3_total_renegotiations (snd (ssl3_renegotiate_check E s initok))) =
         sint (s3_total_renegotiations s) + 1) \<and>
      snd (ssl3_renegotiate_check E s initok) =
        s\<lparr>statem := ossl_statem_set_renegotiate E (statem s), s3_renegotiate := 0,
          s3_num_renegotiations := s3_num_renegotiations s + 1,
          s3_total_renegotiations := s3_total_renegotiations s + 1\<rparr>) \<and>
   (\<not> (s3_renegotiate s \<noteq> 0 \<and> \<not> RECORD_LAYER_read_pending E s \<and>
       \<not> RECORD_LAYER_write_pending E s \<and> (initok \<noteq> 0 \<or> \<not> SSL_in_init E s)) \<longrightarrow>
      ssl3_renegotiate_check E s initok = (0, s))"
proof (cases "s3_renegotiate s \<noteq> 0 \<and> \<not> RECORD_LAYER_read_pending E s \<and>
    \<not> RECORD_LAYER_write_pending E s \<and> (initok \<noteq> 0 \<or> \<not> SSL_in_init E s)")
  case True
  then have r: "ssl3_renegotiate_check E s initok =
      (1, s\<lparr>statem := ossl_statem_set_renegotiate E (statem s), s3_renegotiate := 0,
          s3_num_renegotiations := s3_num_renegotiations s + 1,
          s3_total_renegotiations := s3_total_renegotiations s + 1\<rparr>)"
    by (simp add: ssl3_renegotiate_check_def)
  show ?thesis
    using True by (simp add: r sint_succ_cint)
next
  case False
  then have "ssl3_renegotiate_check E s initok = (0, s)"
    by (auto simp: ssl3_renegotiate_check_def)
  with False show ?thesis by simp
qed

theorem ssl3_renegotiate_check_gate_witness:
  "ssl3_renegotiate_check sample_externals (sample_ssl\<lparr>s3_renegotiate := 1\<rparr>) 0 =
     (1, sample_ssl\<lparr>statem := 1, s3_renegotiate := 0, s3_num_renegotiations := 1,
           s3_total_renegotiations := 1\<rparr>) \<and>
   ssl3_renegotiate_check (sample_externals\<lparr>RECORD_LAYER_read_pending := (\<lambda>s. True)\<rparr>)
       (sample_ssl\<lparr>s3_renegotiate := 1\<rparr>) 0 = (0, sample_ssl\<lparr>s3_renegotiate := 1\<rparr>) \<and>
   ssl3_renegotiate_check sample_externals sample_ssl 1 = (0, sample_ssl)"
proof -
  let ?s = "sample_ssl\<lparr>s3_renegotiate := 1\<rparr>"
  let ?E = "sample_externals\<lparr>RECORD_LAYER_read_pending := (\<lambda>s. True)\<rparr>"
  have a: "ssl3_renegotiate_check sample_externals ?s 0 =
     (1, sample_ssl\<lparr>statem := 1, s3_renegotiate := 0, s3_num_renegotiations := 1,
           s3_total_renegotiations := 1\<rparr>)"
    using ssl3_renegotiate_check_gate [of ?s sample_externals 0]
    by (simp add: sample_externals_def sample_ssl_def prod_eq_iff)
  have b: "ssl3_renegotiate_check ?E ?s 0 = (0, ?s)"
    using ssl3_renegotiate_check_gate [of ?s ?E 0] by simp
  have c: "ssl3_renegotiate_check sample_externals sample_ssl 1 = (0, sample_ssl)"
    using ssl3_renegotiate_check_gate [of sample_ssl sample_externals 1]
    by (simp add: sample_ssl_def)
  from a b c show ?thesis by simp
qed

section \<open>Properties of the shutdown\<close>

lemma ssl3_shutdown_finish_range: "fst (ssl3_shutdown_finish H s) = 0 \<or> fst (ssl3_shutdown_finish H s) = 1"
  by (simp add: ssl3_shutdown_finish_def)

text \<open>
  C5, as the code has it. \<open>ssl3_shutdown\<close> returns the same value, \<open>-1\<close>, in three
  cases: on the first attempt, when the close-notify alert is still queued after
  \<^verbatim>\<open>ssl3_send_alert\<close>; on a later attempt with an alert still queued, when
  \<^verbatim>\<open>ssl_dispatch_alert\<close> itself returns \<open>-1\<close>; and, with no alert queued, when the
  peer's close-notify has still not been seen after the zero-length read. It returns
  \<open>-1\<close> in no other case: when the dispatch of a queued alert returns another value,
  the result is that of the final test, which is 0 while an alert remains queued. The
  value \<open>-1\<close> differs from the results 1 (complete) and 0 (not yet complete), which are
  the only other results; it does not tell the direction to wait on.
\<close>

theorem ssl3_shutdown_would_block_value:
  "(quiet_shutdown s = 0 \<and> \<not> SSL_in_before E s \<and> shutdown s AND SSL_SENT_SHUTDOWN H = 0 \<and>
    s3_alert_dispatch (ssl3_send_alert E (s\<lparr>shutdown := shutdown s OR SSL_SENT_SHUTDOWN H\<rparr>)
       (SSL3_AL_WARNING H) (SSL_AD_CLOSE_NOTIFY H)) \<noteq> 0 \<longrightarrow>
      fst (ssl3_shutdown E H s) = - 1) \<and>
   (quiet_shutdown s = 0 \<and> \<not> SSL_in_before E s \<and> shutdown s AND SSL_SENT_SHUTDOWN H \<noteq> 0 \<and>
    s3_alert_dispatch s \<noteq> 0 \<and> fst (ssl_dispatch_alert E s) = - 1 \<longrightarrow>
      fst (ssl3_shutdown E H s) = - 1) \<and>
   (quiet_shutdown s = 0 \<and> \<not> SSL_in_before E s \<and> shutdown s AND SSL_SENT_SHUTDOWN H \<noteq> 0 \<and>
    s3_alert_dispatch s = 0 \<and> shutdown s AND SSL_RECEIVED_SHUTDOWN H = 0 \<and>
    shutdown (snd (ssl_read_bytes E s 0 0 0)) AND SSL_RECEIVED_SHUTDOWN H = 0 \<longrightarrow>
      fst (ssl3_shutdown E H s) = - 1) \<and>
   (quiet_shutdown s = 0 \<and> \<not> SSL_in_before E s \<and> shutdown s AND SSL_SENT_SHUTDOWN H \<noteq> 0 \<and>
    s3_alert_dispatch s \<noteq> 0 \<and> fst (ssl_dispatch_alert E s) \<noteq> - 1 \<longrightarrow>
      fst (ssl3_shutdown E H s) = fst (ssl3_shutdown_finish H (snd (ssl_dispatch_alert E s))) \<and>
      (s3_alert_dispatch (snd (ssl_dispatch_alert E s)) \<noteq> 0 \<longrightarrow>
         fst (ssl3_shutdown E H s) = 0)) \<and>
   (fst (ssl3_shutdown E H s) = - 1 \<longleftrightarrow>
      quiet_shutdown s = 0 \<and> \<not> SSL_in_before E s \<and>
      (shutdown s AND SSL_SENT_SHUTDOWN H = 0 \<and>
       s3_alert_dispatch (ssl3_send_alert E (s\<lparr>shutdown := shutdown s OR SSL_SENT_SHUTDOWN H\<rparr>)
          (SSL3_AL_WARNING H) (SSL_AD_CLOSE_NOTIFY H)) \<noteq> 0 \<or>
       shutdown s AND SSL_SENT_SHUTDOWN H \<noteq> 0 \<and> s3_alert_dispatch s \<noteq> 0 \<and>
       fst (ssl_dispatch_alert E s) = - 1 \<or>
       shutdown s AND SSL_SENT_SHUTDOWN H \<noteq> 0 \<and> s3_alert_dispatch s = 0 \<and>
       shutdown s AND SSL_RECEIVED_SHUTDOWN H = 0 \<and>
       shutdown (snd (ssl_read_bytes E s 0 0 0)) AND SSL_RECEIVED_SHUTDOWN H = 0)) \<and>
   (fst (ssl3_shutdown E H s) = - 1 \<or> fst (ssl3_shutdown E H s) = 0 \<or>
    fst (ssl3_shutdown E H s) = 1)"
proof -
  let ?sent = "s3_alert_dispatch (ssl3_send_alert E (s\<lparr>shutdown := shutdown s OR SSL_SENT_SHUTDOWN H\<rparr>)
       (SSL3_AL_WARNING H) (SSL_AD_CLOSE_NOTIFY H))"
  have fin: "fst (ssl3_shutdown_finish H t) \<noteq> - 1" for t
    by (simp add: ssl3_shutdown_finish_def)
  have w1: "fst (ssl3_shutdown E H s) = - 1"
    if "quiet_shutdown s = 0 \<and> \<not> SSL_in_before E s \<and> shutdown s AND SSL_SENT_SHUTDOWN H = 0 \<and>
      ?sent \<noteq> 0"
    using that by (simp add: ssl3_shutdown_def Let_def)
  have w2: "fst (ssl3_shutdown E H s) = - 1"
    if "quiet_shutdown s = 0 \<and> \<not> SSL_in_before E s \<and> shutdown s AND SSL_SENT_SHUTDOWN H \<noteq> 0 \<and>
      s3_alert_dispatch s \<noteq> 0 \<and> fst (ssl_dispatch_alert E s) = - 1"
    using that by (auto simp: ssl3_shutdown_def Let_def split: prod.splits)
  have r: "fst (ssl3_shutdown E H s) = - 1"
    if "quiet_shutdown s = 0 \<and> \<not> SSL_in_before E s \<and> shutdown s AND SSL_SENT_SHUTDOWN H \<noteq> 0 \<and>
      s3_alert_dispatch s = 0 \<and> shutdown s AND SSL_RECEIVED_SHUTDOWN H = 0 \<and>
      shutdown (snd (ssl_read_bytes E s 0 0 0)) AND SSL_RECEIVED_SHUTDOWN H = 0"
    using that by (simp add: ssl3_shutdown_def Let_def)
  have d: "fst (ssl3_shutdown E H s) = fst (ssl3_shutdown_finish H (snd (ssl_dispatch_alert E s))) \<and>
      (s3_alert_dispatch (snd (ssl_dispatch_alert E s)) \<noteq> 0 \<longrightarrow> fst (ssl3_shutdown E H s) = 0)"
    if "quiet_shutdown s = 0 \<and> \<not> SSL_in_before E s \<and> shutdown s AND SSL_SENT_SHUTDOWN H \<noteq> 0 \<and>
      s3_alert_dispatch s \<noteq> 0 \<and> fst (ssl_dispatch_alert E s) \<noteq> - 1"
    using that
    by (auto simp: ssl3_shutdown_def ssl3_shutdown_finish_def Let_def split: prod.splits)
  have only: "quiet_shutdown s = 0 \<and> \<not> SSL_in_before E s \<and>
      (shutdown s AND SSL_SENT_SHUTDOWN H = 0 \<and> ?sent \<noteq> 0 \<or>
       shutdown s AND SSL_SENT_SHUTDOWN H \<noteq> 0 \<and> s3_alert_dispatch s \<noteq> 0 \<and>
       fst (ssl_dispatch_alert E s) = - 1 \<or>
       shutdown s AND SSL_SENT_SHUTDOWN H \<noteq> 0 \<and> s3_alert_dispatch s = 0 \<and>
       shutdown s AND SSL_RECEIVED_SHUTDOWN H = 0 \<and>
       shutdown (snd (ssl_read_bytes E s 0 0 0)) AND SSL_RECEIVED_SHUTDOWN H = 0)"
    if "fst (ssl3_shutdown E H s) = - 1"
    using that fin
    by (auto simp: ssl3_shutdown_def Let_def split: prod.splits if_splits)
  have rng: "fst (ssl3_shutdown E H s) = - 1 \<or> fst (ssl3_shutdown E H s) = 0 \<or>
      fst (ssl3_shutdown E H s) = 1"
    using ssl3_shutdown_finish_range [of H]
    by (auto simp: ssl3_shutdown_def Let_def split: prod.splits)
  from w1 w2 r d only rng show ?thesis by blast
qed

theorem ssl3_shutdown_would_block_value_witness:
  "fst (ssl3_shutdown sample_externals sample_macros sample_ssl) = - 1 \<and>
   fst (ssl3_shutdown sample_externals sample_macros (sample_ssl\<lparr>shutdown := 1, s3_alert_dispatch := 1\<rparr>)) = - 1 \<and>
   fst (ssl3_shutdown sample_externals sample_macros (sample_ssl\<lparr>shutdown := 1\<rparr>)) = - 1 \<and>
   fst (ssl3_shutdown (sample_externals\<lparr>ssl_dispatch_alert := (\<lambda>s. (0, s))\<rparr>) sample_macros
          (sample_ssl\<lparr>shutdown := 1, s3_alert_dispatch := 1\<rparr>)) = 0"
proof -
  have a: "fst (ssl3_shutdown sample_externals sample_macros sample_ssl) = - 1"
    using ssl3_shutdown_would_block_value [of sample_ssl sample_externals sample_macros]
    by (simp add: sample_ssl_def sample_externals_def sample_macros_def)
  have b: "fst (ssl3_shutdown sample_externals sample_macros
      (sample_ssl\<lparr>shutdown := 1, s3_alert_dispatch := 1\<rparr>)) = - 1"
    using ssl3_shutdown_would_block_value
      [of "sample_ssl\<lparr>shutdown := 1, s3_alert_dispatch := 1\<rparr>" sample_externals sample_macros]
    by (simp add: sample_ssl_def sample_externals_def sample_macros_def)
  have c: "fst (ssl3_shutdown sample_externals sample_macros (sample_ssl\<lparr>shutdown := 1\<rparr>)) = - 1"
    using ssl3_shutdown_would_block_value
      [of "sample_ssl\<lparr>shutdown := 1\<rparr>" sample_externals sample_macros]
    by (simp add: sample_ssl_def sample_externals_def sample_macros_def)
  have d: "fst (ssl3_shutdown (sample_externals\<lparr>ssl_dispatch_alert := (\<lambda>s. (0, s))\<rparr>) sample_macros
      (sample_ssl\<lparr>shutdown := 1, s3_alert_dispatch := 1\<rparr>)) = 0"
    using ssl3_shutdown_would_block_value
      [of "sample_ssl\<lparr>shutdown := 1, s3_alert_dispatch := 1\<rparr>"
        "sample_externals\<lparr>ssl_dispatch_alert := (\<lambda>s. (0, s))\<rparr>" sample_macros]
    by (simp add: sample_ssl_def sample_externals_def sample_macros_def)
  from a b c d show ?thesis by simp
qed

text \<open>
  The claim as stated fails: on a fresh connection whose close-notify alert stays
  queued, and on a connection that has sent its close-notify and waits for the peer's,
  the results are equal.
\<close>

theorem ssl3_shutdown_indicators_equal:
  "ssl3_shutdown sample_externals sample_macros sample_ssl =
     (- 1, sample_ssl\<lparr>shutdown := 1, s3_alert_dispatch := 1\<rparr>) \<and>
   ssl3_shutdown sample_externals sample_macros (sample_ssl\<lparr>shutdown := 1\<rparr>) =
     (- 1, sample_ssl\<lparr>shutdown := 1\<rparr>) \<and>
   fst (ssl3_shutdown sample_externals sample_macros sample_ssl) =
   fst (ssl3_shutdown sample_externals sample_macros (sample_ssl\<lparr>shutdown := 1\<rparr>))"
  by (simp add: ssl3_shutdown_def sample_ssl_def sample_externals_def sample_macros_def)

section \<open>Properties of the hello random\<close>

lemma length_overwrite: "length (overwrite old new) = length old"
  by (simp add: overwrite_def)

lemma length_l2n: "length (l2n t) = 4"
  by (simp add: l2n_def)

lemma length_downgrade: "length tls11downgrade = 8" "length tls12downgrade = 8"
  by (simp_all add: tls11downgrade_def tls12downgrade_def)

lemma length_hello_random_fill:
  assumes "4 \<le> length result"
  shows "length (snd (hello_random_fill E H s srv result)) = length result"
proof -
  have "4 + (length result - 4) = length result"
    using assms by simp
  then show ?thesis
    by (simp add: hello_random_fill_def Let_def length_l2n length_overwrite split: prod.splits)
qed

lemma memcpy_at_end:
  assumes "off + length src = length dst"
  shows "drop off (memcpy dst off src) = src"
    and "take off (memcpy dst off src) = take off dst"
    and "length (memcpy dst off src) = length dst"
  using assms by (simp_all add: memcpy_def)

text \<open>
  C4. \<open>ssl_fill_hello_random\<close> returns 0 for a length below 4. When the fill succeeds
  and the length exceeds 8, the result is that of the fill and the buffer keeps its
  length; for a downgrade to TLS 1.2 its last 8 bytes are 44 4F 57 4E 47 52 44 01, for
  a downgrade to TLS 1.1 or below they are 44 4F 57 4E 47 52 44 00 (the bytes before
  them are those of the fill), and with no downgrade the buffer is the filled one.
\<close>

theorem ssl_fill_hello_random_sentinel:
  "(length result < 4 \<longrightarrow> fst (ssl_fill_hello_random E H s srv result dgrd) = 0) \<and>
   (0 < fst (hello_random_fill E H s srv result) \<and> 8 < length result \<longrightarrow>
      fst (ssl_fill_hello_random E H s srv result dgrd) = fst (hello_random_fill E H s srv result) \<and>
      length (snd (ssl_fill_hello_random E H s srv result dgrd)) = length result \<and>
      (dgrd = DOWNGRADE_TO_1_2 \<longrightarrow>
         drop (length result - 8) (snd (ssl_fill_hello_random E H s srv result dgrd)) =
           [0x44, 0x4F, 0x57, 0x4E, 0x47, 0x52, 0x44, 0x01] \<and>
         take (length result - 8) (snd (ssl_fill_hello_random E H s srv result dgrd)) =
           take (length result - 8) (snd (hello_random_fill E H s srv result))) \<and>
      (dgrd = DOWNGRADE_TO_1_1 \<longrightarrow>
         drop (length result - 8) (snd (ssl_fill_hello_random E H s srv result dgrd)) =
           [0x44, 0x4F, 0x57, 0x4E, 0x47, 0x52, 0x44, 0x00] \<and>
         take (length result - 8) (snd (ssl_fill_hello_random E H s srv result dgrd)) =
           take (length result - 8) (snd (hello_random_fill E H s srv result))) \<and>
      (dgrd = DOWNGRADE_NONE \<longrightarrow>
         snd (ssl_fill_hello_random E H s srv result dgrd) =
           snd (hello_random_fill E H s srv result)))"
proof -
  let ?fill = "hello_random_fill E H s srv result"
  let ?r = "ssl_fill_hello_random E H s srv result dgrd"
  have short: "fst ?r = 0" if "length result < 4"
    using that by (simp add: ssl_fill_hello_random_def)
  have long: "fst ?r = fst ?fill \<and> length (snd ?r) = length result \<and>
      (dgrd = DOWNGRADE_TO_1_2 \<longrightarrow>
         drop (length result - 8) (snd ?r) = [0x44, 0x4F, 0x57, 0x4E, 0x47, 0x52, 0x44, 0x01] \<and>
         take (length result - 8) (snd ?r) = take (length result - 8) (snd ?fill)) \<and>
      (dgrd = DOWNGRADE_TO_1_1 \<longrightarrow>
         drop (length result - 8) (snd ?r) = [0x44, 0x4F, 0x57, 0x4E, 0x47, 0x52, 0x44, 0x00] \<and>
         take (length result - 8) (snd ?r) = take (length result - 8) (snd ?fill)) \<and>
      (dgrd = DOWNGRADE_NONE \<longrightarrow> snd ?r = snd ?fill)"
    if ok: "0 < fst ?fill" and len: "8 < length result"
  proof -
    obtain ret filled where f: "?fill = (ret, filled)"
      by (cases ?fill)
    have lf: "length filled = length result"
      using length_hello_random_fill [of result E H s srv] len f by simp
    have off: "length result - 8 + length tls12downgrade = length filled"
      "length result - 8 + length tls11downgrade = length filled"
      using len lf by (simp_all add: length_downgrade)
    have r: "?r = (if dgrd = DOWNGRADE_TO_1_2
                   then (ret, memcpy filled (length result - 8) tls12downgrade)
                   else if dgrd = DOWNGRADE_TO_1_1
                   then (ret, memcpy filled (length result - 8) tls11downgrade)
                   else (ret, filled))"
      using ok len f
      by (simp add: ssl_fill_hello_random_def length_downgrade)
    show ?thesis
    proof (cases dgrd)
      case DOWNGRADE_NONE
      then show ?thesis using r f lf by simp
    next
      case DOWNGRADE_TO_1_2
      then show ?thesis
        using r f lf memcpy_at_end [OF off(1)] by (simp add: tls12downgrade_def)
    next
      case DOWNGRADE_TO_1_1
      then show ?thesis
        using r f lf memcpy_at_end [OF off(2)] by (simp add: tls11downgrade_def)
    qed
  qed
  from short long show ?thesis by blast
qed

theorem ssl_fill_hello_random_sentinel_witness:
  "fst (ssl_fill_hello_random sample_externals sample_macros sample_ssl 1 [1, 2, 3] DOWNGRADE_TO_1_2) = 0 \<and>
   ssl_fill_hello_random sample_externals sample_macros sample_ssl 1 (replicate 32 0) DOWNGRADE_TO_1_2 =
     (1, replicate 24 0xAB @ [0x44, 0x4F, 0x57, 0x4E, 0x47, 0x52, 0x44, 0x01]) \<and>
   ssl_fill_hello_random sample_externals sample_macros sample_ssl 1 (replicate 32 0) DOWNGRADE_TO_1_1 =
     (1, replicate 24 0xAB @ [0x44, 0x4F, 0x57, 0x4E, 0x47, 0x52, 0x44, 0x00]) \<and>
   ssl_fill_hello_random sample_externals sample_macros sample_ssl 1 (replicate 32 0) DOWNGRADE_NONE =
     (1, replicate 32 0xAB)"
proof -
  let ?f = "\<lambda>d. ssl_fill_hello_random sample_externals sample_macros sample_ssl 1 (replicate 32 0) d"
  have fill: "hello_random_fill sample_externals sample_macros sample_ssl 1 (replicate 32 0) =
      (1, replicate 32 0xAB)"
    by (simp add: hello_random_fill_def sample_externals_def sample_macros_def sample_ssl_def
        overwrite_def)
  have short: "fst (ssl_fill_hello_random sample_externals sample_macros sample_ssl 1 [1, 2, 3]
      DOWNGRADE_TO_1_2) = 0"
    using ssl_fill_hello_random_sentinel
      [of "[1, 2, 3]" sample_externals sample_macros sample_ssl 1 DOWNGRADE_TO_1_2]
    by simp
  have split: "xs = take 24 xs @ drop 24 xs" for xs :: "byte list"
    by simp
  have t24: "take 24 (replicate 32 (0xAB :: byte)) = replicate 24 0xAB"
    by simp
  have a: "?f DOWNGRADE_TO_1_2 = (1, replicate 24 0xAB @ [0x44, 0x4F, 0x57, 0x4E, 0x47, 0x52, 0x44, 0x01])"
    using ssl_fill_hello_random_sentinel
      [of "replicate 32 0" sample_externals sample_macros sample_ssl 1 DOWNGRADE_TO_1_2]
      split [of "snd (?f DOWNGRADE_TO_1_2)"]
    by (simp add: fill prod_eq_iff t24)
  have b: "?f DOWNGRADE_TO_1_1 = (1, replicate 24 0xAB @ [0x44, 0x4F, 0x57, 0x4E, 0x47, 0x52, 0x44, 0x00])"
    using ssl_fill_hello_random_sentinel
      [of "replicate 32 0" sample_externals sample_macros sample_ssl 1 DOWNGRADE_TO_1_1]
      split [of "snd (?f DOWNGRADE_TO_1_1)"]
    by (simp add: fill prod_eq_iff t24)
  have c: "?f DOWNGRADE_NONE = (1, replicate 32 0xAB)"
    using ssl_fill_hello_random_sentinel
      [of "replicate 32 0" sample_externals sample_macros sample_ssl 1 DOWNGRADE_NONE]
    by (simp add: fill prod_eq_iff)
  from short a b c show ?thesis by simp
qed

section \<open>Properties of the classic master secret\<close>

lemma s2n_decode:
  assumes "n < 2 ^ 16"
  shows "256 * unat (s2n n ! 0) + unat (s2n n ! 1) = n"
proof -
  have "n div 256 < 256"
    using assms by simp
  then have a: "unat (of_nat (n div 256) :: byte) = n div 256"
    by (simp add: unat_of_nat)
  have b: "unat (of_nat n :: byte) = n mod 256"
    by (simp add: unat_of_nat)
  show ?thesis
    by (simp add: s2n_def a b)
qed

lemma length_s2n: "length (s2n n) = 2"
  by (simp add: s2n_def)

lemma gms_err_Inr:
  assumes "case pms of None \<Rightarrow> True | Some b \<Rightarrow> n \<le> length b"
  shows "\<exists>r. gms_err s pms n free_pms ret k = Inr r \<and> gms_kdf_input r = k \<and> gms_ret r = ret \<and>
           gms_ssl r = (if server s = 0 then s\<lparr>s3_tmp_pms := None, s3_tmp_pmslen := 0\<rparr> else s)"
proof (cases pms)
  case None
  then show ?thesis by (simp add: gms_err_def)
next
  case (Some b)
  with assms have "\<not> length b < n" by simp
  with Some show ?thesis by (simp add: gms_err_def)
qed

text \<open>
  The call of the master-secret function: it returns a fault only when the function
  yields a key and there is no session to store it in.
\<close>

lemma call_generate_master_secret_Inr:
  assumes "generate_master_secret E s p \<noteq> None \<longrightarrow> session s \<noteq> None"
  shows "call_generate_master_secret E s p =
     Inr (generate_master_secret E s p \<noteq> None,
          case generate_master_secret E s p of
            None \<Rightarrow> s
          | Some mk \<Rightarrow>
              s\<lparr>session := map_option
                   (\<lambda>sess. sess\<lparr>master_key := mk, master_key_length := length mk\<rparr>) (session s)\<rparr>)"
  using assms
  by (auto simp: call_generate_master_secret_def split: option.splits)

text \<open>
  C3, as the code has it. For a negotiated suite of the PSK family, when the combined
  buffer can be allocated, \<open>ssl_generate_master_secret\<close> hands the master-secret function
  of the method a buffer of exactly \<open>2 + N + 2 + M\<close> bytes: the two-byte big-endian
  \<open>N\<close>, the \<open>N\<close> bytes of \<open>other_secret\<close>, the two-byte big-endian \<open>M\<close>, and the \<open>M\<close>
  bytes of the stored PSK. For plain PSK, \<open>N\<close> is the length of the PSK (the premaster
  argument and its length are not used) and \<open>other_secret\<close> is \<open>N\<close> zero bytes;
  otherwise \<open>N\<close> is the premaster length and \<open>other_secret\<close> the premaster. The result
  is 1 and the session holds the key that the function derives from this buffer, or the
  result is 0 when the function fails; the function is called on the connection whose
  stored PSK is already the null pointer with length 0, and so it is afterwards. When
  the buffer cannot be allocated, the result is 0 and the master-secret function is not
  called. The hypotheses say that the buffers the function reads and erases are as long
  as the lengths passed with them, and that there is a session when a key is stored.
\<close>

theorem ssl_generate_master_secret_psk:
  assumes cipher: "s3_tmp_new_cipher s = Some c"
    and family: "algorithm_mkey c AND SSL_PSK H \<noteq> 0"
    and N: "N = (if algorithm_mkey c AND SSL_kPSK H \<noteq> 0 then s3_tmp_psklen s else pmslen)"
    and other: "other_secret = (if algorithm_mkey c AND SSL_kPSK H \<noteq> 0 then replicate N 0
                                else take N (the pms))"
    and psk: "s3_tmp_psk s = Some psk" "s3_tmp_psklen s = length psk"
    and pms: "case pms of None \<Rightarrow> algorithm_mkey c AND SSL_kPSK H \<noteq> 0 \<or> N = 0
                        | Some b \<Rightarrow> N \<le> length b"
    and buf: "buf = s2n N @ other_secret @ s2n (length psk) @ psk"
    and s1: "s1 = s\<lparr>s3_tmp_psk := None, s3_tmp_psklen := 0\<rparr>"
    and sess: "generate_master_secret E s1 buf \<noteq> None \<longrightarrow> session s \<noteq> None"
  shows "(OPENSSL_malloc E (4 + N + length psk) \<longrightarrow>
            (\<exists>r. ssl_generate_master_secret E H s pms pmslen free_pms = Inr r \<and>
               gms_kdf_input r = Some buf \<and>
               gms_ret r = (if generate_master_secret E s1 buf = None then 0 else 1) \<and>
               session (gms_ssl r) =
                 (case generate_master_secret E s1 buf of
                    None \<Rightarrow> session s
                  | Some mk \<Rightarrow>
                      map_option (\<lambda>sess. sess\<lparr>master_key := mk, master_key_length := length mk\<rparr>)
                        (session s)) \<and>
               s3_tmp_psk (gms_ssl r) = None \<and> s3_tmp_psklen (gms_ssl r) = 0)) \<and>
         (\<not> OPENSSL_malloc E (4 + N + length psk) \<longrightarrow>
            (\<exists>r. ssl_generate_master_secret E H s pms pmslen free_pms = Inr r \<and>
               gms_ret r = 0 \<and> gms_kdf_input r = None \<and> session (gms_ssl r) = session s)) \<and>
         length buf = 2 + N + 2 + length psk \<and>
         length other_secret = N \<and>
         (N < 2 ^ 16 \<longrightarrow> 256 * unat (s2n N ! 0) + unat (s2n N ! 1) = N) \<and>
         (length psk < 2 ^ 16 \<longrightarrow>
            256 * unat (s2n (length psk) ! 0) + unat (s2n (length psk) ! 1) = length psk)"
proof -
  let ?pure = "algorithm_mkey c AND SSL_kPSK H \<noteq> 0"
  let ?kdf = "generate_master_secret E s1 buf"
  let ?s2 = "case ?kdf of
               None \<Rightarrow> s1
             | Some mk \<Rightarrow>
                 s1\<lparr>session := map_option
                      (\<lambda>sess. sess\<lparr>master_key := mk, master_key_length := length mk\<rparr>) (session s1)\<rparr>"
  have rd_psk: "read_bytes (s3_tmp_psk s) (length psk) = Inr psk"
    using psk by (simp add: read_bytes_def)
  have rd_other: "(if ?pure then Inr (replicate N 0) else read_bytes pms N) = Inr other_secret"
    using pms other by (auto simp: read_bytes_def split: option.splits)
  have len_other: "length other_secret = N"
    using pms other by (auto split: option.splits)
  have fits: "case pms of None \<Rightarrow> True | Some b \<Rightarrow> N \<le> length b"
    using pms by (auto split: option.splits)
  have pmslen': "(if ?pure then length psk else pmslen) = N"
    using N psk(2) by simp
  have sess1: "?kdf \<noteq> None \<longrightarrow> session s1 \<noteq> None"
    using sess by (simp add: s1)
  have call: "call_generate_master_secret E s1 buf = Inr (?kdf \<noteq> None, ?s2)"
    by (rule call_generate_master_secret_Inr [OF sess1])
  have s2: "s3_tmp_psk ?s2 = None" "s3_tmp_psklen ?s2 = 0"
    "session ?s2 = (case ?kdf of
        None \<Rightarrow> session s
      | Some mk \<Rightarrow>
          map_option (\<lambda>sess. sess\<lparr>master_key := mk, master_key_length := length mk\<rparr>) (session s))"
    by (simp_all add: s1 split: option.splits)
  have ok: "\<exists>r. ssl_generate_master_secret E H s pms pmslen free_pms = Inr r \<and>
      gms_kdf_input r = Some buf \<and>
      gms_ret r = (if ?kdf = None then 0 else 1) \<and>
      session (gms_ssl r) =
        (case ?kdf of
           None \<Rightarrow> session s
         | Some mk \<Rightarrow>
             map_option (\<lambda>sess. sess\<lparr>master_key := mk, master_key_length := length mk\<rparr>)
               (session s)) \<and>
      s3_tmp_psk (gms_ssl r) = None \<and> s3_tmp_psklen (gms_ssl r) = 0"
    if alloc: "OPENSSL_malloc E (4 + N + length psk)"
  proof -
    from gms_err_Inr [OF fits, of ?s2 free_pms "if ?kdf \<noteq> None then 1 else 0" "Some buf"]
    obtain r where err: "gms_err ?s2 pms N free_pms (if ?kdf \<noteq> None then 1 else 0) (Some buf) = Inr r"
      and r0: "gms_kdf_input r = Some buf" "gms_ret r = (if ?kdf \<noteq> None then 1 else 0)"
        "gms_ssl r = (if server ?s2 = 0 then ?s2\<lparr>s3_tmp_pms := None, s3_tmp_pmslen := 0\<rparr> else ?s2)"
      by blast
    have r: "gms_ret r = (if ?kdf = None then 0 else 1)"
      "s3_tmp_psk (gms_ssl r) = None" "s3_tmp_psklen (gms_ssl r) = 0"
      "session (gms_ssl r) = session ?s2"
      using r0 s2(1,2) by simp_all
    have "ssl_generate_master_secret E H s pms pmslen free_pms = Inr r"
    proof (cases ?pure)
      case True
      with N psk(2) have N': "N = length psk" by simp
      from True other N' have o: "other_secret = replicate (length psk) 0" by simp
      have b: "s2n (length psk) @ replicate (length psk) 0 @ s2n (length psk) @ psk = buf"
        using buf N' o by simp
      show ?thesis
        using cipher family alloc rd_psk call err True psk(2) unfolding N'
        by (simp add: ssl_generate_master_secret_def Let_def b s1 [symmetric])
    next
      case False
      with N have N': "N = pmslen" by simp
      from False rd_other N' have rd: "read_bytes pms pmslen = Inr other_secret" by simp
      have b: "s2n pmslen @ other_secret @ s2n (length psk) @ psk = buf"
        using buf N' by simp
      show ?thesis
        using cipher family alloc rd_psk call err False psk(2) rd unfolding N'
        by (simp add: ssl_generate_master_secret_def Let_def b s1 [symmetric])
    qed
    with r0(1) r s2(3) show ?thesis
      by auto
  qed
  have fail: "\<exists>r. ssl_generate_master_secret E H s pms pmslen free_pms = Inr r \<and>
      gms_ret r = 0 \<and> gms_kdf_input r = None \<and> session (gms_ssl r) = session s"
    if alloc: "\<not> OPENSSL_malloc E (4 + N + length psk)"
  proof -
    from gms_err_Inr [OF fits, of s free_pms 0 None]
    obtain r where err: "gms_err s pms N free_pms 0 None = Inr r"
      and r0: "gms_kdf_input r = None" "gms_ret r = 0"
        "gms_ssl r = (if server s = 0 then s\<lparr>s3_tmp_pms := None, s3_tmp_pmslen := 0\<rparr> else s)"
      by blast
    have "ssl_generate_master_secret E H s pms pmslen free_pms = Inr r"
      using cipher family alloc err psk(2) pmslen'
      by (simp add: ssl_generate_master_secret_def Let_def)
    moreover have "session (gms_ssl r) = session s"
      using r0(3) by simp
    ultimately show ?thesis
      using r0(1,2) by blast
  qed
  have "length buf = 2 + N + 2 + length psk"
    by (simp add: buf length_s2n len_other)
  with ok fail len_other s2n_decode show ?thesis
    by blast
qed

theorem ssl_generate_master_secret_psk_witness:
  "(\<exists>r. ssl_generate_master_secret sample_externals sample_macros
          (sample_psk_ssl 0x8 [0xAA, 0xBB]) None 0 0 = Inr r \<and>
        gms_kdf_input r = Some [0, 2, 0, 0, 0, 2, 0xAA, 0xBB] \<and>
        gms_ret r = 1 \<and>
        map_option master_key (session (gms_ssl r)) =
          Some ([0, 2, 0, 0, 0, 2, 0xAA, 0xBB] @ replicate 40 0) \<and>
        s3_tmp_psk (gms_ssl r) = None \<and> s3_tmp_psklen (gms_ssl r) = 0) \<and>
   (\<exists>r. ssl_generate_master_secret sample_externals sample_macros
          (sample_psk_ssl 0x100 [0xAA, 0xBB]) (Some [1, 2, 3]) 3 0 = Inr r \<and>
        gms_kdf_input r = Some [0, 3, 1, 2, 3, 0, 2, 0xAA, 0xBB] \<and>
        gms_ret r = 1 \<and>
        map_option master_key (session (gms_ssl r)) =
          Some ([0, 3, 1, 2, 3, 0, 2, 0xAA, 0xBB] @ replicate 39 0) \<and>
        s3_tmp_psk (gms_ssl r) = None \<and> s3_tmp_psklen (gms_ssl r) = 0) \<and>
   (\<exists>r. ssl_generate_master_secret (sample_externals\<lparr>OPENSSL_malloc := (\<lambda>n. False)\<rparr>)
          sample_macros (sample_psk_ssl 0x100 [0xAA, 0xBB]) (Some [1, 2, 3]) 3 0 = Inr r \<and>
        gms_ret r = 0 \<and> gms_kdf_input r = None)"
proof -
  let ?c = "\<lambda>kx. (sample_cipher ''PSK'' 0x0300008C)\<lparr>algorithm_mkey := kx\<rparr>"
  let ?E0 = "sample_externals\<lparr>OPENSSL_malloc := (\<lambda>n. False)\<rparr>"
  let ?b1 = "s2n 2 @ [0, 0] @ s2n (length [0xAA, 0xBB :: byte]) @ [0xAA, 0xBB]"
  let ?b2 = "s2n 3 @ [1, 2, 3] @ s2n (length [0xAA, 0xBB :: byte]) @ [0xAA, 0xBB]"
  have cipher: "s3_tmp_new_cipher (sample_psk_ssl kx [0xAA, 0xBB]) = Some (?c kx)" for kx
    by (simp add: sample_psk_ssl_def)
  have psk: "s3_tmp_psk (sample_psk_ssl kx [0xAA, 0xBB]) = Some [0xAA, 0xBB]"
    "s3_tmp_psklen (sample_psk_ssl kx [0xAA, 0xBB]) = length [0xAA, 0xBB :: byte]" for kx
    by (simp_all add: sample_psk_ssl_def)
  have session: "session (sample_psk_ssl kx [0xAA, 0xBB]) = Some sample_session" for kx
    by (simp add: sample_psk_ssl_def)
  have sess: "generate_master_secret E t b \<noteq> None \<longrightarrow>
      session (sample_psk_ssl kx [0xAA, 0xBB]) \<noteq> None" for E t b kx
    by (simp add: session)
  have alloc: "OPENSSL_malloc sample_externals n" for n
    by (simp add: sample_externals_def)
  have no_alloc: "\<not> OPENSSL_malloc ?E0 n" for n
    by simp
  have kdf: "generate_master_secret sample_externals t b = Some (take 48 (b @ replicate 48 0))"
    for t b
    by (simp add: sample_externals_def)
  have fam: "algorithm_mkey (?c 0x8) AND SSL_PSK sample_macros \<noteq> 0"
    "algorithm_mkey (?c 0x100) AND SSL_PSK sample_macros \<noteq> 0"
    by (simp_all add: sample_macros_def)
  have kind: "algorithm_mkey (?c 0x8) AND SSL_kPSK sample_macros \<noteq> 0"
    "\<not> algorithm_mkey (?c 0x100) AND SSL_kPSK sample_macros \<noteq> 0"
    by (simp_all add: sample_macros_def)
  have N1: "2 = (if algorithm_mkey (?c 0x8) AND SSL_kPSK sample_macros \<noteq> 0
                 then s3_tmp_psklen (sample_psk_ssl 0x8 [0xAA, 0xBB]) else 0)"
    using kind(1) psk(2) by simp
  have o1: "[0, 0 :: byte] = (if algorithm_mkey (?c 0x8) AND SSL_kPSK sample_macros \<noteq> 0
                 then replicate 2 0 else take 2 (the None))"
    using kind(1) by (simp add: numeral_2_eq_2)
  have p1: "case None :: byte list option of
              None \<Rightarrow> algorithm_mkey (?c 0x8) AND SSL_kPSK sample_macros \<noteq> 0 \<or> (2 :: nat) = 0
            | Some b \<Rightarrow> 2 \<le> length b"
    using kind(1) by simp
  have N2: "3 = (if algorithm_mkey (?c 0x100) AND SSL_kPSK sample_macros \<noteq> 0
                 then s3_tmp_psklen (sample_psk_ssl 0x100 [0xAA, 0xBB]) else 3)"
    using kind(2) by simp
  have o2: "[1, 2, 3 :: byte] = (if algorithm_mkey (?c 0x100) AND SSL_kPSK sample_macros \<noteq> 0
                 then replicate 3 0 else take 3 (the (Some [1, 2, 3])))"
    using kind(2) by simp
  have p2: "case Some [1, 2, 3 :: byte] of
              None \<Rightarrow> algorithm_mkey (?c 0x100) AND SSL_kPSK sample_macros \<noteq> 0 \<or> (3 :: nat) = 0
            | Some b \<Rightarrow> 3 \<le> length b"
    by simp
  have b1: "?b1 = [0, 2, 0, 0, 0, 2, 0xAA, 0xBB]"
    and b2: "?b2 = [0, 3, 1, 2, 3, 0, 2, 0xAA, 0xBB]"
    by (simp_all add: s2n_def)
  have k1: "take 48 ([0, 2, 0, 0, 0, 2, 0xAA, 0xBB] @ replicate 48 (0 :: byte)) =
      [0, 2, 0, 0, 0, 2, 0xAA, 0xBB] @ replicate 40 0"
    and k2: "take 48 ([0, 3, 1, 2, 3, 0, 2, 0xAA, 0xBB] @ replicate 48 (0 :: byte)) =
      [0, 3, 1, 2, 3, 0, 2, 0xAA, 0xBB] @ replicate 39 0"
    by (simp_all add: take_replicate)
  from ssl_generate_master_secret_psk
    [OF cipher fam(1) N1 o1 psk p1 refl refl sess, where E = sample_externals and free_pms = 0]
    alloc [of "4 + 2 + length [0xAA, 0xBB :: byte]"]
  obtain r1 where r1: "ssl_generate_master_secret sample_externals sample_macros
          (sample_psk_ssl 0x8 [0xAA, 0xBB]) None 0 0 = Inr r1"
      "gms_kdf_input r1 = Some ?b1"
      "gms_ret r1 = (if generate_master_secret sample_externals
          ((sample_psk_ssl 0x8 [0xAA, 0xBB])\<lparr>s3_tmp_psk := None, s3_tmp_psklen := 0\<rparr>) ?b1 = None
          then 0 else 1)"
      "session (gms_ssl r1) =
         (case generate_master_secret sample_externals
            ((sample_psk_ssl 0x8 [0xAA, 0xBB])\<lparr>s3_tmp_psk := None, s3_tmp_psklen := 0\<rparr>) ?b1 of
            None \<Rightarrow> session (sample_psk_ssl 0x8 [0xAA, 0xBB])
          | Some mk \<Rightarrow>
              map_option (\<lambda>sess. sess\<lparr>master_key := mk, master_key_length := length mk\<rparr>)
                (session (sample_psk_ssl 0x8 [0xAA, 0xBB])))"
      "s3_tmp_psk (gms_ssl r1) = None" "s3_tmp_psklen (gms_ssl r1) = 0"
    by blast
  from ssl_generate_master_secret_psk
    [OF cipher fam(2) N2 o2 psk p2 refl refl sess, where E = sample_externals and free_pms = 0]
    alloc [of "4 + 3 + length [0xAA, 0xBB :: byte]"]
  obtain r2 where r2: "ssl_generate_master_secret sample_externals sample_macros
          (sample_psk_ssl 0x100 [0xAA, 0xBB]) (Some [1, 2, 3]) 3 0 = Inr r2"
      "gms_kdf_input r2 = Some ?b2"
      "gms_ret r2 = (if generate_master_secret sample_externals
          ((sample_psk_ssl 0x100 [0xAA, 0xBB])\<lparr>s3_tmp_psk := None, s3_tmp_psklen := 0\<rparr>) ?b2 = None
          then 0 else 1)"
      "session (gms_ssl r2) =
         (case generate_master_secret sample_externals
            ((sample_psk_ssl 0x100 [0xAA, 0xBB])\<lparr>s3_tmp_psk := None, s3_tmp_psklen := 0\<rparr>) ?b2 of
            None \<Rightarrow> session (sample_psk_ssl 0x100 [0xAA, 0xBB])
          | Some mk \<Rightarrow>
              map_option (\<lambda>sess. sess\<lparr>master_key := mk, master_key_length := length mk\<rparr>)
                (session (sample_psk_ssl 0x100 [0xAA, 0xBB])))"
      "s3_tmp_psk (gms_ssl r2) = None" "s3_tmp_psklen (gms_ssl r2) = 0"
    by blast
  from ssl_generate_master_secret_psk
    [OF cipher fam(2) N2 o2 psk p2 refl refl sess, where E = ?E0 and free_pms = 0]
    no_alloc [of "4 + 3 + length [0xAA, 0xBB :: byte]"]
  obtain r3 where r3: "ssl_generate_master_secret ?E0 sample_macros
          (sample_psk_ssl 0x100 [0xAA, 0xBB]) (Some [1, 2, 3]) 3 0 = Inr r3"
      "gms_ret r3 = 0" "gms_kdf_input r3 = None"
    by blast
  have i1: "gms_kdf_input r1 = Some [0, 2, 0, 0, 0, 2, 0xAA, 0xBB]"
    using r1(2) by (simp only: b1)
  have ret1: "gms_ret r1 = 1"
    using r1(3) by (simp only: kdf) simp
  have mk1: "map_option master_key (session (gms_ssl r1)) =
      Some ([0, 2, 0, 0, 0, 2, 0xAA, 0xBB] @ replicate 40 0)"
    using r1(4) unfolding kdf b1 k1 session by simp
  have i2: "gms_kdf_input r2 = Some [0, 3, 1, 2, 3, 0, 2, 0xAA, 0xBB]"
    using r2(2) by (simp only: b2)
  have ret2: "gms_ret r2 = 1"
    using r2(3) by (simp only: kdf) simp
  have mk2: "map_option master_key (session (gms_ssl r2)) =
      Some ([0, 3, 1, 2, 3, 0, 2, 0xAA, 0xBB] @ replicate 39 0)"
    using r2(4) unfolding kdf b2 k2 session by simp
  from r1(1) i1 ret1 mk1 r1(5,6) r2(1) i2 ret2 mk2 r2(5,6) r3 show ?thesis
    by blast
qed

text \<open>
  The claim as stated fails where the combined buffer cannot be allocated: the result
  is 0 and no master-secret function is called. And for plain PSK with a three-byte
  premaster the buffer holds two zero bytes, the length of the PSK, not three.
\<close>

theorem ssl_generate_master_secret_psk_not_always:
  "map_sum id (\<lambda>r. (gms_ret r, gms_kdf_input r))
     (ssl_generate_master_secret (sample_externals\<lparr>OPENSSL_malloc := (\<lambda>n. False)\<rparr>) sample_macros
        (sample_psk_ssl 0x8 [0xAA, 0xBB]) None 0 0) =
     Inr (0, None) \<and>
   map_sum id gms_kdf_input
     (ssl_generate_master_secret sample_externals sample_macros
        (sample_psk_ssl 0x8 [0xAA, 0xBB]) (Some [1, 2, 3]) 3 0) =
     Inr (Some [0, 2, 0, 0, 0, 2, 0xAA, 0xBB])"
proof -
  have a: "map_sum id (\<lambda>r. (gms_ret r, gms_kdf_input r))
     (ssl_generate_master_secret (sample_externals\<lparr>OPENSSL_malloc := (\<lambda>n. False)\<rparr>) sample_macros
        (sample_psk_ssl 0x8 [0xAA, 0xBB]) None 0 0) =
     Inr (0, None)"
    by (simp add: ssl_generate_master_secret_def sample_psk_ssl_def sample_macros_def
        sample_externals_def sample_ssl_def sample_cipher_def gms_err_def)
  have c: "map_sum id gms_kdf_input
     (ssl_generate_master_secret sample_externals sample_macros
        (sample_psk_ssl 0x8 [0xAA, 0xBB]) (Some [1, 2, 3]) 3 0) =
     Inr (Some [0, 2, 0, 0, 0, 2, 0xAA, 0xBB])"
    by (simp add: ssl_generate_master_secret_def sample_psk_ssl_def sample_macros_def
        sample_externals_def sample_ssl_def sample_cipher_def sample_session_def s2n_def
        read_bytes_def call_generate_master_secret_def gms_err_def)
  from a c show ?thesis by simp
qed

section \<open>Properties of the control dispatchers\<close>

text \<open>
  C2, as the code has it. Through the callback dispatchers the command
  \<^verbatim>\<open>SSL_CTRL_SET_TMP_DH_CB\<close> is accepted: \<open>ssl3_callback_ctrl\<close> and
  \<open>ssl3_ctx_callback_ctrl\<close> store the callback in the certificate configuration and
  return 1. Only the value dispatchers reject the command: \<open>ssl3_ctrl\<close> and
  \<open>ssl3_ctx_ctrl\<close> raise "should not have been called", return 0 and change nothing.
\<close>

theorem set_tmp_dh_cb_dispatch:
  "ssl3_callback_ctrl s SSL_CTRL_SET_TMP_DH_CB fp = (1, s\<lparr>cert_dh_tmp_cb := fp\<rparr>) \<and>
   ssl3_ctx_callback_ctrl H ctx SSL_CTRL_SET_TMP_DH_CB fp = (1, ctx\<lparr>ctx_cert_dh_tmp_cb := fp\<rparr>) \<and>
   ssl3_ctrl E H s SSL_CTRL_SET_TMP_DH_CB larg parg =
     Inr \<lparr>ctrl_ret = 0, ctrl_state = s, ctrl_parg = parg,
          ctrl_errors = [ERR_R_SHOULD_NOT_HAVE_BEEN_CALLED]\<rparr> \<and>
   ssl3_ctx_ctrl ctx SSL_CTRL_SET_TMP_DH_CB larg parg =
     Inr \<lparr>ctrl_ret = 0, ctrl_state = ctx, ctrl_parg = parg,
          ctrl_errors = [ERR_R_SHOULD_NOT_HAVE_BEEN_CALLED]\<rparr>"
  by (simp add: ssl3_callback_ctrl_def ssl3_ctx_callback_ctrl_def ssl3_ctrl_def ssl3_ctx_ctrl_def)

text \<open>
  The claim as stated fails: registering the callback at address \<open>0x1234\<close> succeeds on
  a connection and on a context, and the callback is stored.
\<close>

theorem set_tmp_dh_cb_callback_accepted:
  "fst (ssl3_callback_ctrl sample_ssl SSL_CTRL_SET_TMP_DH_CB 0x1234) = 1 \<and>
   cert_dh_tmp_cb (snd (ssl3_callback_ctrl sample_ssl SSL_CTRL_SET_TMP_DH_CB 0x1234)) = 0x1234 \<and>
   fst (ssl3_ctx_callback_ctrl sample_macros sample_ctx SSL_CTRL_SET_TMP_DH_CB 0x1234) = 1 \<and>
   ctx_cert_dh_tmp_cb (snd (ssl3_ctx_callback_ctrl sample_macros sample_ctx SSL_CTRL_SET_TMP_DH_CB 0x1234)) =
     0x1234 \<and>
   map_sum id ctrl_ret (ssl3_ctrl sample_externals sample_macros sample_ssl SSL_CTRL_SET_TMP_DH_CB 0 PNULL) =
     Inr 0 \<and>
   map_sum id ctrl_errors (ssl3_ctrl sample_externals sample_macros sample_ssl SSL_CTRL_SET_TMP_DH_CB 0 PNULL) =
     Inr [ERR_R_SHOULD_NOT_HAVE_BEEN_CALLED]"
  by (simp add: ssl3_callback_ctrl_def ssl3_ctx_callback_ctrl_def ssl3_ctrl_def)

lemma get_negotiated_group_cases:
  "ssl3_ctrl E H s SSL_CTRL_GET_NEGOTIATED_GROUP larg parg =
     (if SSL_IS_TLS13 E s \<and> s3_did_kex s \<noteq> 0
      then Inr \<lparr>ctrl_ret = tls1_group_id2nid E (s3_group_id s) 1, ctrl_state = s,
                ctrl_parg = parg, ctrl_errors = []\<rparr>
      else case session s of
             None \<Rightarrow> Inl NULL_dereference
           | Some sess \<Rightarrow>
               Inr \<lparr>ctrl_ret = tls1_group_id2nid E (word_of_int (kex_group sess)) 1,
                    ctrl_state = s, ctrl_parg = parg, ctrl_errors = []\<rparr>)"
  by (simp add: ssl3_ctrl_def split: option.splits)

lemma get_groups_without_session:
  "session s = None \<Longrightarrow>
   ssl3_ctrl E H s SSL_CTRL_GET_GROUPS larg parg =
     Inr \<lparr>ctrl_ret = 0, ctrl_state = s, ctrl_parg = parg, ctrl_errors = []\<rparr>"
  by (simp add: ssl3_ctrl_def)

text \<open>
  C9. On a connection without a session that is not a TLS 1.3 connection after its key
  exchange, the case \<^verbatim>\<open>SSL_CTRL_GET_NEGOTIATED_GROUP\<close> reads \<^verbatim>\<open>s->session->kex_group\<close>
  through the null pointer; the case \<^verbatim>\<open>SSL_CTRL_GET_GROUPS\<close> on the same connection
  tests the session first and returns 0.
\<close>

theorem get_negotiated_group_without_session:
  "session sample_ssl = None \<and>
   ssl3_ctrl sample_externals sample_macros sample_ssl SSL_CTRL_GET_NEGOTIATED_GROUP 0 PNULL =
     Inl NULL_dereference \<and>
   ssl3_ctrl sample_externals sample_macros sample_ssl SSL_CTRL_GET_GROUPS 0 PNULL =
     Inr \<lparr>ctrl_ret = 0, ctrl_state = sample_ssl, ctrl_parg = PNULL, ctrl_errors = []\<rparr>"
  by (simp add: ssl3_ctrl_def sample_ssl_def sample_externals_def)

lemma memcpy_three:
  "memcpy (memcpy (memcpy buf 0 a) (length a) b) (length a + length b) c =
     a @ b @ c @ drop (length a + length b + length c) buf"
  by (simp add: memcpy_def add.commute add.left_commute)

lemma take_three:
  "take a keys @ take b (drop a keys) @ take c (drop (a + b) keys) = take (a + b + c) keys"
  by (metis add.assoc drop_drop take_add add.commute)

text \<open>
  C7, as the code has it. For the ticket-key commands of \<open>ssl3_ctx_ctrl\<close>, with
  \<open>tick_keylen\<close> the sum of the sizes of key name, HMAC key and bulk-cipher key: with no
  buffer, a get and also a set return \<open>tick_keylen\<close>, whatever the length argument; with
  a buffer and a length argument other than \<open>tick_keylen\<close>, both raise the invalid
  length error, return 0 and leave the keys and the buffer as they were; a set of
  exactly \<open>tick_keylen\<close> bytes stores them as key name, HMAC key and bulk-cipher key in
  this order, and a get into a buffer of that length then yields the same bytes.
\<close>

theorem ticket_keys_get_set:
  "(cmd = SSL_CTRL_SET_TLSEXT_TICKET_KEYS \<or> cmd = SSL_CTRL_GET_TLSEXT_TICKET_KEYS \<longrightarrow>
      ssl3_ctx_ctrl ctx cmd larg PNULL =
        Inr \<lparr>ctrl_ret = int (tick_keylen ctx), ctrl_state = ctx, ctrl_parg = PNULL,
             ctrl_errors = []\<rparr> \<and>
      (larg \<noteq> int (tick_keylen ctx) \<longrightarrow>
         ssl3_ctx_ctrl ctx cmd larg (PBytes keys) =
           Inr \<lparr>ctrl_ret = 0, ctrl_state = ctx, ctrl_parg = PBytes keys,
                ctrl_errors = [SSL_R_INVALID_TICKET_KEYS_LENGTH]\<rparr>)) \<and>
   (length keys = tick_keylen ctx \<and> length buf = tick_keylen ctx \<longrightarrow>
      (\<exists>ctx'. ssl3_ctx_ctrl ctx SSL_CTRL_SET_TLSEXT_TICKET_KEYS (int (tick_keylen ctx)) (PBytes keys) =
                Inr \<lparr>ctrl_ret = 1, ctrl_state = ctx', ctrl_parg = PBytes keys, ctrl_errors = []\<rparr> \<and>
              ctx_ext_tick_key_name ctx' @ ctx_ext_secure_tick_hmac_key ctx' @
                ctx_ext_secure_tick_aes_key ctx' = keys \<and>
              length (ctx_ext_tick_key_name ctx') = length (ctx_ext_tick_key_name ctx) \<and>
              length (ctx_ext_secure_tick_hmac_key ctx') = length (ctx_ext_secure_tick_hmac_key ctx) \<and>
              length (ctx_ext_secure_tick_aes_key ctx') = length (ctx_ext_secure_tick_aes_key ctx) \<and>
              ssl3_ctx_ctrl ctx' SSL_CTRL_GET_TLSEXT_TICKET_KEYS (int (tick_keylen ctx')) (PBytes buf) =
                Inr \<lparr>ctrl_ret = 1, ctrl_state = ctx', ctrl_parg = PBytes keys, ctrl_errors = []\<rparr>))"
proof -
  let ?n = "length (ctx_ext_tick_key_name ctx)"
  let ?h = "length (ctx_ext_secure_tick_hmac_key ctx)"
  let ?a = "length (ctx_ext_secure_tick_aes_key ctx)"
  have null: "ssl3_ctx_ctrl ctx cmd larg PNULL =
        Inr \<lparr>ctrl_ret = int (tick_keylen ctx), ctrl_state = ctx, ctrl_parg = PNULL,
             ctrl_errors = []\<rparr>"
    if "cmd = SSL_CTRL_SET_TLSEXT_TICKET_KEYS \<or> cmd = SSL_CTRL_GET_TLSEXT_TICKET_KEYS"
    using that by (auto simp: ssl3_ctx_ctrl_def ticket_keys_ctrl_def tick_keylen_def)
  have bad: "ssl3_ctx_ctrl ctx cmd larg (PBytes keys) =
           Inr \<lparr>ctrl_ret = 0, ctrl_state = ctx, ctrl_parg = PBytes keys,
                ctrl_errors = [SSL_R_INVALID_TICKET_KEYS_LENGTH]\<rparr>"
    if "cmd = SSL_CTRL_SET_TLSEXT_TICKET_KEYS \<or> cmd = SSL_CTRL_GET_TLSEXT_TICKET_KEYS"
      and "larg \<noteq> int (tick_keylen ctx)"
    using that by (auto simp: ssl3_ctx_ctrl_def ticket_keys_ctrl_def tick_keylen_def)
  have round: "\<exists>ctx'. ssl3_ctx_ctrl ctx SSL_CTRL_SET_TLSEXT_TICKET_KEYS (int (tick_keylen ctx)) (PBytes keys) =
                Inr \<lparr>ctrl_ret = 1, ctrl_state = ctx', ctrl_parg = PBytes keys, ctrl_errors = []\<rparr> \<and>
              ctx_ext_tick_key_name ctx' @ ctx_ext_secure_tick_hmac_key ctx' @
                ctx_ext_secure_tick_aes_key ctx' = keys \<and>
              length (ctx_ext_tick_key_name ctx') = length (ctx_ext_tick_key_name ctx) \<and>
              length (ctx_ext_secure_tick_hmac_key ctx') = length (ctx_ext_secure_tick_hmac_key ctx) \<and>
              length (ctx_ext_secure_tick_aes_key ctx') = length (ctx_ext_secure_tick_aes_key ctx) \<and>
              ssl3_ctx_ctrl ctx' SSL_CTRL_GET_TLSEXT_TICKET_KEYS (int (tick_keylen ctx')) (PBytes buf) =
                Inr \<lparr>ctrl_ret = 1, ctrl_state = ctx', ctrl_parg = PBytes keys, ctrl_errors = []\<rparr>"
    if lk: "length keys = tick_keylen ctx" and lb: "length buf = tick_keylen ctx"
  proof -
    let ?ctx' = "ctx\<lparr>ctx_ext_tick_key_name := take ?n keys,
                      ctx_ext_secure_tick_hmac_key := take ?h (drop ?n keys),
                      ctx_ext_secure_tick_aes_key := take ?a (drop (?n + ?h) keys)\<rparr>"
    have len: "length keys = ?n + ?h + ?a"
      using lk by (simp add: tick_keylen_def)
    have set: "ssl3_ctx_ctrl ctx SSL_CTRL_SET_TLSEXT_TICKET_KEYS (int (tick_keylen ctx)) (PBytes keys) =
                Inr \<lparr>ctrl_ret = 1, ctrl_state = ?ctx', ctrl_parg = PBytes keys, ctrl_errors = []\<rparr>"
      using len by (simp add: ssl3_ctx_ctrl_def ticket_keys_ctrl_def tick_keylen_def Let_def)
    have cat: "take ?n keys @ take ?h (drop ?n keys) @ take ?a (drop (?n + ?h) keys) = keys"
      using take_three [of ?n keys ?h ?a] len by simp
    have l1: "length (take ?n keys) = ?n" "length (take ?h (drop ?n keys)) = ?h"
      "length (take ?a (drop (?n + ?h) keys)) = ?a"
      using len by simp_all
    have tk: "tick_keylen ?ctx' = tick_keylen ctx"
      using l1 by (simp add: tick_keylen_def)
    have "memcpy (memcpy (memcpy buf 0 (take ?n keys)) ?n (take ?h (drop ?n keys)))
            (?n + ?h) (take ?a (drop (?n + ?h) keys)) = keys"
      using memcpy_three [of buf "take ?n keys" "take ?h (drop ?n keys)"
          "take ?a (drop (?n + ?h) keys)"] l1 cat lb len
      by (simp add: tick_keylen_def)
    then have get: "ssl3_ctx_ctrl ?ctx' SSL_CTRL_GET_TLSEXT_TICKET_KEYS (int (tick_keylen ?ctx')) (PBytes buf) =
                Inr \<lparr>ctrl_ret = 1, ctrl_state = ?ctx', ctrl_parg = PBytes keys, ctrl_errors = []\<rparr>"
      using l1 lb len
      by (simp add: ssl3_ctx_ctrl_def ticket_keys_ctrl_def tick_keylen_def Let_def)
    from set cat l1 get show ?thesis
      by (intro exI [of _ ?ctx']) simp
  qed
  from null bad round show ?thesis by blast
qed

theorem ticket_keys_get_set_witness:
  "ssl3_ctx_ctrl sample_ctx SSL_CTRL_GET_TLSEXT_TICKET_KEYS 0 PNULL =
     Inr \<lparr>ctrl_ret = 80, ctrl_state = sample_ctx, ctrl_parg = PNULL, ctrl_errors = []\<rparr> \<and>
   ssl3_ctx_ctrl sample_ctx SSL_CTRL_SET_TLSEXT_TICKET_KEYS 79 (PBytes (replicate 79 0x5A)) =
     Inr \<lparr>ctrl_ret = 0, ctrl_state = sample_ctx, ctrl_parg = PBytes (replicate 79 0x5A),
          ctrl_errors = [SSL_R_INVALID_TICKET_KEYS_LENGTH]\<rparr> \<and>
   (\<exists>ctx'. ssl3_ctx_ctrl sample_ctx SSL_CTRL_SET_TLSEXT_TICKET_KEYS 80
             (PBytes (replicate 16 1 @ replicate 32 2 @ replicate 32 3)) =
             Inr \<lparr>ctrl_ret = 1, ctrl_state = ctx',
                  ctrl_parg = PBytes (replicate 16 1 @ replicate 32 2 @ replicate 32 3),
                  ctrl_errors = []\<rparr> \<and>
           ssl3_ctx_ctrl ctx' SSL_CTRL_GET_TLSEXT_TICKET_KEYS 80 (PBytes (replicate 80 0)) =
             Inr \<lparr>ctrl_ret = 1, ctrl_state = ctx',
                  ctrl_parg = PBytes (replicate 16 1 @ replicate 32 2 @ replicate 32 3),
                  ctrl_errors = []\<rparr>)"
proof -
  let ?keys = "replicate 16 1 @ replicate 32 2 @ replicate 32 3 :: byte list"
  have n: "tick_keylen sample_ctx = 80"
    by (simp add: tick_keylen_def sample_ctx_def)
  have a: "ssl3_ctx_ctrl sample_ctx SSL_CTRL_GET_TLSEXT_TICKET_KEYS 0 PNULL =
     Inr \<lparr>ctrl_ret = 80, ctrl_state = sample_ctx, ctrl_parg = PNULL, ctrl_errors = []\<rparr>"
    using ticket_keys_get_set [of SSL_CTRL_GET_TLSEXT_TICKET_KEYS sample_ctx 0] n by simp
  have b: "ssl3_ctx_ctrl sample_ctx SSL_CTRL_SET_TLSEXT_TICKET_KEYS 79 (PBytes (replicate 79 0x5A)) =
     Inr \<lparr>ctrl_ret = 0, ctrl_state = sample_ctx, ctrl_parg = PBytes (replicate 79 0x5A),
          ctrl_errors = [SSL_R_INVALID_TICKET_KEYS_LENGTH]\<rparr>"
    using ticket_keys_get_set [of SSL_CTRL_SET_TLSEXT_TICKET_KEYS sample_ctx 79 "replicate 79 0x5A"] n
    by simp
  have lk: "length ?keys = tick_keylen sample_ctx" and lb: "length (replicate 80 (0 :: byte)) = tick_keylen sample_ctx"
    using n by simp_all
  from ticket_keys_get_set [of SSL_CTRL_GET_TLSEXT_TICKET_KEYS sample_ctx 0 ?keys "replicate 80 0"] lk lb
  obtain ctx' where set: "ssl3_ctx_ctrl sample_ctx SSL_CTRL_SET_TLSEXT_TICKET_KEYS
        (int (tick_keylen sample_ctx)) (PBytes ?keys) =
        Inr \<lparr>ctrl_ret = 1, ctrl_state = ctx', ctrl_parg = PBytes ?keys, ctrl_errors = []\<rparr>"
    and l: "length (ctx_ext_tick_key_name ctx') = length (ctx_ext_tick_key_name sample_ctx)"
      "length (ctx_ext_secure_tick_hmac_key ctx') = length (ctx_ext_secure_tick_hmac_key sample_ctx)"
      "length (ctx_ext_secure_tick_aes_key ctx') = length (ctx_ext_secure_tick_aes_key sample_ctx)"
    and get: "ssl3_ctx_ctrl ctx' SSL_CTRL_GET_TLSEXT_TICKET_KEYS (int (tick_keylen ctx'))
        (PBytes (replicate 80 0)) =
        Inr \<lparr>ctrl_ret = 1, ctrl_state = ctx', ctrl_parg = PBytes ?keys, ctrl_errors = []\<rparr>"
    by blast
  have "tick_keylen ctx' = 80"
    using l n by (simp add: tick_keylen_def)
  with set get n have "ssl3_ctx_ctrl sample_ctx SSL_CTRL_SET_TLSEXT_TICKET_KEYS 80 (PBytes ?keys) =
        Inr \<lparr>ctrl_ret = 1, ctrl_state = ctx', ctrl_parg = PBytes ?keys, ctrl_errors = []\<rparr> \<and>
      ssl3_ctx_ctrl ctx' SSL_CTRL_GET_TLSEXT_TICKET_KEYS 80 (PBytes (replicate 80 0)) =
        Inr \<lparr>ctrl_ret = 1, ctrl_state = ctx', ctrl_parg = PBytes ?keys, ctrl_errors = []\<rparr>"
    by simp
  with a b show ?thesis by blast
qed

text \<open>
  The claim as stated fails for a set without a buffer: with the length argument 5,
  not the required 80, it returns 80 and raises no error.
\<close>

theorem ticket_keys_set_without_buffer:
  "ssl3_ctx_ctrl sample_ctx SSL_CTRL_SET_TLSEXT_TICKET_KEYS 5 PNULL =
     Inr \<lparr>ctrl_ret = 80, ctrl_state = sample_ctx, ctrl_parg = PNULL, ctrl_errors = []\<rparr>"
  by (simp add: ssl3_ctx_ctrl_def ticket_keys_ctrl_def tick_keylen_def sample_ctx_def)

section \<open>Properties of the cipher negotiation\<close>

lemmas sample_defs = sample_tls12_ssl_def sample_tls13_psk_ssl_def suite_AES128_SHA_def
  suite_AES256_SHA_def suite_ECDHE_ECDSA_AES128_SHA_def suite_ECDHE_RSA_AES128_SHA_def
  suite_TLS_AES_256_GCM_SHA384_def suite_TLS_AES_128_GCM_SHA256_def sample_tls12_suite_def
  sample_tls13_suite_def sample_cipher_def sample_ssl_def sample_externals_def sample_macros_def

lemma sk_find_nonneg: "0 \<le> sk_SSL_CIPHER_find st c \<longleftrightarrow> c \<in> set st"
  by (induction st) (auto simp: Let_def)

lemma sk_find_lower: "- 1 \<le> sk_SSL_CIPHER_find st c"
  by (induction st) (auto simp: Let_def)

lemma sk_find_value:
  "c \<in> set st \<Longrightarrow> sk_SSL_CIPHER_value st (sk_SSL_CIPHER_find st c) = c"
proof (induction st)
  case Nil
  then show ?case by simp
next
  case (Cons x xs)
  show ?case
  proof (cases "x = c")
    case True
    then show ?thesis by (simp add: sk_SSL_CIPHER_value_def)
  next
    case False
    with Cons.prems have mem: "c \<in> set xs" by simp
    then have nn: "0 \<le> sk_SSL_CIPHER_find xs c"
      by (simp add: sk_find_nonneg)
    have "xs ! nat (sk_SSL_CIPHER_find xs c) = c"
      using Cons.IH [OF mem] by (simp add: sk_SSL_CIPHER_value_def)
    with False nn show ?thesis
      by (simp add: sk_SSL_CIPHER_value_def Let_def nat_add_distrib)
  qed
qed

lemma choose_match_plain:
  assumes "s3_is_probably_safari s = 0"
  shows "choose_match E H s False allow c k a ret =
     (if c \<in> set allow \<and> ssl_security E s (SSL_SECOP_CIPHER_SHARED H) (strength_bits c) 0 c
      then Break (Some c) else Continue k a ret)"
  using assms by (auto simp: choose_match_def Let_def sk_find_nonneg sk_find_value)

lemma choose_step_plain:
  assumes "s3_is_probably_safari s = 0"
  shows "\<exists>k' a'. choose_step E H s False allow c k a ret =
     (if passes_filters E H s allow c then Break (Some c) else Continue k' a' ret)"
proof (cases "version_ok E s c")
  case False
  then have "choose_step E H s False allow c k a ret = Continue k a ret"
    by (auto simp: choose_step_def version_ok_def split: if_splits)
  with False show ?thesis by (auto simp: passes_filters_def)
next
  case v: True
  show ?thesis
  proof (cases "SSL_IS_TLS13 E s")
    case True
    with v have "choose_step E H s False allow c k a ret = choose_match E H s False allow c k a ret"
      by (auto simp: choose_step_def version_ok_def split: if_splits)
    with True v show ?thesis
      by (auto simp: choose_match_plain [OF assms] passes_filters_def capability_ok_def)
  next
    case n13: False
    show ?thesis
    proof (cases "capability_ok E H s c")
      case True
      with n13 v have "choose_step E H s False allow c k a ret =
          choose_match E H s False allow c (algorithm_mkey c) (algorithm_auth c) ret"
        by (auto simp: choose_step_def version_ok_def capability_ok_def Let_def split: if_splits)
      with True v show ?thesis
        by (auto simp: choose_match_plain [OF assms] passes_filters_def)
    next
      case False
      with n13 v have "choose_step E H s False allow c k a ret =
          Continue (algorithm_mkey c) (algorithm_auth c) ret"
        by (auto simp: choose_step_def version_ok_def capability_ok_def Let_def split: if_splits)
      with False show ?thesis by (auto simp: passes_filters_def)
    qed
  qed
qed

lemma choose_loop_plain:
  assumes "s3_is_probably_safari s = 0"
  shows "choose_loop (choose_step E H s False allow) prio k a ret =
     (case find (passes_filters E H s allow) prio of Some c \<Rightarrow> Some c | None \<Rightarrow> ret)"
proof (induction prio arbitrary: k a)
  case Nil
  then show ?case by simp
next
  case (Cons c prio)
  from choose_step_plain [OF assms, of E H allow c k a ret]
  obtain k' a' where st: "choose_step E H s False allow c k a ret =
     (if passes_filters E H s allow c then Break (Some c) else Continue k' a' ret)"
    by blast
  show ?case
    using st Cons.IH [of k' a'] by simp
qed

text \<open>
  C1, as the code has it. When Suite-B mode and the server-preference option are both
  inactive, and neither of the two tie-breaking rules applies (the TLS 1.3 preference
  for SHA-256 suites, active with a PSK server callback and no certificate; the
  fallback for ECDHE-ECDSA suites on a connection flagged as probably Safari),
  \<open>ssl3_choose_cipher\<close> goes through the client's list in its order and returns the
  first candidate that passes the version, capability, allow-list and security-policy
  filters, evaluated on the connection after the masks were recomputed; there is no
  result when no candidate passes. In particular, for suites \<open>A\<close> and \<open>B\<close> that pass,
  the offer \<open>[A, B]\<close> against the server list \<open>[B, A]\<close> yields \<open>A\<close>, and the offer
  \<open>[B, A]\<close> yields \<open>B\<close>.
\<close>

theorem ssl3_choose_cipher_client_order:
  assumes "\<not> tls1_suiteb E s"
    and "options s AND SSL_OP_CIPHER_SERVER_PREFERENCE H = 0"
    and "\<not> (SSL_IS_TLS13 E s \<and> psk_server_callback s \<noteq> 0 \<and>
            list_all (\<lambda>j. \<not> ssl_has_cert E s j) [0..<SSL_PKEY_NUM H])"
    and "s3_is_probably_safari (snd (choose_prepare E H s)) = 0"
  shows "fst (ssl3_choose_cipher E H s clnt srvr) =
           find (passes_filters E H (snd (choose_prepare E H s)) srvr) clnt \<and>
         (passes_filters E H (snd (choose_prepare E H s)) [B, A] A \<and>
          passes_filters E H (snd (choose_prepare E H s)) [B, A] B \<longrightarrow>
            fst (ssl3_choose_cipher E H s [A, B] [B, A]) = Some A \<and>
            fst (ssl3_choose_cipher E H s [B, A] [B, A]) = Some B)"
proof -
  define s1 where "s1 = snd (choose_prepare E H s)"
  have order: "choose_order E H s c v = (c, v)" for c v
    using assms(1,2) by (simp add: choose_order_def)
  have prep: "choose_prepare E H s = (False, s1)"
    using assms(3) by (auto simp: choose_prepare_def s1_def)
  have safari: "s3_is_probably_safari s1 = 0"
    using assms(4) by (simp add: s1_def)
  have gen: "fst (ssl3_choose_cipher E H s c v) = find (passes_filters E H s1 v) c" for c v
  proof -
    have "fst (ssl3_choose_cipher E H s c v) = choose_loop (choose_step E H s1 False v) c 0 0 None"
      by (simp add: ssl3_choose_cipher_def order prep)
    also have "\<dots> = find (passes_filters E H s1 v) c"
      using choose_loop_plain [OF safari, of E H v c 0 0 None]
      by (simp split: option.splits)
    finally show ?thesis .
  qed
  show ?thesis
    unfolding s1_def [symmetric] by (simp add: gen)
qed

theorem ssl3_choose_cipher_client_order_witness:
  "fst (ssl3_choose_cipher sample_externals sample_macros sample_tls12_ssl
          [suite_AES128_SHA, suite_AES256_SHA] [suite_AES256_SHA, suite_AES128_SHA]) =
     Some suite_AES128_SHA \<and>
   fst (ssl3_choose_cipher sample_externals sample_macros sample_tls12_ssl
          [suite_AES256_SHA, suite_AES128_SHA] [suite_AES256_SHA, suite_AES128_SHA]) =
     Some suite_AES256_SHA"
proof -
  have h1: "\<not> tls1_suiteb sample_externals sample_tls12_ssl"
    by (simp add: sample_externals_def)
  have h2: "options sample_tls12_ssl AND SSL_OP_CIPHER_SERVER_PREFERENCE sample_macros = 0"
    by (simp add: sample_tls12_ssl_def sample_ssl_def)
  have h3: "\<not> (SSL_IS_TLS13 sample_externals sample_tls12_ssl \<and>
      psk_server_callback sample_tls12_ssl \<noteq> 0 \<and>
      list_all (\<lambda>j. \<not> ssl_has_cert sample_externals sample_tls12_ssl j)
        [0..<SSL_PKEY_NUM sample_macros])"
    by (simp add: sample_externals_def sample_tls12_ssl_def sample_ssl_def)
  have prep: "snd (choose_prepare sample_externals sample_macros sample_tls12_ssl) = sample_tls12_ssl"
    by (simp add: choose_prepare_def sample_externals_def)
  have h4: "s3_is_probably_safari
      (snd (choose_prepare sample_externals sample_macros sample_tls12_ssl)) = 0"
    unfolding prep by (simp add: sample_tls12_ssl_def sample_ssl_def)
  have pA: "passes_filters sample_externals sample_macros
      (snd (choose_prepare sample_externals sample_macros sample_tls12_ssl))
      [suite_AES256_SHA, suite_AES128_SHA] suite_AES128_SHA"
    unfolding prep
    by (simp add: passes_filters_def version_ok_def capability_ok_def sample_defs)
  have pB: "passes_filters sample_externals sample_macros
      (snd (choose_prepare sample_externals sample_macros sample_tls12_ssl))
      [suite_AES256_SHA, suite_AES128_SHA] suite_AES256_SHA"
    unfolding prep
    by (simp add: passes_filters_def version_ok_def capability_ok_def sample_defs)
  from ssl3_choose_cipher_client_order [OF h1 h2 h3 h4, of "[]" "[]" suite_AES256_SHA suite_AES128_SHA]
    pA pB
  show ?thesis by blast
qed

text \<open>
  The claim as stated fails under either tie-breaking rule, with client priority in
  force and every offered suite passing the four filters. On a TLS 1.3 connection with
  a PSK server callback and no certificate, the offer of the SHA-384 suite before the
  SHA-256 suite yields the SHA-256 suite. On a TLS 1.2 connection flagged as probably
  Safari, the offer of the ECDHE-ECDSA suite before the ECDHE-RSA suite yields the
  ECDHE-RSA suite.
\<close>

theorem ssl3_choose_cipher_not_first:
  "\<not> tls1_suiteb sample_externals sample_tls13_psk_ssl \<and>
   options sample_tls13_psk_ssl AND SSL_OP_CIPHER_SERVER_PREFERENCE sample_macros = 0 \<and>
   passes_filters sample_externals sample_macros sample_tls13_psk_ssl
     [suite_TLS_AES_128_GCM_SHA256, suite_TLS_AES_256_GCM_SHA384] suite_TLS_AES_256_GCM_SHA384 \<and>
   ssl3_choose_cipher sample_externals sample_macros sample_tls13_psk_ssl
     [suite_TLS_AES_256_GCM_SHA384, suite_TLS_AES_128_GCM_SHA256]
     [suite_TLS_AES_128_GCM_SHA256, suite_TLS_AES_256_GCM_SHA384] =
     (Some suite_TLS_AES_128_GCM_SHA256, sample_tls13_psk_ssl) \<and>
   \<not> tls1_suiteb sample_externals (sample_tls12_ssl\<lparr>s3_is_probably_safari := 1\<rparr>) \<and>
   options (sample_tls12_ssl\<lparr>s3_is_probably_safari := 1\<rparr>) AND
     SSL_OP_CIPHER_SERVER_PREFERENCE sample_macros = 0 \<and>
   passes_filters sample_externals sample_macros (sample_tls12_ssl\<lparr>s3_is_probably_safari := 1\<rparr>)
     [suite_ECDHE_RSA_AES128_SHA, suite_ECDHE_ECDSA_AES128_SHA] suite_ECDHE_ECDSA_AES128_SHA \<and>
   ssl3_choose_cipher sample_externals sample_macros (sample_tls12_ssl\<lparr>s3_is_probably_safari := 1\<rparr>)
     [suite_ECDHE_ECDSA_AES128_SHA, suite_ECDHE_RSA_AES128_SHA]
     [suite_ECDHE_RSA_AES128_SHA, suite_ECDHE_ECDSA_AES128_SHA] =
     (Some suite_ECDHE_RSA_AES128_SHA, sample_tls12_ssl\<lparr>s3_is_probably_safari := 1\<rparr>)"
proof -
  have a: "\<not> tls1_suiteb sample_externals s" for s
    by (simp add: sample_externals_def)
  have b: "options sample_tls13_psk_ssl AND SSL_OP_CIPHER_SERVER_PREFERENCE sample_macros = 0"
    "options (sample_tls12_ssl\<lparr>s3_is_probably_safari := 1\<rparr>) AND
       SSL_OP_CIPHER_SERVER_PREFERENCE sample_macros = 0"
    by (simp_all add: sample_tls13_psk_ssl_def sample_tls12_ssl_def sample_ssl_def)
  have c: "passes_filters sample_externals sample_macros sample_tls13_psk_ssl
     [suite_TLS_AES_128_GCM_SHA256, suite_TLS_AES_256_GCM_SHA384] suite_TLS_AES_256_GCM_SHA384"
    by (simp add: passes_filters_def version_ok_def capability_ok_def sample_defs)
  have d: "ssl3_choose_cipher sample_externals sample_macros sample_tls13_psk_ssl
     [suite_TLS_AES_256_GCM_SHA384, suite_TLS_AES_128_GCM_SHA256]
     [suite_TLS_AES_128_GCM_SHA256, suite_TLS_AES_256_GCM_SHA384] =
     (Some suite_TLS_AES_128_GCM_SHA256, sample_tls13_psk_ssl)"
    by (simp add: ssl3_choose_cipher_def choose_order_def choose_prepare_def choose_step_def
        choose_match_def sk_SSL_CIPHER_value_def list_all_iff sample_defs)
  have e: "passes_filters sample_externals sample_macros (sample_tls12_ssl\<lparr>s3_is_probably_safari := 1\<rparr>)
     [suite_ECDHE_RSA_AES128_SHA, suite_ECDHE_ECDSA_AES128_SHA] suite_ECDHE_ECDSA_AES128_SHA"
    by (simp add: passes_filters_def version_ok_def capability_ok_def sample_defs)
  have f: "ssl3_choose_cipher sample_externals sample_macros
     (sample_tls12_ssl\<lparr>s3_is_probably_safari := 1\<rparr>)
     [suite_ECDHE_ECDSA_AES128_SHA, suite_ECDHE_RSA_AES128_SHA]
     [suite_ECDHE_RSA_AES128_SHA, suite_ECDHE_ECDSA_AES128_SHA] =
     (Some suite_ECDHE_RSA_AES128_SHA, sample_tls12_ssl\<lparr>s3_is_probably_safari := 1\<rparr>)"
    by (simp add: ssl3_choose_cipher_def choose_order_def choose_prepare_def choose_step_def
        choose_match_def sk_SSL_CIPHER_value_def sample_defs)
  from a b c d e f show ?thesis by blast
qed

end
